(* ===== verification/Prelude.thy ===== *)
theory Prelude
  imports Complex_Main
begin

text \<open>
  Shared vocabulary of the development: the Python errors the script can raise, raster
  grids as lists of rows (a numpy 2-D array read by \<open>ReadAsArray\<close>), the cell-wise
  operations numpy and the raster engines apply to them, and the lemmas about shapes and
  cell access that every component proof uses.  Cell values are idealised as \<open>real\<close>
  (the script's float64/Float32 arrays with exact arithmetic).
\<close>

named_theorems grid_simps "cell access and shape facts for grids"

section \<open>Python errors\<close>

datatype py_error =
    FileNotFoundError string
  | AttributeError string
  | ValueError string
  | UnboundLocalError string
  | KeyError string

section \<open>Grids\<close>

type_synonym 'a grid = "'a list list"

definition ncols :: "'a grid \<Rightarrow> nat" where
  "ncols g = (case g of [] \<Rightarrow> 0 | r # _ \<Rightarrow> length r)"

text \<open>A numpy 2-D array is rectangular: \<open>m\<close> rows of \<open>n\<close> cells each.\<close>

definition rect :: "nat \<Rightarrow> nat \<Rightarrow> 'a grid \<Rightarrow> bool" where
  "rect m n g \<longleftrightarrow> length g = m \<and> list_all (\<lambda>r. length r = n) g"

definition gmap :: "('a \<Rightarrow> 'b) \<Rightarrow> 'a grid \<Rightarrow> 'b grid" where
  "gmap f g = map (map f) g"

definition gzip :: "('a \<Rightarrow> 'b \<Rightarrow> 'c) \<Rightarrow> 'a grid \<Rightarrow> 'b grid \<Rightarrow> 'c grid" where
  "gzip f a b = map2 (map2 f) a b"

definition const_grid :: "nat \<Rightarrow> nat \<Rightarrow> 'a \<Rightarrow> 'a grid" where
  "const_grid m n v = replicate m (replicate n v)"

text \<open>A cell position inside an \<open>m \<times> n\<close> grid.\<close>

abbreviation in_grid :: "nat \<Rightarrow> nat \<Rightarrow> nat \<Rightarrow> nat \<Rightarrow> bool" where
  "in_grid m n i j \<equiv> i < m \<and> j < n"

section \<open>Shape lemmas\<close>

lemma rect_Nil [grid_simps]: "rect m n [] \<longleftrightarrow> m = 0"
  by (auto simp: rect_def)

lemma rect_Cons [grid_simps]:
  "rect m n (r # g) \<longleftrightarrow> 0 < m \<and> length r = n \<and> rect (m - 1) n g"
  by (cases m) (auto simp: rect_def)

lemma rect_length [grid_simps]: "rect m n g \<Longrightarrow> length g = m"
  by (simp add: rect_def)

lemma rect_row_length [grid_simps]: "rect m n g \<Longrightarrow> i < m \<Longrightarrow> length (g ! i) = n"
  by (simp add: rect_def list_all_length)

lemma rect_ncols [grid_simps]: "rect m n g \<Longrightarrow> 0 < m \<Longrightarrow> ncols g = n"
  by (cases g) (auto simp: rect_def ncols_def)

lemma rect_shape [grid_simps]: "rect m n g \<Longrightarrow> rect (length g) (ncols g) g"
  by (cases g) (auto simp: rect_def ncols_def)

lemma rect_iff_nth:
  "rect m n g \<longleftrightarrow> length g = m \<and> (\<forall>i < m. length (g ! i) = n)"
  by (auto simp: rect_def list_all_length)

lemma rect_eqI:
  assumes "rect m n a" "rect m n b" "\<And>i j. in_grid m n i j \<Longrightarrow> a ! i ! j = b ! i ! j"
  shows "a = b"
proof (rule nth_equalityI)
  show "length a = length b" using assms(1,2) by (simp add: rect_def)
next
  fix i assume i: "i < length a"
  with assms(1) have im: "i < m" by (simp add: rect_def)
  show "a ! i = b ! i"
  proof (rule nth_equalityI)
    show "length (a ! i) = length (b ! i)"
      using assms(1,2) im by (simp add: rect_row_length)
  next
    fix j assume "j < length (a ! i)"
    with assms(1) im have "j < n" by (simp add: rect_row_length)
    with im assms(3) show "a ! i ! j = b ! i ! j" by simp
  qed
qed

lemma rect_gmap [grid_simps]: "rect m n (gmap f g) \<longleftrightarrow> rect m n g"
  by (simp add: rect_def gmap_def list_all_length)

lemma rect_gzip [grid_simps]:
  "rect m n a \<Longrightarrow> rect m n b \<Longrightarrow> rect m n (gzip f a b)"
  by (simp add: rect_iff_nth gzip_def)

lemma rect_const_grid [grid_simps]: "rect m n (const_grid m n v)"
  by (simp add: rect_def const_grid_def list_all_length)

section \<open>Cell access\<close>

text \<open>Cell access is stated over \<open>length\<close>, which the simplifier discharges;
  \<open>rect_idx\<close> turns a shape and an index bound into those length facts.\<close>

lemma rect_idx:
  "rect m n g \<Longrightarrow> in_grid m n i j \<Longrightarrow> i < length g \<and> j < length (g ! i)"
  by (simp add: rect_iff_nth)

lemma length_gmap [simp]: "length (gmap f g) = length g"
  by (simp add: gmap_def)

lemma length_gmap_nth [simp]: "i < length g \<Longrightarrow> length (gmap f g ! i) = length (g ! i)"
  by (simp add: gmap_def)

lemma length_gzip [simp]: "length (gzip f a b) = min (length a) (length b)"
  by (simp add: gzip_def)

lemma length_gzip_nth [simp]:
  "i < length a \<Longrightarrow> i < length b \<Longrightarrow> length (gzip f a b ! i) = min (length (a ! i)) (length (b ! i))"
  by (simp add: gzip_def)

lemma gmap_nth [grid_simps]:
  "i < length g \<Longrightarrow> j < length (g ! i) \<Longrightarrow> gmap f g ! i ! j = f (g ! i ! j)"
  by (simp add: gmap_def)

lemma gzip_nth [grid_simps]:
  "i < length a \<Longrightarrow> i < length b \<Longrightarrow> j < length (a ! i) \<Longrightarrow> j < length (b ! i) \<Longrightarrow>
   gzip f a b ! i ! j = f (a ! i ! j) (b ! i ! j)"
  by (simp add: gzip_def)

lemma const_grid_nth [grid_simps]:
  "i < m \<Longrightarrow> j < n \<Longrightarrow> const_grid m n v ! i ! j = v"
  by (simp add: const_grid_def)

lemma ncols_gmap [simp]: "ncols (gmap f g) = ncols g"
  by (cases g) (simp_all add: ncols_def gmap_def)

lemma list_all_gmap [simp]:
  "list_all (list_all P) (gmap f g) \<longleftrightarrow> list_all (list_all (\<lambda>x. P (f x))) g"
  by (simp add: gmap_def list_all_iff)

lemma gmap_gmap [simp]: "gmap f (gmap g x) = gmap (f \<circ> g) x"
  by (simp add: gmap_def)

lemma gmap_const_grid [simp]: "gmap f (const_grid m n v) = const_grid m n (f v)"
  by (simp add: gmap_def const_grid_def)

lemma gzip_const_grid [simp]:
  "gzip f (const_grid m n a) (const_grid m n b) = const_grid m n (f a b)"
  by (simp add: gzip_def const_grid_def zip_replicate)

lemma gzip_commute:
  assumes "\<And>x y. f x y = f y x"
  shows "gzip f a b = gzip f b a"
  unfolding gzip_def
proof (induction a arbitrary: b)
  case Nil
  then show ?case by simp
next
  case (Cons r a)
  then show ?case
  proof (cases b)
    case (Cons s b')
    have "map2 f r s = map2 f s r"
    proof (induction r arbitrary: s)
      case (Cons x r)
      then show ?case by (cases s) (simp_all add: assms)
    qed simp
    with Cons.IH Cons show ?thesis by simp
  qed simp
qed

end
