(* ===== verification/Raster.thy ===== *)
theory Raster
  imports Prelude
begin

text \<open>
  The raster data model (a GDAL single-band dataset: cell array, no-data sentinel and
  affine geotransform), the study-area window the script derives from the clipped land
  cover (GridAligner, \<open>src/MyggmodellTRANSAFE_Uppsala.py\<close> lines 116--123), and the
  building and vegetation masks the script computes with numpy (lines 202--213).
\<close>

section \<open>Rasters\<close>

text \<open>\<open>GetGeoTransform()\<close>: \<open>(originX, pixelWidth, rot1, originY, rot2, pixelHeight)\<close>.\<close>

record geotransform =
  gt_x0 :: real
  gt_pw :: real
  gt_r1 :: real
  gt_y0 :: real
  gt_r2 :: real
  gt_ph :: real

record raster =
  cells :: "real grid"
  nodata :: "real option"
  geo :: geotransform

definition xsize :: "raster \<Rightarrow> nat" where
  "xsize r = ncols (cells r)"

definition ysize :: "raster \<Rightarrow> nat" where
  "ysize r = length (cells r)"

text \<open>A cell is no-data when it equals the band's sentinel (\<open>raster == nd\<close>).\<close>

definition is_nd :: "real option \<Rightarrow> real \<Rightarrow> bool" where
  "is_nd nd v \<longleftrightarrow> nd = Some v"

section \<open>GridAligner: the study-area window\<close>

text \<open>
  \<^verbatim>\<open>
  geoTransform = data.GetGeoTransform()
  minx = geoTransform[0]
  maxy = geoTransform[3]
  maxx = minx + geoTransform[1] * data.RasterXSize
  miny = maxy + geoTransform[5] * data.RasterYSize
  projwin = str(minx) + ',' + str(maxx) + ',' + str(miny) +',' + str(maxy) + ' [EPSG:3006]'
  \<close>
  The window is kept as its four numbers; the decimal printing of \<open>str\<close> is not modelled.
\<close>

record window =
  w_minx :: real
  w_maxx :: real
  w_miny :: real
  w_maxy :: real

definition projwin_of :: "raster \<Rightarrow> window" where
  "projwin_of r =
     (let gt = geo r;
          minx = gt_x0 gt;
          maxy = gt_y0 gt;
          maxx = minx + gt_pw gt * real (xsize r);
          miny = maxy + gt_ph gt * real (ysize r)
      in \<lparr>w_minx = minx, w_maxx = maxx, w_miny = miny, w_maxy = maxy\<rparr>)"

text \<open>Number of columns and rows a window holds at a given pixel size.\<close>

definition window_cols :: "window \<Rightarrow> real \<Rightarrow> real" where
  "window_cols w res = (w_maxx w - w_minx w) / res"

definition window_rows :: "window \<Rightarrow> real \<Rightarrow> real" where
  "window_rows w res = (w_maxy w - w_miny w) / res"

text \<open>North-up rasters have a positive pixel width and a negative pixel height.\<close>

definition north_up :: "raster \<Rightarrow> bool" where
  "north_up r \<longleftrightarrow> 0 < gt_pw (geo r) \<and> gt_ph (geo r) < 0"

section \<open>Building and vegetation masks\<close>

text \<open>
  \<^verbatim>\<open>
  buildraster = dsmraster - (demraster - demOffset)
  buildraster[buildraster < 0.5] = 0
  saveraster(baseraster, inBuildbool, buildraster > 0)
  saveraster(baseraster, inVegbool, cdsmraster > 0)
  \<close>
  A boolean array is written as 0/1 cells.
\<close>

definition b2r :: "bool \<Rightarrow> real" where
  "b2r b = (if b then 1 else 0)"

definition build_height :: "real \<Rightarrow> real grid \<Rightarrow> real grid \<Rightarrow> real grid" where
  "build_height demOffset dsm dem =
     gmap (\<lambda>h. if h < 0.5 then 0 else h) (gzip (\<lambda>s d. s - (d - demOffset)) dsm dem)"

definition build_bool :: "real \<Rightarrow> real grid \<Rightarrow> real grid \<Rightarrow> real grid" where
  "build_bool demOffset dsm dem = gmap (\<lambda>h. b2r (h > 0)) (build_height demOffset dsm dem)"

definition veg_bool :: "real grid \<Rightarrow> real grid" where
  "veg_bool cdsm = gmap (\<lambda>h. b2r (h > 0)) cdsm"

section \<open>A reference raster\<close>

definition ref_raster :: raster where
  "ref_raster = \<lparr>cells = [[1, 2, 3], [4, 5, 6]], nodata = None,
     geo = \<lparr>gt_x0 = 600000, gt_pw = 10, gt_r1 = 0, gt_y0 = 6650000, gt_r2 = 0, gt_ph = -10\<rparr>\<rparr>"

section \<open>Lemmas\<close>

lemma is_nd_None [simp]: "\<not> is_nd None v"
  by (simp add: is_nd_def)

lemma is_nd_Some [simp]: "is_nd (Some a) v \<longleftrightarrow> v = a"
  by (auto simp: is_nd_def)

lemma b2r_simps [simp]: "b2r True = 1" "b2r False = 0"
  by (simp_all add: b2r_def)

lemma b2r_cases: "b2r b = 0 \<or> b2r b = 1"
  by (simp add: b2r_def)

lemma b2r_eq_1 [simp]: "b2r b = 1 \<longleftrightarrow> b"
  by (simp add: b2r_def)

lemma b2r_eq_0 [simp]: "b2r b = 0 \<longleftrightarrow> \<not> b"
  by (simp add: b2r_def)

subsection \<open>The window\<close>

lemma projwin_fields [simp]:
  "w_minx (projwin_of r) = gt_x0 (geo r)"
  "w_maxy (projwin_of r) = gt_y0 (geo r)"
  "w_maxx (projwin_of r) = gt_x0 (geo r) + gt_pw (geo r) * real (xsize r)"
  "w_miny (projwin_of r) = gt_y0 (geo r) + gt_ph (geo r) * real (ysize r)"
  by (simp_all add: projwin_of_def Let_def)

text \<open>The window spans exactly the reference raster: its width is \<open>pixelWidth * RasterXSize\<close>
  and its height \<open>-pixelHeight * RasterYSize\<close>.\<close>

theorem projwin_extent:
  "w_maxx (projwin_of r) - w_minx (projwin_of r) = gt_pw (geo r) * real (xsize r) \<and>
   w_maxy (projwin_of r) - w_miny (projwin_of r) = - gt_ph (geo r) * real (ysize r)"
  by simp

text \<open>The window computed from a non-empty north-up reference raster has minx < maxx and miny < maxy.\<close>

theorem projwin_nonempty:
  assumes "north_up r" "0 < xsize r" "0 < ysize r"
  shows "w_minx (projwin_of r) < w_maxx (projwin_of r) \<and> w_miny (projwin_of r) < w_maxy (projwin_of r)"
proof -
  from assms have "0 < gt_pw (geo r) * real (xsize r)" by (simp add: north_up_def)
  moreover from assms have "gt_ph (geo r) * real (ysize r) < 0"
    by (simp add: north_up_def mult_neg_pos)
  ultimately show ?thesis by simp
qed

text \<open>Clipping at the reference resolution reproduces the reference grid's size.\<close>

theorem projwin_roundtrip:
  assumes "north_up r"
  shows "window_cols (projwin_of r) (gt_pw (geo r)) = real (xsize r) \<and>
         window_rows (projwin_of r) (- gt_ph (geo r)) = real (ysize r)"
  using assms by (simp add: window_cols_def window_rows_def north_up_def)

subsection \<open>The masks\<close>

lemma build_height_nth [grid_simps]:
  assumes "rect m n dsm" "rect m n dem" "in_grid m n i j"
  shows "build_height off dsm dem ! i ! j =
     (let h = dsm ! i ! j - (dem ! i ! j - off) in if h < 0.5 then 0 else h)"
  using rect_idx [OF assms(1,3)] rect_idx [OF assms(2,3)]
  by (simp add: build_height_def grid_simps Let_def)

lemma rect_build_height [grid_simps]:
  "rect m n dsm \<Longrightarrow> rect m n dem \<Longrightarrow> rect m n (build_height off dsm dem)"
  by (simp add: build_height_def grid_simps)

text \<open>A cell is marked as building exactly when the object height above ground
  \<open>dsm - (dem - demOffset)\<close> is at least 0.5 m.\<close>

theorem build_bool_nth:
  assumes "rect m n dsm" "rect m n dem" "in_grid m n i j"
  shows "build_bool off dsm dem ! i ! j = b2r (0.5 \<le> dsm ! i ! j - (dem ! i ! j - off))"
proof -
  have bh: "rect m n (build_height off dsm dem)" using assms(1,2) by (rule rect_build_height)
  have "build_bool off dsm dem ! i ! j = b2r (build_height off dsm dem ! i ! j > 0)"
    using rect_idx [OF bh assms(3)] by (simp add: build_bool_def gmap_nth)
  also have "\<dots> = b2r (0.5 \<le> dsm ! i ! j - (dem ! i ! j - off))"
    using build_height_nth [OF assms] by (simp add: Let_def)
  finally show ?thesis .
qed

subsection \<open>Witnesses\<close>

lemma ref_raster_facts:
  "north_up ref_raster" "xsize ref_raster = 3" "ysize ref_raster = 2"
  by (simp_all add: ref_raster_def north_up_def xsize_def ysize_def ncols_def)

lemma ref_raster_geo: "gt_pw (geo ref_raster) = 10" "gt_ph (geo ref_raster) = -10"
  by (simp_all add: ref_raster_def)

theorem projwin_nonempty_witness:
  "north_up ref_raster \<and> 0 < xsize ref_raster \<and> 0 < ysize ref_raster \<and>
   w_minx (projwin_of ref_raster) < w_maxx (projwin_of ref_raster) \<and>
   w_miny (projwin_of ref_raster) < w_maxy (projwin_of ref_raster)"
  using projwin_nonempty [of ref_raster] by (simp add: ref_raster_facts)

theorem projwin_roundtrip_witness:
  "north_up ref_raster \<and> window_cols (projwin_of ref_raster) 10 = 3 \<and>
   window_rows (projwin_of ref_raster) 10 = 2"
  using projwin_roundtrip [OF ref_raster_facts(1)] ref_raster_facts(1)
  by (simp add: ref_raster_facts ref_raster_geo)

theorem build_bool_nth_witness:
  "rect 1 2 [[5.2, 3::real]] \<and> rect 1 2 [[4.9, 3::real]] \<and> in_grid 1 2 0 0 \<and>
   build_bool 0 [[5.2, 3]] [[4.9, 3]] ! 0 ! 0 = b2r ((0.5::real) \<le> 5.2 - (4.9 - 0)) \<and>
   build_bool 0 [[5.2, 3]] [[4.9, 3]] ! 0 ! 0 = 0"
proof -
  have r: "rect 1 2 [[5.2, 3::real]]" "rect 1 2 [[4.9, 3::real]]" by (simp_all add: rect_def)
  have "build_bool 0 [[5.2, 3]] [[4.9, 3]] ! 0 ! 0 = b2r ((0.5::real) \<le> 5.2 - (4.9 - 0))"
    using build_bool_nth [OF r, of 0 0 0] by simp
  with r show ?thesis by simp
qed

end
