(* ===== verification/Reclassify.thy ===== *)
theory Reclassify
  imports Raster "HOL-Library.Word"
begin

text \<open>
  The Reclassifier: QGIS \<open>native:reclassifybytable\<close>, which the script calls a dozen
  times with a flat \<open>TABLE\<close> list, \<open>RANGE_BOUNDARIES\<close>, \<open>NO_DATA\<close> and
  \<open>NODATA_FOR_MISSING\<close>.  The algorithm itself lives in QGIS, outside the repository;
  it is modelled from the spec (section 4.2): each cell that is not the input's no-data
  value is looked up in the ordered rows \<open>(min, max, value)\<close>, the first row whose range
  holds it gives the output, and an unmatched cell becomes \<open>NO_DATA\<close> or keeps its value
  according to \<open>NODATA_FOR_MISSING\<close>.  Also here the GRASS rule \<open>'0 thru 90 = 129'\<close>
  of \<open>grass7:r.reclass\<close> (single-value overwrite mode).
\<close>

section \<open>Parameters\<close>

text \<open>\<open>RANGE_BOUNDARIES\<close> 0..3: \<open>min < v \<le> max\<close>, \<open>min \<le> v < max\<close>,
  \<open>min \<le> v \<le> max\<close>, \<open>min < v < max\<close>.\<close>

datatype range_boundaries = MinLtValLeMax | MinLeValLtMax | MinLeValLeMax | MinLtValLtMax

type_synonym reclass_row = "real \<times> real \<times> real"

record reclass_params =
  rc_table :: "real list"
  rc_nodata :: real
  rc_bounds :: range_boundaries
  rc_nodata_for_missing :: bool

section \<open>The table\<close>

text \<open>The flat \<open>TABLE\<close> list is read as rows of three; any other length is refused.\<close>

fun triples :: "'a list \<Rightarrow> ('a \<times> 'a \<times> 'a) list" where
  "triples (a # b # c # xs) = (a, b, c) # triples xs"
| "triples _ = []"

definition table_rows :: "real list \<Rightarrow> reclass_row list option" where
  "table_rows xs = (if length xs mod 3 = 0 then Some (triples xs) else None)"

fun flat_rows :: "reclass_row list \<Rightarrow> real list" where
  "flat_rows [] = []"
| "flat_rows ((a, b, c) # t) = a # b # c # flat_rows t"

fun in_range :: "range_boundaries \<Rightarrow> real \<Rightarrow> real \<Rightarrow> real \<Rightarrow> bool" where
  "in_range MinLtValLeMax lo hi v \<longleftrightarrow> lo < v \<and> v \<le> hi"
| "in_range MinLeValLtMax lo hi v \<longleftrightarrow> lo \<le> v \<and> v < hi"
| "in_range MinLeValLeMax lo hi v \<longleftrightarrow> lo \<le> v \<and> v \<le> hi"
| "in_range MinLtValLtMax lo hi v \<longleftrightarrow> lo < v \<and> v < hi"

text \<open>The scan over the rows: the first row whose range holds the value wins.\<close>

fun first_match :: "range_boundaries \<Rightarrow> reclass_row list \<Rightarrow> real \<Rightarrow> real option" where
  "first_match b [] v = None"
| "first_match b ((lo, hi, c) # t) v = (if in_range b lo hi v then Some c else first_match b t v)"

section \<open>Reclassifying a cell and a raster\<close>

definition reclass_cell ::
  "range_boundaries \<Rightarrow> reclass_row list \<Rightarrow> real \<Rightarrow> bool \<Rightarrow> real option \<Rightarrow> real \<Rightarrow> real" where
  "reclass_cell b rows ndout missing nd v =
     (if is_nd nd v then ndout
      else case first_match b rows v of
             Some c \<Rightarrow> c
           | None \<Rightarrow> if missing then ndout else v)"

definition reclassifybytable :: "reclass_params \<Rightarrow> raster \<Rightarrow> py_error + raster" where
  "reclassifybytable p r =
     (case table_rows (rc_table p) of
        None \<Rightarrow> Inl (ValueError ''Invalid value for TABLE'')
      | Some rows \<Rightarrow>
          Inr (r\<lparr>cells := gmap (reclass_cell (rc_bounds p) rows (rc_nodata p)
                                   (rc_nodata_for_missing p) (nodata r)) (cells r),
                 nodata := Some (rc_nodata p)\<rparr>))"

text \<open>
  Every call of the script passes \<open>RANGE_BOUNDARIES 0\<close>, \<open>NO_DATA -9999\<close> and
  \<open>NODATA_FOR_MISSING False\<close>; the table is the only argument that varies.
\<close>

definition script_reclass :: "real list \<Rightarrow> reclass_params" where
  "script_reclass tbl =
     \<lparr>rc_table = tbl, rc_nodata = -9999, rc_bounds = MinLtValLeMax, rc_nodata_for_missing = False\<rparr>"

text \<open>A row-by-row cell function for the script's own setting.\<close>

definition script_cell :: "real list \<Rightarrow> real option \<Rightarrow> real \<Rightarrow> real" where
  "script_cell tbl nd v = reclass_cell MinLtValLeMax (triples tbl) (-9999) False nd v"

section \<open>The output data type\<close>

text \<open>
  \<open>DATA_TYPE\<close> chooses the output band type.  The script passes 5 (Float32, kept as the
  value: Float32 rounding is not modelled) except at lines 454, 736 and 768, where it passes
  3, UInt32.  QGIS stores each output value, the no-data value included, by
  \<open>static_cast<quint32>\<close> of the double.  For a negative value the C++ standard leaves
  that conversion undefined; the model takes what x86-64 code does with it (a conversion
  to a 64-bit integer, truncating toward zero, of which the low 32 bits are kept), exact
  for values of magnitude below \<open>2^63\<close>.  The band's no-data value stays -9999 as set.
\<close>

definition trunc_real :: "real \<Rightarrow> int" where
  "trunc_real v = (if 0 \<le> v then \<lfloor>v\<rfloor> else \<lceil>v\<rceil>)"

definition uint32_cast :: "real \<Rightarrow> real" where
  "uint32_cast v = real (unat (word_of_int (trunc_real v) :: 32 word))"

definition reclassifybytable_uint32 :: "reclass_params \<Rightarrow> raster \<Rightarrow> py_error + raster" where
  "reclassifybytable_uint32 p r =
     (case reclassifybytable p r of
        Inl e \<Rightarrow> Inl e
      | Inr r' \<Rightarrow> Inr (r'\<lparr>cells := gmap uint32_cast (cells r')\<rparr>))"

section \<open>GRASS \<open>r.reclass\<close> with one rule\<close>

text \<open>
  \<open>'lo thru hi = c'\<close>: cells in the closed range \<open>[lo, hi]\<close> become \<open>c\<close>; every
  other cell, no-data included, becomes null, written with the sentinel \<open>null\<close>.
\<close>

definition r_reclass_thru :: "real \<Rightarrow> real \<Rightarrow> real \<Rightarrow> real \<Rightarrow> raster \<Rightarrow> raster" where
  "r_reclass_thru lo hi c null r =
     r\<lparr>cells := gmap (\<lambda>v. if \<not> is_nd (nodata r) v \<and> lo \<le> v \<and> v \<le> hi then c else null) (cells r),
       nodata := Some null\<rparr>"

section \<open>Contiguous tables\<close>

text \<open>Rows whose ranges follow one another without gap or overlap.\<close>

fun contiguous :: "reclass_row list \<Rightarrow> bool" where
  "contiguous [] = True"
| "contiguous [(lo, hi, c)] = (lo < hi)"
| "contiguous ((lo, hi, c) # (lo', hi', c') # t) = (lo < hi \<and> hi = lo' \<and> contiguous ((lo', hi', c') # t))"

fun table_lo :: "reclass_row list \<Rightarrow> real" where
  "table_lo [] = 0"
| "table_lo ((lo, hi, c) # t) = lo"

fun table_hi :: "reclass_row list \<Rightarrow> real" where
  "table_hi [] = 0"
| "table_hi [(lo, hi, c)] = hi"
| "table_hi (r # t) = table_hi t"

definition codes :: "reclass_row list \<Rightarrow> real set" where
  "codes t = (\<lambda>(lo, hi, c). c) ` set t"

text \<open>Codes that do not decrease from one row to the next.\<close>

fun mono_codes :: "reclass_row list \<Rightarrow> bool" where
  "mono_codes ((lo, hi, c) # (lo', hi', c') # t) = (c \<le> c' \<and> mono_codes ((lo', hi', c') # t))"
| "mono_codes _ = True"

section \<open>Lemmas\<close>

subsection \<open>The table parameter\<close>

lemma triples_flat_rows [simp]: "triples (flat_rows t) = t"
  by (induction t rule: flat_rows.induct) simp_all

lemma length_flat_rows [simp]: "length (flat_rows t) = 3 * length t"
  by (induction t rule: flat_rows.induct) simp_all

lemma flat_rows_triples: "length xs mod 3 = 0 \<Longrightarrow> flat_rows (triples xs) = xs"
proof (induction xs rule: triples.induct)
  case (1 a b c xs)
  have "length (a # b # c # xs) = length xs + 3" by simp
  with "1.prems" have "length xs mod 3 = 0" by presburger
  with "1.IH" show ?case by simp
qed simp_all

text \<open>The flat \<open>TABLE\<close> list and its rows determine each other.\<close>

theorem table_rows_roundtrip:
  "table_rows (flat_rows t) = Some t \<and> (table_rows xs = Some t \<longrightarrow> flat_rows t = xs)"
  by (auto simp: table_rows_def flat_rows_triples split: if_splits)

subsection \<open>First match\<close>

lemma first_match_find:
  "first_match b t v = map_option (\<lambda>(lo, hi, c). c) (find (\<lambda>(lo, hi, c). in_range b lo hi v) t)"
  by (induction b t v rule: first_match.induct) simp_all

lemma first_match_None_iff:
  "first_match b t v = None \<longleftrightarrow> (\<forall>(lo, hi, c) \<in> set t. \<not> in_range b lo hi v)"
  by (induction b t v rule: first_match.induct) auto

lemma first_match_codes: "first_match b t v = Some c \<Longrightarrow> c \<in> codes t"
  by (induction b t v rule: first_match.induct) (auto simp: codes_def split: if_splits)

text \<open>Earlier rows take precedence over later ones, whatever the later ones say.\<close>

theorem first_match_append:
  "first_match b (t1 @ t2) v =
     (case first_match b t1 v of None \<Rightarrow> first_match b t2 v | Some c \<Rightarrow> Some c)"
  by (induction b t1 v rule: first_match.induct) simp_all

subsection \<open>Contiguous tables\<close>

lemma contiguous_hd: "contiguous ((lo, hi, c) # t) \<Longrightarrow> lo < hi"
  by (cases t) auto

lemma contiguous_tl: "contiguous (r # t) \<Longrightarrow> contiguous t"
  by (cases "(r # t)" rule: contiguous.cases) auto

lemma contiguous_above:
  "contiguous ((lo, hi, c) # t) \<Longrightarrow> (lo', hi', c') \<in> set t \<Longrightarrow> hi \<le> lo' \<and> lo' < hi'"
proof (induction t arbitrary: lo hi c)
  case Nil
  then show ?case by simp
next
  case (Cons r t)
  obtain l h d where r: "r = (l, h, d)" by (cases r)
  with Cons.prems(1) have ct: "contiguous ((l, h, d) # t)" and hl: "hi = l" by simp_all
  from ct have "l < h" by (rule contiguous_hd)
  show ?case
  proof (cases "(lo', hi', c') = r")
    case True
    with r hl \<open>l < h\<close> show ?thesis by simp
  next
    case False
    with Cons.prems(2) have "(lo', hi', c') \<in> set t" by simp
    from Cons.IH [OF ct this] hl \<open>l < h\<close> show ?thesis by simp
  qed
qed

text \<open>In a contiguous table every value of \<open>(first min, last max]\<close> is matched.\<close>

theorem contiguous_covers:
  "contiguous t \<Longrightarrow> t \<noteq> [] \<Longrightarrow> table_lo t < v \<Longrightarrow> v \<le> table_hi t \<Longrightarrow>
   first_match MinLtValLeMax t v \<noteq> None"
proof (induction t rule: contiguous.induct)
  case (3 lo hi c lo' hi' c' t)
  then show ?case by (cases "v \<le> hi") auto
qed auto

text \<open>In a contiguous table the row that holds a value decides it: the scan order does
  not matter, because no other row holds the value.\<close>

theorem contiguous_row_decides:
  "contiguous t \<Longrightarrow> (lo, hi, c) \<in> set t \<Longrightarrow> lo < v \<Longrightarrow> v \<le> hi \<Longrightarrow>
   first_match MinLtValLeMax t v = Some c"
proof (induction t)
  case Nil
  then show ?case by simp
next
  case (Cons r t)
  obtain l h d where r: "r = (l, h, d)" by (cases r)
  show ?case
  proof (cases "(lo, hi, c) = r")
    case True
    with r Cons.prems show ?thesis by simp
  next
    case False
    with Cons.prems(2) have mem: "(lo, hi, c) \<in> set t" by simp
    with Cons.prems(1) r have "h \<le> lo" using contiguous_above by blast
    with Cons.prems(3) have "\<not> in_range MinLtValLeMax l h v" by simp
    moreover have "first_match MinLtValLeMax t v = Some c"
      using Cons.IH [OF contiguous_tl [OF Cons.prems(1)] mem Cons.prems(3,4)] .
    ultimately show ?thesis by (auto simp: r)
  qed
qed

subsection \<open>Cells and rasters\<close>

lemma reclass_cell_nd [simp]: "reclass_cell b t ndout m (Some a) a = ndout"
  by (simp add: reclass_cell_def)

lemma reclass_cell_match:
  "\<not> is_nd nd v \<Longrightarrow> first_match b t v = Some c \<Longrightarrow> reclass_cell b t ndout m nd v = c"
  by (simp add: reclass_cell_def)

lemma reclass_cell_keep:
  "\<not> is_nd nd v \<Longrightarrow> first_match b t v = None \<Longrightarrow> reclass_cell b t ndout False nd v = v"
  by (simp add: reclass_cell_def)

lemma reclass_cell_idem:
  assumes fixes_codes: "\<forall>c \<in> codes t. first_match b2 t2 c = Some c"
    and unm: "\<forall>v. first_match b t v = None \<longrightarrow> first_match b2 t2 v = None"
  shows "reclass_cell b2 t2 ndout m (Some ndout) (reclass_cell b t ndout m nd v) =
         reclass_cell b t ndout m nd v"
proof (cases "first_match b t v")
  case None
  with unm have "first_match b2 t2 v = None" by blast
  with None show ?thesis by (simp add: reclass_cell_def)
next
  case (Some c)
  with fixes_codes first_match_codes have "first_match b2 t2 c = Some c" by blast
  with Some show ?thesis by (simp add: reclass_cell_def)
qed

lemma reclassifybytable_script:
  "length tbl mod 3 = 0 \<Longrightarrow>
   reclassifybytable (script_reclass tbl) r =
     Inr (r\<lparr>cells := gmap (script_cell tbl (nodata r)) (cells r), nodata := Some (-9999)\<rparr>)"
  by (simp add: reclassifybytable_def script_reclass_def table_rows_def script_cell_def [abs_def])

text \<open>C2: Idempotence: reclassifying an output again, with a table that maps each class code to
  itself and matches nothing the first table left unmatched, and with the same no-data
  settings, returns the output unchanged.
\<close>

theorem reclassifybytable_idempotent:
  assumes "length tbl mod 3 = 0" "length tbl2 mod 3 = 0"
    and "\<forall>c \<in> codes (triples tbl). first_match MinLtValLeMax (triples tbl2) c = Some c"
    and "\<forall>v. first_match MinLtValLeMax (triples tbl) v = None \<longrightarrow>
             first_match MinLtValLeMax (triples tbl2) v = None"
    and "reclassifybytable (script_reclass tbl) r = Inr r'"
  shows "reclassifybytable (script_reclass tbl2) r' = Inr r'"
proof -
  let ?f = "script_cell tbl (nodata r)"
  let ?g = "script_cell tbl2 (Some (-9999))"
  from reclassifybytable_script [OF assms(1)] assms(5)
  have r': "r' = r\<lparr>cells := gmap ?f (cells r), nodata := Some (-9999)\<rparr>" by simp
  have "\<And>v. ?g (?f v) = ?f v"
    using reclass_cell_idem [OF assms(3,4)] by (simp add: script_cell_def)
  then have "gmap ?g (gmap ?f (cells r)) = gmap ?f (cells r)"
    by (simp add: gmap_def comp_def)
  with r' show ?thesis by (simp add: reclassifybytable_script [OF assms(2)])
qed

lemma reclassifybytable_bad_table:
  "length (rc_table p) mod 3 \<noteq> 0 \<Longrightarrow> \<exists>e. reclassifybytable p r = Inl e"
  by (simp add: reclassifybytable_def table_rows_def)

lemma triples_append:
  "length t1 mod 3 = 0 \<Longrightarrow> triples (t1 @ t2) = triples t1 @ triples t2"
proof (induction t1 rule: triples.induct)
  case (1 a b c xs)
  have "length (a # b # c # xs) = length xs + 3" by simp
  with "1.prems" have "length xs mod 3 = 0" by presburger
  with "1.IH" show ?case by simp
qed simp_all

text \<open>C1: Precedence in the script's tables: the rows of a leading part of the table decide
  every value they hold, whatever rows follow.\<close>

theorem script_cell_precedence:
  assumes "length t1 mod 3 = 0" "\<not> is_nd nd v"
  shows "script_cell (t1 @ t2) nd v =
           (case first_match MinLtValLeMax (triples t1) v of
              Some c \<Rightarrow> c
            | None \<Rightarrow> script_cell t2 nd v)"
  using assms
  by (simp add: script_cell_def reclass_cell_def triples_append first_match_append split: option.split)

theorem script_cell_precedence_witness:
  "length [0, 10, 1::real] mod 3 = 0 \<and> \<not> is_nd None 7 \<and>
   script_cell ([0, 10, 1] @ [5, 15, 2]) None 7 = 1"
  using script_cell_precedence [of "[0, 10, 1]" None 7 "[5, 15, 2]"] by simp

text \<open>The script's cell function on a contiguous table: a value inside the table's span
  gets the code of the row that holds it; an unmatched value is kept.\<close>

lemma script_cell_row:
  "contiguous (triples tbl) \<Longrightarrow> (lo, hi, c) \<in> set (triples tbl) \<Longrightarrow> lo < v \<Longrightarrow> v \<le> hi \<Longrightarrow>
   \<not> is_nd nd v \<Longrightarrow> script_cell tbl nd v = c"
  by (simp add: script_cell_def reclass_cell_match contiguous_row_decides)

lemma script_cell_in_codes:
  assumes "contiguous (triples tbl)" "triples tbl \<noteq> []"
    and "table_lo (triples tbl) < v" "v \<le> table_hi (triples tbl)" "\<not> is_nd nd v"
  shows "script_cell tbl nd v \<in> codes (triples tbl)"
proof -
  from contiguous_covers [OF assms(1-4)] obtain c
    where c: "first_match MinLtValLeMax (triples tbl) v = Some c" by blast
  then have "c \<in> codes (triples tbl)" by (rule first_match_codes)
  with c assms(5) show ?thesis by (simp add: script_cell_def reclass_cell_match)
qed

lemma script_cell_unmatched:
  "first_match MinLtValLeMax (triples tbl) v = None \<Longrightarrow> \<not> is_nd nd v \<Longrightarrow> script_cell tbl nd v = v"
  by (simp add: script_cell_def reclass_cell_keep)

lemma script_cell_nd [simp]: "script_cell tbl (Some a) a = -9999"
  by (simp add: script_cell_def)

subsection \<open>Monotone tables\<close>

lemma first_match_Cons_skip:
  "\<not> (lo < v \<and> v \<le> hi) \<Longrightarrow> first_match MinLtValLeMax ((lo, hi, c) # t) v = first_match MinLtValLeMax t v"
  by auto

lemma first_match_above_lo:
  "contiguous rows \<Longrightarrow> first_match MinLtValLeMax rows v = Some c \<Longrightarrow> table_lo rows < v"
  by (induction rows rule: contiguous.induct) (auto split: if_splits)

lemma first_match_ge_head:
  "mono_codes ((lo, hi, c0) # t) \<Longrightarrow> first_match MinLtValLeMax ((lo, hi, c0) # t) v = Some c \<Longrightarrow> c0 \<le> c"
proof (induction t arbitrary: lo hi c0)
  case (Cons r t)
  obtain lo' hi' c' where r: "r = (lo', hi', c')" by (cases r)
  show ?case
  proof (cases "in_range MinLtValLeMax lo hi v")
    case False
    with Cons.prems r have "c' \<le> c" by (intro Cons.IH [of lo' hi']) auto
    with Cons.prems(1) r show ?thesis by simp
  qed (use Cons.prems in simp)
qed (auto split: if_splits)

text \<open>On a contiguous table whose codes do not decrease, a larger matched value never gets a
  smaller code.\<close>

lemma first_match_mono:
  "contiguous rows \<Longrightarrow> mono_codes rows \<Longrightarrow> v \<le> v' \<Longrightarrow>
   first_match MinLtValLeMax rows v = Some c \<Longrightarrow> first_match MinLtValLeMax rows v' = Some c' \<Longrightarrow> c \<le> c'"
proof (induction rows arbitrary: c rule: contiguous.induct)
  case (3 lo hi c0 lo' hi' c1 t)
  let ?t = "(lo', hi', c1) # t"
  show ?case
  proof (cases "lo < v \<and> v \<le> hi")
    case True
    show ?thesis
    proof (cases "lo < v' \<and> v' \<le> hi")
      case False
      with "3.prems"(5) have "first_match MinLtValLeMax ?t v' = Some c'"
        by (simp only: first_match_Cons_skip [OF False])
      with "3.prems"(2) have "c1 \<le> c'" by (intro first_match_ge_head [of lo' hi' c1 t]) simp_all
      with True "3.prems" show ?thesis by simp
    qed (use True "3.prems" in simp)
  next
    case False
    with "3.prems"(4) have m: "first_match MinLtValLeMax ?t v = Some c"
      by (simp only: first_match_Cons_skip [OF False])
    from first_match_above_lo [OF _ m] "3.prems"(1) have "hi < v" by simp
    with "3.prems"(3) have nv: "\<not> (lo < v' \<and> v' \<le> hi)" by simp
    with "3.prems"(5) have "first_match MinLtValLeMax ?t v' = Some c'"
      by (simp only: first_match_Cons_skip [OF nv])
    with m "3.prems" show ?thesis by (intro "3.IH") simp_all
  qed
qed (auto split: if_splits)

lemma script_cell_mono:
  assumes "contiguous (triples tbl)" "mono_codes (triples tbl)" "triples tbl \<noteq> []"
    and "table_lo (triples tbl) < v" "v \<le> v'" "v' \<le> table_hi (triples tbl)"
    and "\<not> is_nd nd v" "\<not> is_nd nd v'"
  shows "script_cell tbl nd v \<le> script_cell tbl nd v'"
proof -
  have hv: "v \<le> table_hi (triples tbl)" and lv: "table_lo (triples tbl) < v'"
    using assms(4-6) by linarith+
  obtain c where c: "first_match MinLtValLeMax (triples tbl) v = Some c"
    using contiguous_covers [OF assms(1,3,4) hv] by (auto simp: not_None_eq)
  obtain c' where c': "first_match MinLtValLeMax (triples tbl) v' = Some c'"
    using contiguous_covers [OF assms(1,3) lv assms(6)] by (auto simp: not_None_eq)
  from first_match_mono [OF assms(1,2,5) c c'] c c' assms(7,8) show ?thesis
    by (simp add: script_cell_def reclass_cell_match)
qed

subsection \<open>The UInt32 output\<close>

lemma uint32_cast_nat [simp]: "uint32_cast (numeral k) = real (unat (numeral k :: 32 word))"
  by (simp add: uint32_cast_def trunc_real_def)

lemma reclassifybytable_uint32_script:
  "length tbl mod 3 = 0 \<Longrightarrow>
   reclassifybytable_uint32 (script_reclass tbl) r =
     Inr (r\<lparr>cells := gmap (\<lambda>v. uint32_cast (script_cell tbl (nodata r) v)) (cells r), nodata := Some (-9999)\<rparr>)"
  by (simp add: reclassifybytable_uint32_def reclassifybytable_script gmap_def)

subsection \<open>Witnesses\<close>

theorem reclassifybytable_idempotent_witness:
  "reclassifybytable (script_reclass [0, 1, 1, 1, 2, 2])
     \<lparr>cells = [[0.5, 2, 7]], nodata = None, geo = geo ref_raster\<rparr>
   = Inr \<lparr>cells = [[1, 2, 7]], nodata = Some (-9999), geo = geo ref_raster\<rparr> \<and>
   reclassifybytable (script_reclass [0.5, 1, 1, 1.5, 2, 2])
     \<lparr>cells = [[1, 2, 7]], nodata = Some (-9999), geo = geo ref_raster\<rparr>
   = Inr \<lparr>cells = [[1, 2, 7]], nodata = Some (-9999), geo = geo ref_raster\<rparr>"
proof -
  have r1: "reclassifybytable (script_reclass [0, 1, 1, 1, 2, 2])
              \<lparr>cells = [[0.5, 2, 7]], nodata = None, geo = geo ref_raster\<rparr>
            = Inr \<lparr>cells = [[1, 2, 7]], nodata = Some (-9999), geo = geo ref_raster\<rparr>"
    by (simp add: reclassifybytable_script script_cell_def reclass_cell_def gmap_def)
  have unm: "\<forall>v. first_match MinLtValLeMax (triples [0, 1, 1, 1, 2, 2]) v = None \<longrightarrow>
      first_match MinLtValLeMax (triples [0.5, 1, 1, 1.5, 2, 2]) v = None"
    by simp
  have "reclassifybytable (script_reclass [0.5, 1, 1, 1.5, 2, 2])
          \<lparr>cells = [[1, 2, 7]], nodata = Some (-9999), geo = geo ref_raster\<rparr>
        = Inr \<lparr>cells = [[1, 2, 7]], nodata = Some (-9999), geo = geo ref_raster\<rparr>"
    by (rule reclassifybytable_idempotent [OF _ _ _ unm r1]) (simp_all add: codes_def)
  with r1 show ?thesis by simp
qed

end
