(* ===== verification/Tables.thy ===== *)
theory Tables
  imports Reclassify
begin

text \<open>
  The reclassification tables of the script, as the flat lists it passes to
  \<open>native:reclassifybytable\<close> (all with \<open>RANGE_BOUNDARIES 0\<close>, \<open>NO_DATA -9999\<close>,
  \<open>NODATA_FOR_MISSING False\<close>, see \<^const>\<open>script_reclass\<close>), and what each does to the
  values it is meant for: the class ranges they cover, the boundary cases of the
  upper-inclusive policy, and the values they leave unmatched (which keep their value).
\<close>

section \<open>The tables\<close>

definition iuhdtable :: "real list" where
  "iuhdtable = [-3.0,-2.33,1, -2.33,-1.66,2, -1.66,-0.99,3, -0.99,-0.33,4, -0.33,0.33,5,
                0.33,1.0,6, 1.0,1.66,7, 1.66,2.33,8, 2.33,3.0,9, 3.0,100.0,10]"

text \<open>Land cover for the oviposition model (the first \<open>lctable\<close>); code 129 marks flat roofs.\<close>

definition lctable_ovi :: "real list" where
  "lctable_ovi = [1,2,7, 2,3,4, 40,41,2, 41,42,4, 50,51,1, 51,52,3, 52,53,0, 60,61,0, 61,62,0,
    110,111,4, 111,112,4, 112,113,4, 113,114,5, 114,115,5, 115,116,6, 116,117,6, 117,118,4,
    120,121,6, 121,122,6, 122,123,6, 123,124,7, 124,125,7, 125,126,9, 126,127,8, 127,128,6,
    128,129,4]"

definition lutable :: "real list" where
  "lutable = [-1,0,5, 0,1,2, 1,2,5, 2,3,6, 3,4,4, 4,5,5, 5,6,5, 6,7,5, 7,8,9, 8,9,7, 9,10,6,
              10,11,5, 11,12,2, 12,13,3, 13,14,6, 14,15,9, 15,16,5]"

text \<open>Land cover for the adult model (the second \<open>lctable\<close>, ReclassifyByTableNmdgrund).\<close>

definition lctable_adult :: "real list" where
  "lctable_adult = [1.9,2.1,6, 2.9,3.1,4, 40.9,41.1,3, 41.9,42.1,5, 50.9,51.1,0, 51.9,52.1,0,
    52.9,53.1,0, 60.9,61.1,0, 61.9,62.1,0, 110.9,111.1,7, 111.9,112.1,7, 112.9,113.1,7,
    113.9,114.1,7, 114.9,115.1,8, 115.9,116.1,8, 116.9,117.1,8, 117.9,118.1,5, 120.9,121.1,8,
    121.9,122.1,8, 122.9,123.1,8, 123.9,124.1,8, 124.9,125.1,10, 125.9,126.1,10,
    126.9,127.1,10, 127.9,128.1,6]"

definition laitable :: "real list" where
  "laitable = [0.0,0.05,1, 0.05,0.5,4, 0.5,1.0,5, 1.0,1.5,6, 1.5,2.0,7, 2.0,2.5,8, 2.5,3.0,9,
               3.0,100.0,10]"

definition costtable :: "real list" where
  "costtable = [0,200,1, 200,400,2, 400,600,3, 600,800,4, 800,1000,5, 1000,1200,6,
                1200,1400,7, 1400,1600,8, 1600,1800,9, 1800,3000,10]"

definition vegpaitable :: "real list" where
  "vegpaitable = [0.0,0.1,1, 0.1,0.2,2, 0.2,0.3,3, 0.3,0.4,4, 0.4,0.5,5, 0.5,0.6,6,
                  0.6,0.7,7, 0.7,0.8,8, 0.8,0.9,9, 0.9,1.0,10]"

definition windheighttable :: "real list" where
  "windheighttable = [0.0,1.6482,10, 1.6482,2.1574,9, 2.1574,2.6666,8, 2.6666,3.1758,7,
    3.1758,3.685,6, 3.685,4.1942,5, 4.1942,4.7034,4, 4.7034,5.2126,3, 5.2126,5.7218,2,
    5.7218,100.0,10]"

text \<open>The script writes the same one-row \<open>nozerotable\<close> three times.\<close>

definition nozerotable :: "real list" where
  "nozerotable = [-10.0,0.1,1]"

definition vegheighttable :: "real list" where
  "vegheighttable = [0.0,5.0,10, 5.0,10.0,9, 10.0,20.0,8, 20.0,30.0,7, 30.0,100.0,6]"

definition laifaitable :: "real list" where
  "laifaitable = [0.0,0.05,1, 0.05,0.5,4, 0.5,1.0,5, 1.0,1.5,6, 1.5,2.0,7, 2.0,2.5,8,
                  2.5,3.0,9, 3.0,100.0,10]"

definition windreduxoceantable :: "real list" where
  "windreduxoceantable = [-1.0,0.01,1, 0.01,1.82,10, 1.82,1.90,9, 1.90,1.99,8, 1.99,2.08,7,
    2.08,2.16,6, 2.16,2.25,5, 2.25,2.34,4, 2.34,2.42,3, 2.42,2.51,2, 2.51,5.00,1]"

text \<open>LAI chain of the adult model: \<open>laitable\<close>, then \<open>nozerotable\<close> on its output
  (ReclassifyByTableLai, then ReclassifyValuesSingleReclass0To1Lai).\<close>

definition lai_chain :: "real option \<Rightarrow> real \<Rightarrow> real" where
  "lai_chain nd v = script_cell nozerotable (Some (-9999)) (script_cell laitable nd v)"

text \<open>The IUHD reclassification (lines 447--458): \<open>iuhdtable\<close> on the rasterised IUHD
  field, written as UInt32 (\<open>DATA_TYPE 3\<close>) to \<open>IUHD_final.tif\<close>.\<close>

definition reclass_iuhd :: "raster \<Rightarrow> py_error + raster" where
  "reclass_iuhd r = reclassifybytable_uint32 (script_reclass iuhdtable) r"

lemmas table_defs = iuhdtable_def lctable_ovi_def lutable_def lctable_adult_def laitable_def
  costtable_def vegpaitable_def windheighttable_def nozerotable_def vegheighttable_def
  laifaitable_def windreduxoceantable_def

section \<open>Lemmas\<close>

lemma table_lengths:
  "length iuhdtable mod 3 = 0" "length lctable_ovi mod 3 = 0" "length lutable mod 3 = 0"
  "length lctable_adult mod 3 = 0" "length laitable mod 3 = 0" "length costtable mod 3 = 0"
  "length vegpaitable mod 3 = 0" "length windheighttable mod 3 = 0" "length nozerotable mod 3 = 0"
  "length vegheighttable mod 3 = 0" "length laifaitable mod 3 = 0"
  "length windreduxoceantable mod 3 = 0"
  by (simp_all add: table_defs)

lemma contiguous_tables:
  "contiguous (triples iuhdtable)" "contiguous (triples laitable)" "contiguous (triples costtable)"
  "contiguous (triples vegpaitable)" "contiguous (triples windheighttable)"
  "contiguous (triples vegheighttable)" "contiguous (triples laifaitable)"
  "contiguous (triples windreduxoceantable)" "contiguous (triples lutable)"
  by (simp_all add: table_defs)

subsection \<open>IUHD\<close>

text \<open>every IUHD value in \<open>(-3, 100]\<close> is classed into one of the ten tiers.\<close>

theorem iuhd_classes:
  assumes "\<not> is_nd nd v" "-3 < v" "v \<le> 100"
  shows "script_cell iuhdtable nd v \<in> {1, 2, 3, 4, 5, 6, 7, 8, 9, 10}"
proof -
  have "script_cell iuhdtable nd v \<in> codes (triples iuhdtable)"
    by (rule script_cell_in_codes) (simp_all add: contiguous_tables assms, simp_all add: iuhdtable_def assms)
  moreover have "codes (triples iuhdtable) = {1, 2, 3, 4, 5, 6, 7, 8, 9, 10}"
    by (simp add: iuhdtable_def codes_def)
  ultimately show ?thesis by simp
qed

text \<open>The IUHD table's codes rise with its rows, and its tiers are whole numbers that the
  UInt32 output keeps.\<close>

lemma iuhdtable_shape:
  "mono_codes (triples iuhdtable)" "triples iuhdtable \<noteq> []"
  "table_lo (triples iuhdtable) = -3" "table_hi (triples iuhdtable) = 100"
  by (simp_all add: iuhdtable_def)

lemma uint32_cast_tiers: "v \<in> {1, 2, 3, 4, 5, 6, 7, 8, 9, 10} \<Longrightarrow> uint32_cast v = v"
  by (auto simp: uint32_cast_def trunc_real_def)

lemma reclass_iuhd_cells:
  "nodata r = None \<Longrightarrow>
   reclass_iuhd r =
     Inr (r\<lparr>cells := gmap (\<lambda>v. uint32_cast (script_cell iuhdtable None v)) (cells r), nodata := Some (-9999)\<rparr>)"
  by (simp add: reclass_iuhd_def reclassifybytable_uint32_script table_lengths)

subsection \<open>Land cover and land use\<close>

text \<open>The oviposition land-cover table maps each NMD land-cover code, and the roof code 129, to the class its comment names.\<close>

theorem lc_ovi_codes:
  "map (script_cell lctable_ovi None)
     [2, 3, 41, 42, 51, 52, 53, 61, 62, 111, 112, 113, 114, 115, 116, 117, 118,
      121, 122, 123, 124, 125, 126, 127, 128, 129]
   = [7, 4, 2, 4, 1, 3, 0, 0, 0, 4, 4, 4, 5, 5, 6, 6, 4, 6, 6, 6, 7, 7, 9, 8, 6, 4]"
  by (simp add: script_cell_def reclass_cell_def lctable_ovi_def)

text \<open>The adult-model land-cover table maps each integer NMD code to the class its comment names.\<close>

theorem lc_adult_codes:
  "map (script_cell lctable_adult None)
     [2, 3, 41, 42, 51, 52, 53, 61, 62, 111, 112, 113, 114, 115, 116, 117, 118,
      121, 122, 123, 124, 125, 126, 127, 128]
   = [6, 4, 3, 5, 0, 0, 0, 0, 0, 7, 7, 7, 7, 8, 8, 8, 5, 8, 8, 8, 8, 10, 10, 10, 6]"
  by (simp add: script_cell_def reclass_cell_def lctable_adult_def)

text \<open>A value between the snapped ranges of the adult land-cover table, such as 2.5, is not reclassified and keeps its value.\<close>

theorem lc_adult_gap_kept: "script_cell lctable_adult None 2.5 = 2.5"
  by (simp add: script_cell_def reclass_cell_def lctable_adult_def)

text \<open>The land-use table maps codes 0..16 to their classes; gardens (15) become 9 and industries (16) become 5.\<close>

theorem lutable_codes:
  "map (script_cell lutable None) [0, 1, 2, 3, 4, 5, 6, 7, 8, 9, 10, 11, 12, 13, 14, 15, 16]
   = [5, 2, 5, 6, 4, 5, 5, 5, 9, 7, 6, 5, 2, 3, 6, 9, 5]"
  by (simp add: script_cell_def reclass_cell_def lutable_def)

subsection \<open>Adult model tables\<close>

lemma nozero_cell:
  "script_cell nozerotable (Some (-9999)) v =
     (if v = -9999 then -9999 else if -10 < v \<and> v \<le> 0.1 then 1 else v)"
  by (simp add: script_cell_def reclass_cell_def nozerotable_def)

lemma laitable_nonpos: "v \<le> 0 \<Longrightarrow> first_match MinLtValLeMax (triples laitable) v = None"
  by (simp add: laitable_def)

lemma laitable_codes: "codes (triples laitable) = {1, 4, 5, 6, 7, 8, 9, 10}"
  by (simp add: laitable_def codes_def)

text \<open>The LAI reclassification followed by the zero-to-one table yields a class in {1,4,...,10} for every LAI value in (-10, 100].\<close>

theorem lai_chain_classes:
  assumes "\<not> is_nd nd v" "-10 < v" "v \<le> 100"
  shows "lai_chain nd v \<in> {1, 4, 5, 6, 7, 8, 9, 10}"
proof (cases "0 < v")
  case True
  have lo: "table_lo (triples laitable) < v" and hi: "v \<le> table_hi (triples laitable)"
    using True assms(3) by (simp_all add: laitable_def)
  have ne: "triples laitable \<noteq> []" by (simp add: laitable_def)
  have "script_cell laitable nd v \<in> {1, 4, 5, 6, 7, 8, 9, 10}"
    using script_cell_in_codes [OF contiguous_tables(2) ne lo hi assms(1)] by (simp only: laitable_codes)
  then show ?thesis by (auto simp: lai_chain_def nozero_cell)
next
  case False
  then have "script_cell laitable nd v = v"
    using script_cell_unmatched [OF laitable_nonpos assms(1)] by simp
  with False assms(2) show ?thesis by (simp add: lai_chain_def nozero_cell)
qed

theorem vegpai_zero_kept: "script_cell vegpaitable None 0 = 0"
  by (simp add: script_cell_def reclass_cell_def vegpaitable_def)

section \<open>Properties\<close>

text \<open>C5: the IUHD tiers follow the heat: of two cells of the rasterised IUHD whose values
  lie in \<open>(-3, 100]\<close>, the warmer never gets the lower tier in \<open>IUHD_final\<close>.\<close>

theorem iuhd_tier_mono:
  assumes "nodata r = None" "-3 < a" "a \<le> b" "b \<le> 100"
    and "i < length (cells r)" "j < length (cells r ! i)" "k < length (cells r)" "l < length (cells r ! k)"
    and "cells r ! i ! j = a" "cells r ! k ! l = b"
  shows "\<exists>r'. reclass_iuhd r = Inr r' \<and> cells r' ! i ! j \<le> cells r' ! k ! l"
proof -
  have "script_cell iuhdtable None a \<le> script_cell iuhdtable None b"
    using assms(2-4) by (intro script_cell_mono) (simp_all add: contiguous_tables iuhdtable_shape)
  moreover have "script_cell iuhdtable None a \<in> {1, 2, 3, 4, 5, 6, 7, 8, 9, 10}"
    "script_cell iuhdtable None b \<in> {1, 2, 3, 4, 5, 6, 7, 8, 9, 10}"
    using assms(2-4) by (intro iuhd_classes; simp)+
  ultimately show ?thesis
    using assms(5-10) by (simp add: reclass_iuhd_cells [OF assms(1)] gmap_nth uint32_cast_tiers)
qed

subsection \<open>Witnesses\<close>

theorem iuhd_tier_mono_witness:
  "nodata \<lparr>cells = [[0.5, 2.5]], nodata = None, geo = geo ref_raster\<rparr> = None \<and> -3 < (0.5::real) \<and>
   (0.5::real) \<le> 2.5 \<and> (2.5::real) \<le> 100 \<and>
   (\<exists>r'. reclass_iuhd \<lparr>cells = [[0.5, 2.5]], nodata = None, geo = geo ref_raster\<rparr> = Inr r' \<and>
         cells r' ! 0 ! 0 \<le> cells r' ! 0 ! 1)"
  using iuhd_tier_mono [where r = "\<lparr>cells = [[0.5, 2.5]], nodata = None, geo = geo ref_raster\<rparr>" and a = "0.5"
      and b = "2.5" and i = 0 and j = 0 and k = 0 and l = 1]
  by simp

theorem iuhd_classes_witness:
  "\<not> is_nd (Some (-9999)) 1.2 \<and> -3 < (1.2::real) \<and> (1.2::real) \<le> 100 \<and>
   script_cell iuhdtable (Some (-9999)) 1.2 \<in> {1, 2, 3, 4, 5, 6, 7, 8, 9, 10}"
  using iuhd_classes [of "Some (-9999)" "1.2"] by simp

theorem lai_chain_classes_witness:
  "\<not> is_nd None (-2) \<and> -10 < (-2::real) \<and> (-2::real) \<le> 100 \<and>
   lai_chain None (-2) \<in> {1, 4, 5, 6, 7, 8, 9, 10}"
  using lai_chain_classes [of None "-2"] by simp

end
