(* ===== verification/Mosaic.thy ===== *)
theory Mosaic
  imports Raster
begin

text \<open>
  The Mosaicker, \<open>mosaicrasters(textfile, outfile)\<close> (\<open>src/MyggmodellTRANSAFE_Uppsala.py\<close>
  lines 51--65), and the file lists the script writes for it (lines 653--666, 672--679,
  1248--1255).  The script's disk is explicit state: text files and rasters by path.
  The loop over the lines of the list is a recursion over \<open>py_lines\<close>, with the loop
  variables \<open>i\<close>, \<open>raster\<close> and \<open>baseraster\<close> in a record; \<open>raster\<close> and
  \<open>baseraster\<close> are unbound until the first line (\<open>None\<close>).  \<open>np.maximum\<close> is
  numpy's element-wise maximum with broadcasting; \<open>gdal.Open\<close> of a missing file
  returns \<open>None\<close>, on which \<open>GetRasterBand\<close> raises.  The lemmas show the loop
  invariant, that on equal-shaped tiles the loop computes \<open>mosaic_max\<close>, the spec's
  cell-wise maximum (so the mosaic's cells do not depend on the order of the list, while
  its geotransform is the last tile's), and that disjoint footprints are kept.
  \<^verbatim>\<open>
  def mosaicrasters(textfile, outfile):
      i = 0
      with open(textfile) as file:
          for line in file:
              baseraster = gdal.Open(line[:-1]) #-1 to remove \n
              nd = baseraster.GetRasterBand(1).GetNoDataValue()
              if i == 0:
                  raster = baseraster.ReadAsArray().astype(np.float)
                  raster[raster == nd] = 0
              else:
                  raster1 = baseraster.ReadAsArray().astype(np.float)
                  raster1[raster1 == nd] = 0
                  raster = np.maximum(raster, raster1)
              i = i + 1
      saveraster(baseraster, outfile, raster)
  \<close>
\<close>

section \<open>The disk and the file list\<close>

record disk =
  texts :: "string \<Rightarrow> string option"
  rasters :: "string \<Rightarrow> raster option"

text \<open>\<open>file.write(str(Path(p))); file.write('\n')\<close> for each path, in order.\<close>

definition write_filelist :: "string list \<Rightarrow> string" where
  "write_filelist ps = concat (map (\<lambda>p. p @ ''\<newline>'') ps)"

definition write_mosaic_list :: "disk \<Rightarrow> string \<Rightarrow> string list \<Rightarrow> disk" where
  "write_mosaic_list d textfile ps = d\<lparr>texts := (texts d)(textfile \<mapsto> write_filelist ps)\<rparr>"

text \<open>Iterating a Python text file: each line keeps its terminating newline; a last
  line without one is yielded as it is.\<close>

fun py_lines_from :: "string \<Rightarrow> string \<Rightarrow> string list" where
  "py_lines_from cur [] = (if cur = [] then [] else [cur])"
| "py_lines_from cur (c # s) =
     (if c = CHR ''\<newline>'' then (cur @ [c]) # py_lines_from [] s else py_lines_from (cur @ [c]) s)"

definition py_lines :: "string \<Rightarrow> string list" where
  "py_lines s = py_lines_from [] s"

text \<open>\<open>line[:-1]\<close>.\<close>

definition strip_last :: "string \<Rightarrow> string" where
  "strip_last line = butlast line"

section \<open>numpy\<close>

text \<open>\<open>raster[raster == nd] = 0\<close> (with \<open>nd = None\<close> nothing compares equal).\<close>

definition zero_nd :: "raster \<Rightarrow> real grid" where
  "zero_nd r = gmap (\<lambda>v. if is_nd (nodata r) v then 0 else v) (cells r)"

text \<open>Broadcasting: two dimensions agree when equal or when one of them is 1.\<close>

definition bdim :: "nat \<Rightarrow> nat \<Rightarrow> nat option" where
  "bdim a b = (if a = b then Some a else if a = 1 then Some b else if b = 1 then Some a else None)"

definition bcast_list :: "nat \<Rightarrow> 'a list \<Rightarrow> 'a list" where
  "bcast_list n xs = (if length xs = 1 then replicate n (hd xs) else xs)"

definition bcast :: "nat \<Rightarrow> nat \<Rightarrow> 'a grid \<Rightarrow> 'a grid" where
  "bcast m n g = map (bcast_list n) (bcast_list m g)"

definition np_maximum :: "real grid \<Rightarrow> real grid \<Rightarrow> py_error + real grid" where
  "np_maximum a b =
     (case (bdim (length a) (length b), bdim (ncols a) (ncols b)) of
        (Some m, Some n) \<Rightarrow> Inr (gzip max (bcast m n a) (bcast m n b))
      | _ \<Rightarrow> Inl (ValueError ''operands could not be broadcast together''))"

section \<open>The loop\<close>

record mstate =
  m_i :: nat
  m_raster :: "real grid option"
  m_base :: "raster option"

definition mosaic_init :: mstate where
  "mosaic_init = \<lparr>m_i = 0, m_raster = None, m_base = None\<rparr>"

definition gdal_open :: "disk \<Rightarrow> string \<Rightarrow> py_error + raster" where
  "gdal_open d path =
     (case rasters d path of
        Some r \<Rightarrow> Inr r
      | None \<Rightarrow> Inl (AttributeError ''NoneType object has no attribute GetRasterBand''))"

definition mosaic_step :: "disk \<Rightarrow> mstate \<Rightarrow> string \<Rightarrow> py_error + mstate" where
  "mosaic_step d s line =
     (case gdal_open d (strip_last line) of
        Inl e \<Rightarrow> Inl e
      | Inr base \<Rightarrow>
          (if m_i s = 0 then Inr \<lparr>m_i = m_i s + 1, m_raster = Some (zero_nd base), m_base = Some base\<rparr>
           else case m_raster s of
                  None \<Rightarrow> Inl (UnboundLocalError ''raster'')
                | Some acc \<Rightarrow>
                    (case np_maximum acc (zero_nd base) of
                       Inl e \<Rightarrow> Inl e
                     | Inr acc' \<Rightarrow> Inr \<lparr>m_i = m_i s + 1, m_raster = Some acc', m_base = Some base\<rparr>)))"

fun mosaic_loop :: "disk \<Rightarrow> mstate \<Rightarrow> string list \<Rightarrow> py_error + mstate" where
  "mosaic_loop d s [] = Inr s"
| "mosaic_loop d s (l # ls) =
     (case mosaic_step d s l of Inl e \<Rightarrow> Inl e | Inr s' \<Rightarrow> mosaic_loop d s' ls)"

text \<open>\<open>misc.saveraster(template, path, array)\<close> is not in the repository: modelled from the
  spec's \<open>writeRaster(templateRaster, outputPath, array)\<close>: the array on the template's
  geotransform.\<close>

definition saveraster :: "raster \<Rightarrow> real grid \<Rightarrow> raster" where
  "saveraster tmpl arr = \<lparr>cells = arr, nodata = None, geo = geo tmpl\<rparr>"

definition mosaicrasters :: "disk \<Rightarrow> string \<Rightarrow> string \<Rightarrow> py_error + disk" where
  "mosaicrasters d textfile outfile =
     (case texts d textfile of
        None \<Rightarrow> Inl (FileNotFoundError textfile)
      | Some txt \<Rightarrow>
          (case mosaic_loop d mosaic_init (py_lines txt) of
             Inl e \<Rightarrow> Inl e
           | Inr s \<Rightarrow>
               (case (m_base s, m_raster s) of
                  (Some b, Some a) \<Rightarrow> Inr (d\<lparr>rasters := (rasters d)(outfile \<mapsto> saveraster b a)\<rparr>)
                | (None, _) \<Rightarrow> Inl (UnboundLocalError ''baseraster'')
                | (_, None) \<Rightarrow> Inl (UnboundLocalError ''raster''))))"

text \<open>How the script uses it: write the list, then mosaic it.\<close>

definition mosaic_files :: "disk \<Rightarrow> string \<Rightarrow> string \<Rightarrow> string list \<Rightarrow> py_error + disk" where
  "mosaic_files d textfile outfile ps = mosaicrasters (write_mosaic_list d textfile ps) textfile outfile"

text \<open>The cell-wise result of the loop on equal-shaped rasters: the maximum of the
  zeroed first raster and the zeroed rest.\<close>

definition mosaic_cells :: "raster list \<Rightarrow> real grid" where
  "mosaic_cells rs = (case rs of [] \<Rightarrow> [] | r # rest \<Rightarrow> foldl (gzip max) (zero_nd r) (map zero_nd rest))"

definition mstate_inv :: "mstate \<Rightarrow> bool" where
  "mstate_inv s \<longleftrightarrow> (m_i s = 0 \<longleftrightarrow> m_raster s = None) \<and> (m_i s = 0 \<longleftrightarrow> m_base s = None)"

text \<open>Two tiles of one row and two columns for the witnesses: the first has no-data 255
  in its second cell, the second is unset (0) in its first.\<close>

definition ex_geo :: geotransform where
  "ex_geo = \<lparr>gt_x0 = 0, gt_pw = 1, gt_r1 = 0, gt_y0 = 0, gt_r2 = 0, gt_ph = -1\<rparr>"

definition ex_a :: raster where "ex_a = \<lparr>cells = [[1, 255]], nodata = Some 255, geo = ex_geo\<rparr>"

definition ex_b :: raster where "ex_b = \<lparr>cells = [[0, 2]], nodata = None, geo = ex_geo\<rparr>"

definition ex_disk :: disk where
  "ex_disk = \<lparr>texts = Map.empty, rasters = [''a.tif'' \<mapsto> ex_a, ''b.tif'' \<mapsto> ex_b]\<rparr>"

text \<open>The spec's mosaic (the cell-wise maximum of the tiles, no-data read as 0) as a
  reference definition.\<close>

definition mosaic_max :: "nat \<Rightarrow> nat \<Rightarrow> raster list \<Rightarrow> real grid" where
  "mosaic_max m n rs =
     map (\<lambda>i. map (\<lambda>j. Max (set (map (\<lambda>r. zero_nd r ! i ! j) rs))) [0..<n]) [0..<m]"


section \<open>Lemmas\<close>

subsection \<open>The file list\<close>

lemma py_lines_from_line:
  "CHR ''\<newline>'' \<notin> set p \<Longrightarrow>
   py_lines_from cur (p @ CHR ''\<newline>'' # s) = (cur @ p @ [CHR ''\<newline>'']) # py_lines_from [] s"
  by (induction p arbitrary: cur) auto

lemma py_lines_filelist:
  "\<forall>p \<in> set ps. CHR ''\<newline>'' \<notin> set p \<Longrightarrow>
   py_lines (write_filelist ps) = map (\<lambda>p. p @ ''\<newline>'') ps"
proof (induction ps)
  case Nil
  then show ?case by (simp add: py_lines_def write_filelist_def)
next
  case (Cons p ps)
  then have "py_lines_from [] (p @ CHR ''\<newline>'' # write_filelist ps) =
             (p @ ''\<newline>'') # py_lines (write_filelist ps)"
    by (simp add: py_lines_from_line py_lines_def)
  with Cons show ?case by (simp add: py_lines_def write_filelist_def)
qed

text \<open>C17: The list \<open>mosaicrasters\<close> reads back is the list the script wrote, when no path
  holds a newline.\<close>

theorem filelist_roundtrip:
  "\<forall>p \<in> set ps. CHR ''\<newline>'' \<notin> set p \<Longrightarrow> map strip_last (py_lines (write_filelist ps)) = ps"
  by (simp add: py_lines_filelist strip_last_def comp_def)

subsection \<open>The loop invariant\<close>

lemma mosaic_step_inv:
  "mosaic_step d s l = Inr s' \<Longrightarrow> mstate_inv s \<Longrightarrow> mstate_inv s' \<and> m_i s' = Suc (m_i s)"
  by (auto simp: mosaic_step_def mstate_inv_def split: sum.splits if_splits option.splits)

lemma mosaic_loop_inv:
  "mosaic_loop d s ls = Inr s' \<Longrightarrow> mstate_inv s \<Longrightarrow> mstate_inv s' \<and> m_i s' = m_i s + length ls"
proof (induction ls arbitrary: s)
  case Nil
  then show ?case by simp
next
  case (Cons l ls)
  then obtain t where t: "mosaic_step d s l = Inr t" and rest: "mosaic_loop d t ls = Inr s'"
    by (auto split: sum.splits)
  from mosaic_step_inv [OF t Cons.prems(2)] have "mstate_inv t" "m_i t = Suc (m_i s)" by simp_all
  with Cons.IH [OF rest] show ?case by simp
qed

text \<open>After the loop, \<open>i\<close> counts the lines read, and \<open>raster\<close> and \<open>baseraster\<close> are
  bound exactly when at least one line was read.\<close>

theorem mosaic_loop_bound:
  assumes "mosaic_loop d mosaic_init ls = Inr s"
  shows "m_i s = length ls \<and> (m_raster s = None \<longleftrightarrow> ls = []) \<and> (m_base s = None \<longleftrightarrow> ls = [])"
proof -
  have init: "mstate_inv mosaic_init" by (simp add: mosaic_init_def mstate_inv_def)
  from mosaic_loop_inv [OF assms init] have inv: "mstate_inv s" and len: "m_i s = length ls"
    by (simp_all add: mosaic_init_def)
  from len have "m_i s = 0 \<longleftrightarrow> ls = []" by simp
  with inv len show ?thesis unfolding mstate_inv_def by blast
qed

text \<open>mosaicrasters on an empty list file raises UnboundLocalError for baseraster.\<close>

theorem mosaic_empty_list:
  "texts d textfile = Some [] \<Longrightarrow>
   mosaicrasters d textfile outfile = Inl (UnboundLocalError ''baseraster'')"
  by (simp add: mosaicrasters_def py_lines_def mosaic_init_def)

subsection \<open>The loop computes the cell-wise maximum\<close>

lemma bcast_list_id: "length xs = n \<Longrightarrow> bcast_list n xs = xs"
  by (cases xs rule: remdups_adj.cases) (auto simp: bcast_list_def)

lemma bcast_rect: "rect m n g \<Longrightarrow> bcast m n g = g"
  by (simp add: bcast_def bcast_list_id rect_def list_all_iff map_idI)

lemma np_maximum_rect:
  assumes "rect m n a" "rect m n b"
  shows "np_maximum a b = Inr (gzip max a b)"
proof (cases "m = 0")
  case True
  with assms show ?thesis by (simp add: rect_def np_maximum_def bdim_def ncols_def bcast_def bcast_list_def)
next
  case False
  with assms have "length a = m" "length b = m" "ncols a = n" "ncols b = n"
    by (simp_all add: grid_simps)
  with assms show ?thesis by (simp add: np_maximum_def bdim_def bcast_rect)
qed

lemma rect_zero_nd [grid_simps]: "rect m n (zero_nd r) \<longleftrightarrow> rect m n (cells r)"
  by (simp add: zero_nd_def grid_simps)

lemma mosaic_loop_acc:
  assumes "map (\<lambda>l. rasters d (strip_last l)) ls = map Some rs"
    and "list_all (\<lambda>r. rect m n (cells r)) rs"
    and "0 < m_i s" "m_raster s = Some acc" "rect m n acc"
  shows "mosaic_loop d s ls =
         Inr \<lparr>m_i = m_i s + length rs, m_raster = Some (foldl (gzip max) acc (map zero_nd rs)),
              m_base = (if rs = [] then m_base s else Some (last rs))\<rparr>"
  using assms
proof (induction ls arbitrary: rs s acc)
  case Nil
  then show ?case by simp
next
  case (Cons l ls)
  then obtain r rs' where rs: "rs = r # rs'" and r: "rasters d (strip_last l) = Some r"
    and rest: "map (\<lambda>l. rasters d (strip_last l)) ls = map Some rs'"
    by (cases rs) auto
  with Cons.prems have rr: "rect m n (cells r)" and rrs: "list_all (\<lambda>r. rect m n (cells r)) rs'" by simp_all
  let ?t = "\<lparr>m_i = Suc (m_i s), m_raster = Some (gzip max acc (zero_nd r)), m_base = Some r\<rparr>"
  have step: "mosaic_step d s l = Inr ?t"
    using Cons.prems r rr by (simp add: mosaic_step_def gdal_open_def np_maximum_rect rect_zero_nd)
  have "rect m n (gzip max acc (zero_nd r))" using Cons.prems rr by (simp add: grid_simps)
  from Cons.IH [OF rest rrs _ _ this, of ?t] step rs show ?case by auto
qed

lemma mosaic_loop_cells:
  assumes "map (\<lambda>l. rasters d (strip_last l)) ls = map Some rs" "rs \<noteq> []"
    and "list_all (\<lambda>r. rect m n (cells r)) rs"
  shows "mosaic_loop d mosaic_init ls =
         Inr \<lparr>m_i = length rs, m_raster = Some (mosaic_cells rs), m_base = Some (last rs)\<rparr>"
proof -
  from assms obtain l ls' r rs' where ls: "ls = l # ls'" and rs: "rs = r # rs'"
    and r: "rasters d (strip_last l) = Some r"
    and rest: "map (\<lambda>l. rasters d (strip_last l)) ls' = map Some rs'"
    by (cases ls; cases rs) auto
  let ?t = "\<lparr>m_i = 1, m_raster = Some (zero_nd r), m_base = Some r\<rparr>"
  have step: "mosaic_step d mosaic_init l = Inr ?t"
    using r by (simp add: mosaic_step_def gdal_open_def mosaic_init_def)
  have "rect m n (zero_nd r)" using assms(3) rs by (simp add: rect_zero_nd)
  from mosaic_loop_acc [OF rest _ _ _ this, of ?t] assms(3) step ls rs show ?thesis
    by (simp add: mosaic_cells_def)
qed

lemma rect_foldl_gzip:
  "rect m n a \<Longrightarrow> list_all (rect m n) gs \<Longrightarrow> rect m n (foldl (gzip f) a gs)"
  by (induction gs arbitrary: a) (simp_all add: rect_gzip)

lemma foldl_gzip_nth:
  "rect m n a \<Longrightarrow> list_all (rect m n) gs \<Longrightarrow> in_grid m n i j \<Longrightarrow>
   foldl (gzip f) a gs ! i ! j = foldl f (a ! i ! j) (map (\<lambda>g. g ! i ! j) gs)"
proof (induction gs arbitrary: a)
  case Nil
  then show ?case by simp
next
  case (Cons g gs)
  then have "rect m n (gzip f a g)" by (simp add: rect_gzip)
  with Cons show ?case by (simp add: gzip_nth rect_iff_nth)
qed

lemma foldl_max_Max: "foldl max x xs = Max (set (x # xs))"
proof -
  have "(\<lambda>y a. max a y) = (max :: 'a \<Rightarrow> 'a \<Rightarrow> 'a)" by (auto simp: max.commute)
  then show ?thesis using Max.set_eq_fold [of x xs] by (simp add: foldl_conv_fold)
qed

lemma rect_mosaic_max [grid_simps]: "rect m n (mosaic_max m n rs)"
  by (simp add: mosaic_max_def rect_iff_nth)

lemma mosaic_max_nth [grid_simps]:
  "in_grid m n i j \<Longrightarrow> mosaic_max m n rs ! i ! j = Max (set (map (\<lambda>r. zero_nd r ! i ! j) rs))"
  by (simp add: mosaic_max_def)

lemma mosaic_cells_max:
  assumes "rs \<noteq> []" "list_all (\<lambda>r. rect m n (cells r)) rs"
  shows "mosaic_cells rs = mosaic_max m n rs"
proof -
  from assms(1) obtain r rest where rs: "rs = r # rest" by (cases rs) auto
  with assms(2) have r: "rect m n (zero_nd r)" and rest: "list_all (rect m n) (map zero_nd rest)"
    by (simp_all add: rect_zero_nd list_all_iff)
  show ?thesis
  proof (rule rect_eqI)
    show "rect m n (mosaic_cells rs)"
      using r rest rs by (simp add: mosaic_cells_def rect_foldl_gzip)
    show "rect m n (mosaic_max m n rs)" by (rule rect_mosaic_max)
    fix i j assume ij: "in_grid m n i j"
    show "mosaic_cells rs ! i ! j = mosaic_max m n rs ! i ! j"
      using foldl_gzip_nth [OF r rest ij] ij rs
      by (simp add: mosaic_cells_def mosaic_max_nth foldl_max_Max comp_def)
  qed
qed

lemma mosaic_files_ok:
  assumes "ps \<noteq> []" "\<forall>p \<in> set ps. CHR ''\<newline>'' \<notin> set p"
    and "map (rasters d) ps = map Some rs" "list_all (\<lambda>r. rect m n (cells r)) rs"
  shows "mosaic_files d t out ps =
         Inr (d\<lparr>texts := (texts d)(t \<mapsto> write_filelist ps),
                rasters := (rasters d)(out \<mapsto> saveraster (last rs) (mosaic_max m n rs))\<rparr>)"
proof -
  let ?d = "write_mosaic_list d t ps"
  have rs: "rs \<noteq> []" using assms(1,3) by auto
  have "map (\<lambda>l. rasters ?d (strip_last l)) (py_lines (write_filelist ps)) = map Some rs"
    using assms(2,3) by (simp add: py_lines_filelist strip_last_def comp_def write_mosaic_list_def)
  from mosaic_loop_cells [OF this rs assms(4)] rs assms(4) show ?thesis
    by (simp add: mosaic_files_def mosaicrasters_def write_mosaic_list_def mosaic_cells_max)
qed

text \<open>C18: On a list of readable, newline-free paths to equal-shaped rasters the script's
  \<open>mosaicrasters\<close> step succeeds, writes the list file and stores at the output path the
  cell-wise maximum of the tiles on the geotransform of the last tile.\<close>

theorem mosaic_files_result:
  assumes "ps \<noteq> []" "\<forall>p \<in> set ps. CHR ''\<newline>'' \<notin> set p"
    and "map (rasters d) ps = map Some rs" "list_all (\<lambda>r. rect m n (cells r)) rs"
  shows "mosaic_files d t out ps =
         Inr (d\<lparr>texts := (texts d)(t \<mapsto> write_filelist ps),
                rasters := (rasters d)(out \<mapsto> saveraster (last rs) (mosaic_max m n rs))\<rparr>)"
  using assms by (rule mosaic_files_ok)

lemma mosaic_max_set:
  "set rs = set rs' \<Longrightarrow> mosaic_max m n rs = mosaic_max m n rs'"
  by (simp add: mosaic_max_def image_image [symmetric])

lemma map_eq_map_Some:
  "map f xs = map Some ys \<longleftrightarrow> (\<forall>x \<in> set xs. f x \<noteq> None) \<and> ys = map (the \<circ> f) xs"
  by (induction xs arbitrary: ys) (auto simp: Cons_eq_map_conv)

text \<open>C19: Listing the same tiles in another order gives a mosaic with the same cells.\<close>

theorem mosaic_order_independent:
  assumes "ps \<noteq> []" "\<forall>p \<in> set ps. CHR ''\<newline>'' \<notin> set p" "set ps' = set ps"
    and "map (rasters d) ps = map Some rs" "list_all (\<lambda>r. rect m n (cells r)) rs"
  shows "\<exists>d1 d2. mosaic_files d t out ps = Inr d1 \<and> mosaic_files d t out ps' = Inr d2 \<and>
                 map_option cells (rasters d1 out) = map_option cells (rasters d2 out)"
proof -
  define rs' where "rs' = map (the \<circ> rasters d) ps'"
  from assms(4) have ok: "\<forall>p \<in> set ps. rasters d p \<noteq> None" and rs: "rs = map (the \<circ> rasters d) ps"
    by (simp_all add: map_eq_map_Some)
  have rs': "map (rasters d) ps' = map Some rs'"
    using ok assms(3) by (simp add: map_eq_map_Some rs'_def)
  have set: "set rs' = set rs" using assms(3) by (simp add: rs rs'_def)
  have "ps' \<noteq> []" "\<forall>p \<in> set ps'. CHR ''\<newline>'' \<notin> set p" "list_all (\<lambda>r. rect m n (cells r)) rs'"
    using assms(1,2,3,5) set by (auto simp: list_all_iff)
  from mosaic_files_ok [OF this(1,2) rs' this(3)] mosaic_files_ok [OF assms(1,2,4,5)]
  show ?thesis by (simp add: mosaic_max_set [OF set] saveraster_def)
qed

text \<open>Where only one tile has a non-zero value and no value is negative, the mosaic
  holds that tile's value.\<close>

theorem mosaic_disjoint:
  assumes "in_grid m n i j" "r \<in> set rs"
    and "list_all (\<lambda>r'. 0 \<le> zero_nd r' ! i ! j) rs"
    and "list_all (\<lambda>r'. r' = r \<or> zero_nd r' ! i ! j = 0) rs"
  shows "mosaic_max m n rs ! i ! j = zero_nd r ! i ! j"
  unfolding mosaic_max_nth [OF assms(1)]
proof (rule Max_eqI)
  have "0 \<le> zero_nd r ! i ! j" using assms(2,3) by (simp add: list_all_iff)
  then show "y \<le> zero_nd r ! i ! j" if "y \<in> set (map (\<lambda>r. zero_nd r ! i ! j) rs)" for y
    using that assms(4) by (auto simp: list_all_iff)
qed (use assms(2) in simp_all)

subsection \<open>Witnesses\<close>

theorem filelist_roundtrip_witness:
  "CHR ''\<newline>'' \<notin> set ''gracing.tif'' \<and> CHR ''\<newline>'' \<notin> set ''manmade.tif'' \<and>
   map strip_last (py_lines (write_filelist [''gracing.tif'', ''manmade.tif''])) =
     [''gracing.tif'', ''manmade.tif'']"
  using filelist_roundtrip [of "[''gracing.tif'', ''manmade.tif'']"] by simp

theorem mosaic_loop_bound_witness:
  "mosaic_loop \<lparr>texts = Map.empty, rasters = Map.empty\<rparr> mosaic_init [] = Inr mosaic_init \<and>
   m_i mosaic_init = length ([] :: string list) \<and> m_raster mosaic_init = None"
  using mosaic_loop_bound [of "\<lparr>texts = Map.empty, rasters = Map.empty\<rparr>" "[]" mosaic_init]
  by simp

theorem mosaic_empty_list_witness:
  "texts \<lparr>texts = [''l.txt'' \<mapsto> []], rasters = Map.empty\<rparr> ''l.txt'' = Some [] \<and>
   mosaicrasters \<lparr>texts = [''l.txt'' \<mapsto> []], rasters = Map.empty\<rparr> ''l.txt'' ''o.tif'' =
     Inl (UnboundLocalError ''baseraster'')"
  using mosaic_empty_list [of "\<lparr>texts = [''l.txt'' \<mapsto> []], rasters = Map.empty\<rparr>" "''l.txt''" "''o.tif''"]
  by simp

theorem mosaic_files_result_witness:
  "[''a.tif'', ''b.tif''] \<noteq> [] \<and> CHR ''\<newline>'' \<notin> set ''a.tif'' \<and> CHR ''\<newline>'' \<notin> set ''b.tif'' \<and>
   map (rasters ex_disk) [''a.tif'', ''b.tif''] = map Some [ex_a, ex_b] \<and>
   list_all (\<lambda>r. rect 1 2 (cells r)) [ex_a, ex_b] \<and>
   mosaic_files ex_disk ''l.txt'' ''o.tif'' [''a.tif'', ''b.tif''] =
     Inr (ex_disk\<lparr>texts := (texts ex_disk)(''l.txt'' \<mapsto> write_filelist [''a.tif'', ''b.tif'']),
            rasters := (rasters ex_disk)(''o.tif'' \<mapsto> saveraster ex_b (mosaic_max 1 2 [ex_a, ex_b]))\<rparr>) \<and>
   mosaic_max 1 2 [ex_a, ex_b] = [[1, 2]]"
proof -
  have "mosaic_max 1 2 [ex_a, ex_b] = [[1, 2]]"
    by (simp add: ex_a_def ex_b_def mosaic_max_def zero_nd_def gmap_def upt_rec)
  then show ?thesis
    using mosaic_files_result [of "[''a.tif'', ''b.tif'']" ex_disk "[ex_a, ex_b]" 1 2 "''l.txt''" "''o.tif''"]
    by (simp add: ex_disk_def ex_a_def ex_b_def rect_def)
qed

theorem mosaic_order_independent_witness:
  "[''a.tif'', ''b.tif''] \<noteq> [] \<and> CHR ''\<newline>'' \<notin> set ''a.tif'' \<and> CHR ''\<newline>'' \<notin> set ''b.tif'' \<and>
   set [''b.tif'', ''a.tif''] = set [''a.tif'', ''b.tif''] \<and>
   map (rasters ex_disk) [''a.tif'', ''b.tif''] = map Some [ex_a, ex_b] \<and>
   list_all (\<lambda>r. rect 1 2 (cells r)) [ex_a, ex_b] \<and>
   (\<exists>d1 d2. mosaic_files ex_disk ''l.txt'' ''o.tif'' [''a.tif'', ''b.tif''] = Inr d1 \<and>
      mosaic_files ex_disk ''l.txt'' ''o.tif'' [''b.tif'', ''a.tif''] = Inr d2 \<and>
      map_option cells (rasters d1 ''o.tif'') = map_option cells (rasters d2 ''o.tif''))"
  using mosaic_order_independent
    [of "[''a.tif'', ''b.tif'']" "[''b.tif'', ''a.tif'']" ex_disk "[ex_a, ex_b]" 1 2 "''l.txt''" "''o.tif''"]
  by (simp add: ex_disk_def ex_a_def ex_b_def insert_commute rect_def)

theorem mosaic_disjoint_witness:
  "in_grid 1 2 0 1 \<and> ex_b \<in> set [ex_a, ex_b] \<and>
   list_all (\<lambda>r'. 0 \<le> zero_nd r' ! 0 ! 1) [ex_a, ex_b] \<and>
   list_all (\<lambda>r'. r' = ex_b \<or> zero_nd r' ! 0 ! 1 = 0) [ex_a, ex_b] \<and>
   mosaic_max 1 2 [ex_a, ex_b] ! 0 ! 1 = zero_nd ex_b ! 0 ! 1"
  using mosaic_disjoint [where m = 1 and n = 2 and i = 0 and j = 1 and r = ex_b and rs = "[ex_a, ex_b]"]
  by (simp add: ex_a_def ex_b_def zero_nd_def gmap_def)

end
