(* ===== verification/RasterCalc.thy ===== *)
theory RasterCalc
  imports Raster
begin

text \<open>
  RasterAlgebra: \<open>gdal:rastercalculator\<close> (\<open>gdal_calc.py\<close>) and every formula the script
  and \<open>heatmappart\<close> pass to it.  The engine is not in the repository and is modelled
  from the spec (section 4.3): the inputs must have the same size; a cell where any input
  holds its no-data value becomes the output no-data value (\<open>NO_DATA\<close>, or
  \<open>gdal_calc\<close>'s Float32 default when \<open>NO_DATA\<close> is \<open>None\<close>); every other cell is the
  formula applied to the inputs' values, \<open>A\<close> first.  Comparisons such as \<open>(A == 0)\<close>
  are numpy booleans, counted as 0/1 (\<^const>\<open>b2r\<close>).  The output type \<open>RTYPE 5\<close> is
  Float32, idealised as \<open>real\<close>.
\<close>

section \<open>The engine\<close>

text \<open>\<open>gdal_calc\<close>'s default no-data value for Float32 output, \<open>3.402823466E+38\<close>.\<close>

definition calc_default_nodata :: real where
  "calc_default_nodata = 340282346600000000000000000000000000000"

definition calc_at :: "(real list \<Rightarrow> real) \<Rightarrow> real \<Rightarrow> raster list \<Rightarrow> nat \<Rightarrow> nat \<Rightarrow> real" where
  "calc_at f ndv rs i j =
     (if list_ex (\<lambda>r. is_nd (nodata r) (cells r ! i ! j)) rs then ndv
      else f (map (\<lambda>r. cells r ! i ! j) rs))"

definition calc_nodata :: "real option \<Rightarrow> real" where
  "calc_nodata nd = (case nd of None \<Rightarrow> calc_default_nodata | Some v \<Rightarrow> v)"

definition gdal_calc :: "(real list \<Rightarrow> real) \<Rightarrow> real option \<Rightarrow> raster list \<Rightarrow> py_error + raster" where
  "gdal_calc f nd rs =
     (case rs of
        [] \<Rightarrow> Inl (ValueError ''no input raster'')
      | r0 # _ \<Rightarrow>
          (if list_all (\<lambda>r. rect (ysize r0) (xsize r0) (cells r)) rs
           then Inr \<lparr>cells = map (\<lambda>i. map (\<lambda>j. calc_at f (calc_nodata nd) rs i j) [0..<xsize r0])
                                 [0..<ysize r0],
                     nodata = Some (calc_nodata nd), geo = geo r0\<rparr>
           else Inl (ValueError ''dimensions of the input rasters differ'')))"

section \<open>The formulas\<close>

text \<open>Mask out roofs only from slope: \<open>(A == 0) * 100 + + (A == 1) * B\<close>.\<close>

definition f_roof_slope :: "real \<Rightarrow> real \<Rightarrow> real" where
  "f_roof_slope a b = b2r (a = 0) * 100 + b2r (a = 1) * b"

text \<open>Slopes of 8 degrees or more to no-data: \<open>(A < 8) * A + (A >= 8) * 130\<close>.\<close>

definition f_slope_cut :: "real \<Rightarrow> real" where
  "f_slope_cut a = b2r (a < 8) * a + b2r (a \<ge> 8) * 130"

text \<open>Combining land cover and land use: \<open>(A + B) / 2\<close>.\<close>

definition f_lclu :: "real \<Rightarrow> real \<Rightarrow> real" where
  "f_lclu a b = (a + b) / 2"

text \<open>WMCA oviposition and IUHD: \<open>A * 0.9 + B * 0.1\<close>.\<close>

definition f_wmca_ovi :: "real \<Rightarrow> real \<Rightarrow> real" where
  "f_wmca_ovi a b = a * 0.9 + b * 0.1"

text \<open>Combining the six heatmaps: \<open>(A + B + C + D + E + F) / 6\<close>.\<close>

definition f_heat_combine :: "real \<Rightarrow> real \<Rightarrow> real \<Rightarrow> real \<Rightarrow> real \<Rightarrow> real \<Rightarrow> real" where
  "f_heat_combine a b c d e f = (a + b + c + d + e + f) / 6"

text \<open>Vegetation from NMD: the sum of \<open>(A == k)\<close> over the listed land-cover codes.\<close>

definition nmd_veg_codes :: "real list" where
  "nmd_veg_codes = [2, 42, 111, 112, 113, 114, 115, 116, 117, 118, 121, 122, 123, 124, 125,
                    126, 127, 128]"

definition f_veg_from_nmd :: "real \<Rightarrow> real" where
  "f_veg_from_nmd a = sum_list (map (\<lambda>k. b2r (a = k)) nmd_veg_codes)"

text \<open>Vegetation heights \<open>A * B\<close>; ocean distance in km \<open>A / 1000.0\<close>.\<close>

definition f_veg_heights :: "real \<Rightarrow> real \<Rightarrow> real" where
  "f_veg_heights a b = a * b"

definition f_ocean_km :: "real \<Rightarrow> real" where
  "f_ocean_km a = a / 1000.0"

text \<open>LAIFAICombo: \<open>(((A * 0.6) * B) + C) / 2\<close>.\<close>

definition f_laifai :: "real \<Rightarrow> real \<Rightarrow> real \<Rightarrow> real" where
  "f_laifai a b c = (((a * 0.6) * b) + c) / 2"

text \<open>WindReduxOcean: \<open>(2.6 * 2.71828 ** (-0.015 * A))\<close>.\<close>

definition f_wind_redux :: "real \<Rightarrow> real" where
  "f_wind_redux a = 2.6 * 2.71828 powr (-0.015 * a)"

text \<open>WindReduxOcean and height: \<open>(A + B) / 2\<close>.\<close>

definition f_wind_combine :: "real \<Rightarrow> real \<Rightarrow> real" where
  "f_wind_combine a b = (a + b) / 2"

text \<open>The two adult overlays.\<close>

definition f_adult1 :: "real \<Rightarrow> real \<Rightarrow> real \<Rightarrow> real \<Rightarrow> real \<Rightarrow> real \<Rightarrow> real" where
  "f_adult1 a b c d e f = a * 0.18 + b * 0.18 + c * 0.13 + d * 0.13 + e * 0.13 + f * 0.1"

definition f_adult2 :: "real \<Rightarrow> real \<Rightarrow> real \<Rightarrow> real" where
  "f_adult2 a b c = a * 0.1 + b * 0.05 + c"

text \<open>\<open>heatmappart\<close>: the band threshold and the scaling by the band index.
  \<^verbatim>\<open>
  if value == 6:
      formula = 'A >= ' + str(value)
  else:
      formula = 'logical_and( A < ' + str(value + 1) + ' , A >= ' + str(value) + ' )'
  \<close>\<close>

definition f_heat_threshold :: "nat \<Rightarrow> real \<Rightarrow> real" where
  "f_heat_threshold v a =
     (if v = 6 then b2r (a \<ge> real v) else b2r (a < real (v + 1) \<and> a \<ge> real v))"

definition f_heat_scale :: "nat \<Rightarrow> real \<Rightarrow> real" where
  "f_heat_scale v a = a * real v"

section \<open>The calls\<close>

text \<open>Each call of the script: its inputs in the order \<open>INPUT_A\<close>, \<open>INPUT_B\<close>, ... and
  its \<open>NO_DATA\<close>.\<close>

definition calc_roof_slope :: "raster \<Rightarrow> raster \<Rightarrow> py_error + raster" where
  "calc_roof_slope buildbool slope = gdal_calc (\<lambda>v. f_roof_slope (v ! 0) (v ! 1)) (Some 130) [buildbool, slope]"

definition calc_slope_cut :: "raster \<Rightarrow> py_error + raster" where
  "calc_slope_cut warped = gdal_calc (\<lambda>v. f_slope_cut (v ! 0)) (Some 130) [warped]"

definition calc_lclu :: "raster \<Rightarrow> raster \<Rightarrow> py_error + raster" where
  "calc_lclu lu lc = gdal_calc (\<lambda>v. f_lclu (v ! 0) (v ! 1)) None [lu, lc]"

definition calc_wmca_ovi :: "raster \<Rightarrow> raster \<Rightarrow> py_error + raster" where
  "calc_wmca_ovi lclu iuhd = gdal_calc (\<lambda>v. f_wmca_ovi (v ! 0) (v ! 1)) None [lclu, iuhd]"

definition calc_heat_combine ::
  "raster \<Rightarrow> raster \<Rightarrow> raster \<Rightarrow> raster \<Rightarrow> raster \<Rightarrow> raster \<Rightarrow> py_error + raster" where
  "calc_heat_combine h1 h2 h3 h4 h5 h6 =
     gdal_calc (\<lambda>v. f_heat_combine (v ! 0) (v ! 1) (v ! 2) (v ! 3) (v ! 4) (v ! 5)) None
       [h1, h2, h3, h4, h5, h6]"

definition calc_veg_from_nmd :: "raster \<Rightarrow> py_error + raster" where
  "calc_veg_from_nmd lc = gdal_calc (\<lambda>v. f_veg_from_nmd (v ! 0)) None [lc]"

definition calc_veg_heights :: "raster \<Rightarrow> raster \<Rightarrow> py_error + raster" where
  "calc_veg_heights veg heights = gdal_calc (\<lambda>v. f_veg_heights (v ! 0) (v ! 1)) None [veg, heights]"

definition calc_ocean_km :: "raster \<Rightarrow> py_error + raster" where
  "calc_ocean_km distr = gdal_calc (\<lambda>v. f_ocean_km (v ! 0)) None [distr]"

definition calc_laifai :: "raster \<Rightarrow> raster \<Rightarrow> raster \<Rightarrow> py_error + raster" where
  "calc_laifai lai faiveg faibuild = gdal_calc (\<lambda>v. f_laifai (v ! 0) (v ! 1) (v ! 2)) None [lai, faiveg, faibuild]"

definition calc_wind_redux :: "raster \<Rightarrow> py_error + raster" where
  "calc_wind_redux km = gdal_calc (\<lambda>v. f_wind_redux (v ! 0)) None [km]"

definition calc_wind_combine :: "raster \<Rightarrow> raster \<Rightarrow> py_error + raster" where
  "calc_wind_combine wh wo = gdal_calc (\<lambda>v. f_wind_combine (v ! 0) (v ! 1)) None [wh, wo]"

definition calc_adult1 ::
  "raster \<Rightarrow> raster \<Rightarrow> raster \<Rightarrow> raster \<Rightarrow> raster \<Rightarrow> raster \<Rightarrow> py_error + raster" where
  "calc_adult1 lai heat lu wind vegpai vegh =
     gdal_calc (\<lambda>v. f_adult1 (v ! 0) (v ! 1) (v ! 2) (v ! 3) (v ! 4) (v ! 5)) None
       [lai, heat, lu, wind, vegpai, vegh]"

definition calc_adult2 :: "raster \<Rightarrow> raster \<Rightarrow> raster \<Rightarrow> py_error + raster" where
  "calc_adult2 laifai nmd mca1 = gdal_calc (\<lambda>v. f_adult2 (v ! 0) (v ! 1) (v ! 2)) None [laifai, nmd, mca1]"

definition calc_heat_threshold :: "raster \<Rightarrow> nat \<Rightarrow> py_error + raster" where
  "calc_heat_threshold r v = gdal_calc (\<lambda>x. f_heat_threshold v (x ! 0)) None [r]"

definition calc_heat_scale :: "raster \<Rightarrow> nat \<Rightarrow> py_error + raster" where
  "calc_heat_scale r v = gdal_calc (\<lambda>x. f_heat_scale v (x ! 0)) None [r]"

section \<open>A reference geotransform\<close>

definition calc_geo :: geotransform where
  "calc_geo = \<lparr>gt_x0 = 0, gt_pw = 10, gt_r1 = 0, gt_y0 = 0, gt_r2 = 0, gt_ph = -10\<rparr>"

section \<open>Lemmas\<close>

subsection \<open>The engine\<close>

lemma rect_tabulate [grid_simps]: "rect m n (map (\<lambda>i. map (\<lambda>j. F i j) [0..<n]) [0..<m])"
  by (simp add: rect_def list_all_length)

lemma tabulate_nth [grid_simps]:
  "i < m \<Longrightarrow> j < n \<Longrightarrow> map (\<lambda>i. map (\<lambda>j. F i j) [0..<n]) [0..<m] ! i ! j = F i j"
  by simp

lemma gdal_calc_ok:
  assumes "list_all (\<lambda>r. rect m n (cells r)) (r0 # rest)" "0 < m"
  shows "gdal_calc f nd (r0 # rest) =
           Inr \<lparr>cells = map (\<lambda>i. map (\<lambda>j. calc_at f (calc_nodata nd) (r0 # rest) i j) [0..<n]) [0..<m],
                nodata = Some (calc_nodata nd), geo = geo r0\<rparr>"
proof -
  from assms(1) have "rect m n (cells r0)" by simp
  with assms(2) have "ysize r0 = m" "xsize r0 = n"
    by (simp_all add: ysize_def xsize_def rect_length rect_ncols)
  with assms(1) show ?thesis by (simp add: gdal_calc_def)
qed

text \<open>The same without a non-empty grid: with no rows both sides have no cells.\<close>

lemma gdal_calc_rect:
  assumes "list_all (\<lambda>r. rect m n (cells r)) (r0 # rest)"
  shows "gdal_calc f nd (r0 # rest) =
           Inr \<lparr>cells = map (\<lambda>i. map (\<lambda>j. calc_at f (calc_nodata nd) (r0 # rest) i j) [0..<n]) [0..<m],
                nodata = Some (calc_nodata nd), geo = geo r0\<rparr>"
proof (cases "m = 0")
  case True
  with assms have "list_all (\<lambda>r. cells r = []) (r0 # rest)"
    by (simp add: rect_def list_all_iff)
  with True show ?thesis by (simp add: gdal_calc_def ysize_def xsize_def ncols_def list_all_iff rect_Nil)
next
  case False
  with assms show ?thesis by (simp add: gdal_calc_ok)
qed

lemma gdal_calc_mismatch:
  "\<not> list_all (\<lambda>r. rect (ysize r0) (xsize r0) (cells r)) (r0 # rest) \<Longrightarrow>
   gdal_calc f nd (r0 # rest) = Inl (ValueError ''dimensions of the input rasters differ'')"
  by (simp add: gdal_calc_def)

lemma calc_at_nd:
  "r \<in> set rs \<Longrightarrow> is_nd (nodata r) (cells r ! i ! j) \<Longrightarrow> calc_at f ndv rs i j = ndv"
  by (auto simp: calc_at_def list_ex_iff)

lemma calc_at_val:
  "list_all (\<lambda>r. \<not> is_nd (nodata r) (cells r ! i ! j)) rs \<Longrightarrow>
   calc_at f ndv rs i j = f (map (\<lambda>r. cells r ! i ! j) rs)"
  by (simp add: calc_at_def list_ex_iff list_all_iff)

lemma gdal_calc_cell:
  assumes "gdal_calc f nd rs = Inr out" "rs \<noteq> []" "i < ysize (hd rs)" "j < xsize (hd rs)"
  shows "cells out ! i ! j = calc_at f (calc_nodata nd) rs i j \<and> nodata out = Some (calc_nodata nd)"
  using assms by (cases rs) (auto simp: gdal_calc_def split: if_splits)

lemma tabulate_const:
  "(\<And>i j. i < m \<Longrightarrow> j < n \<Longrightarrow> F i j = c) \<Longrightarrow>
   map (\<lambda>i. map (\<lambda>j. F i j) [0..<n]) [0..<m] = const_grid m n c"
  by (rule rect_eqI [of m n]) (simp_all add: grid_simps)

text \<open>C4: The spec's scenario for the WMCA overlay \<open>A * 0.9 + B * 0.1\<close>: constant inputs 5 and
  3 give 4.8 in every cell.\<close>

theorem calc_wmca_ovi_scenario:
  assumes "0 < m"
  shows "calc_wmca_ovi \<lparr>cells = const_grid m n 5, nodata = None, geo = g\<rparr>
                       \<lparr>cells = const_grid m n 3, nodata = None, geo = g'\<rparr>
         = Inr \<lparr>cells = const_grid m n 4.8, nodata = Some calc_default_nodata, geo = g\<rparr>"
proof -
  let ?rs = "[\<lparr>cells = const_grid m n (5::real), nodata = None, geo = g\<rparr>,
              \<lparr>cells = const_grid m n (3::real), nodata = None, geo = g'\<rparr>]"
  have "list_all (\<lambda>r. rect m n (cells r)) ?rs" by (simp add: rect_const_grid)
  from gdal_calc_ok [OF this assms]
  have "calc_wmca_ovi \<lparr>cells = const_grid m n 5, nodata = None, geo = g\<rparr>
          \<lparr>cells = const_grid m n 3, nodata = None, geo = g'\<rparr> =
        Inr \<lparr>cells = map (\<lambda>i. map (\<lambda>j. calc_at (\<lambda>v. f_wmca_ovi (v ! 0) (v ! 1)) calc_default_nodata ?rs i j)
                [0..<n]) [0..<m], nodata = Some calc_default_nodata, geo = g\<rparr>"
    by (simp add: calc_wmca_ovi_def calc_nodata_def)
  also have "map (\<lambda>i. map (\<lambda>j. calc_at (\<lambda>v. f_wmca_ovi (v ! 0) (v ! 1)) calc_default_nodata ?rs i j)
                [0..<n]) [0..<m] = const_grid m n 4.8"
    by (rule tabulate_const) (simp add: calc_at_def const_grid_nth f_wmca_ovi_def)
  finally show ?thesis .
qed

text \<open>No-data in the WMCA overlay: a cell where either input holds its no-data value is
  no-data in the output; every other cell is \<open>0.9 A + 0.1 B\<close>.\<close>

theorem calc_wmca_ovi_cell:
  assumes "calc_wmca_ovi lclu iuhd = Inr out" "i < ysize lclu" "j < xsize lclu"
  shows "cells out ! i ! j =
           (if is_nd (nodata lclu) (cells lclu ! i ! j) \<or> is_nd (nodata iuhd) (cells iuhd ! i ! j)
            then calc_default_nodata
            else f_wmca_ovi (cells lclu ! i ! j) (cells iuhd ! i ! j))"
  using gdal_calc_cell [OF assms(1) [unfolded calc_wmca_ovi_def]] assms(2,3)
  by (simp add: calc_at_def calc_nodata_def)

subsection \<open>Formulas\<close>

lemma sum_indicators:
  "distinct ks \<Longrightarrow> sum_list (map (\<lambda>k. b2r (a = k)) ks) = b2r (a \<in> set ks)"
  by (induction ks) (auto simp: b2r_def)

text \<open>The vegetation layer from NMD is the 0/1 indicator of the listed codes: no cell
  counts twice, because the codes are distinct.\<close>

theorem veg_from_nmd_indicator:
  "f_veg_from_nmd a = b2r (a \<in> set nmd_veg_codes)"
  unfolding f_veg_from_nmd_def
  by (rule sum_indicators) (simp add: nmd_veg_codes_def)

text \<open>When the six class rasters of the adult model lie in [1,10], the first overlay lies in [0.85, 8.5].\<close>

theorem adult_composite_bounds:
  assumes "lo \<le> a" "a \<le> hi" "lo \<le> b" "b \<le> hi" "lo \<le> c" "c \<le> hi" "lo \<le> d" "d \<le> hi"
    "lo \<le> e" "e \<le> hi" "lo \<le> f" "f \<le> hi" "lo \<le> g" "g \<le> hi" "lo \<le> h" "h \<le> hi"
  shows "lo \<le> f_adult2 a b (f_adult1 c d e f g h) \<and> f_adult2 a b (f_adult1 c d e f g h) \<le> hi"
  using assms by (simp add: f_adult1_def f_adult2_def)

text \<open>The roof pipeline: a building cell keeps its slope when it is below 8 degrees, and
  every other cell of the 0/1 building mask becomes 130, the no-data value of both calls.\<close>

theorem roof_slope_cut:
  "bld = 0 \<or> bld = 1 \<Longrightarrow>
   f_slope_cut (f_roof_slope bld s) = (if bld = 1 \<and> s < 8 then s else 130)"
  by (auto simp: f_slope_cut_def f_roof_slope_def b2r_def)

text \<open>C6: The six bands of \<open>heatmappart\<close>: every value of at least 1 lies in exactly one
  band, and a value below 1 lies in none.\<close>

theorem heat_bands_partition:
  "sum_list (map (\<lambda>v. f_heat_threshold v a) [1, 2, 3, 4, 5, 6]) = b2r (1 \<le> a)"
  by (simp add: f_heat_threshold_def b2r_def)

subsection \<open>Witnesses\<close>

theorem calc_wmca_ovi_scenario_witness:
  "0 < (2::nat) \<and>
   calc_wmca_ovi \<lparr>cells = const_grid 2 3 5, nodata = None, geo = calc_geo\<rparr>
                 \<lparr>cells = const_grid 2 3 3, nodata = None, geo = calc_geo\<rparr>
   = Inr \<lparr>cells = const_grid 2 3 4.8, nodata = Some calc_default_nodata, geo = calc_geo\<rparr>"
  using calc_wmca_ovi_scenario [of 2 3 calc_geo calc_geo] by simp

theorem calc_wmca_ovi_cell_witness:
  "calc_wmca_ovi \<lparr>cells = [[6, 2]], nodata = Some 2, geo = calc_geo\<rparr>
                 \<lparr>cells = [[3, 4]], nodata = None, geo = calc_geo\<rparr>
     = Inr \<lparr>cells = [[5.7, calc_default_nodata]], nodata = Some calc_default_nodata, geo = calc_geo\<rparr> \<and>
   0 < ysize \<lparr>cells = [[6, 2]], nodata = Some 2, geo = calc_geo\<rparr> \<and>
   1 < xsize \<lparr>cells = [[6, 2]], nodata = Some 2, geo = calc_geo\<rparr> \<and>
   cells \<lparr>cells = [[5.7, calc_default_nodata]], nodata = Some calc_default_nodata, geo = calc_geo\<rparr> ! 0 ! 1
     = calc_default_nodata"
proof -
  have run: "calc_wmca_ovi \<lparr>cells = [[6, 2]], nodata = Some 2, geo = calc_geo\<rparr>
                 \<lparr>cells = [[3, 4]], nodata = None, geo = calc_geo\<rparr>
     = Inr \<lparr>cells = [[5.7, calc_default_nodata]], nodata = Some calc_default_nodata, geo = calc_geo\<rparr>"
    by (simp add: calc_wmca_ovi_def gdal_calc_def calc_at_def calc_nodata_def f_wmca_ovi_def
                  xsize_def ysize_def ncols_def rect_def upt_rec)
  have sz: "0 < ysize \<lparr>cells = [[6, 2]], nodata = Some 2, geo = calc_geo\<rparr>"
           "1 < xsize \<lparr>cells = [[6, 2]], nodata = Some 2, geo = calc_geo\<rparr>"
    by (simp_all add: xsize_def ysize_def ncols_def)
  from calc_wmca_ovi_cell [OF run sz] run sz show ?thesis by simp
qed

theorem adult_composite_bounds_witness:
  "(1::real) \<le> 5 \<and> (5::real) \<le> 10 \<and>
   1 \<le> f_adult2 5 5 (f_adult1 5 5 5 5 5 5) \<and> f_adult2 5 5 (f_adult1 5 5 5 5 5 5) \<le> 10"
  using adult_composite_bounds [of 1 5 10 5 5 5 5 5 5 5] by simp

theorem roof_slope_cut_witness:
  "((1::real) = 0 \<or> (1::real) = 1) \<and> f_slope_cut (f_roof_slope 1 5) = 5 \<and>
   f_slope_cut (f_roof_slope 0 5) = 130"
  using roof_slope_cut [of 1 5] roof_slope_cut [of 0 5] by simp

end
