(* ===== verification/Heatmap.thy ===== *)
theory Heatmap
  imports RasterCalc
begin

text \<open>
  HeatmapBandBuilder (\<open>heatmappart(inRaster, value, tempfolder, projwin)\<close>,
  \<open>src/heatmappart.py\<close>) and HeatmapSynthesizer (the six calls and the averaging,
  \<open>src/MyggmodellTRANSAFE_Uppsala.py\<close> lines 823--869), and the NoDataFiller
  (\<open>native:fillnodata\<close>).  The band threshold and the scaling are raster-calculator calls
  (theory \<open>RasterCalc\<close>); pixels to points, the kernel density estimate and the warp are
  QGIS/GDAL services modelled from the spec (section 4.5):
  \<^item> \<open>native:pixelstopoints\<close>: one point per cell that is not no-data, at the cell
    centre, with the cell value in field \<open>VALUE\<close>;
  \<^item> \<open>qgis:heatmapkerneldensityestimation\<close> with \<open>KERNEL 3\<close> (triweight),
    \<open>OUTPUT_VALUE 0\<close> (raw), \<open>RADIUS 400\<close>, \<open>PIXEL_SIZE 10\<close>: the sum over the points
    within the radius of \<open>(1 - d\<^sup>2/r\<^sup>2)\<^sup>3\<close>, on a grid over the points' extent grown by
    the radius;
  \<^item> \<open>gdal:warpreproject\<close> to \<open>projwin\<close> at 10 m with nearest-neighbour resampling:
    each target cell takes the source cell under its centre, 0 where there is none.
\<close>

section \<open>Points\<close>

text \<open>A band whose rows all have \<open>RasterXSize\<close> cells.\<close>

abbreviation shaped :: "raster \<Rightarrow> bool" where
  "shaped r \<equiv> rect (ysize r) (xsize r) (cells r)"

record point =
  pt_x :: real
  pt_y :: real
  pt_value :: real

definition centre_x :: "geotransform \<Rightarrow> nat \<Rightarrow> real" where
  "centre_x g j = gt_x0 g + (real j + 0.5) * gt_pw g"

definition centre_y :: "geotransform \<Rightarrow> nat \<Rightarrow> real" where
  "centre_y g i = gt_y0 g + (real i + 0.5) * gt_ph g"

definition pixels_to_points :: "raster \<Rightarrow> point list" where
  "pixels_to_points r =
     concat (map (\<lambda>i. concat (map (\<lambda>j.
        if is_nd (nodata r) (cells r ! i ! j) then []
        else [\<lparr>pt_x = centre_x (geo r) j, pt_y = centre_y (geo r) i, pt_value = cells r ! i ! j\<rparr>])
       [0..<xsize r])) [0..<ysize r])"

text \<open>\<open>native:extractbyexpression\<close> with \<open>'VALUE = 1'\<close>.\<close>

definition extract_value1 :: "point list \<Rightarrow> point list" where
  "extract_value1 pts = filter (\<lambda>p. pt_value p = 1) pts"

section \<open>Kernel density estimate\<close>

definition triweight_raw :: "real \<Rightarrow> real \<Rightarrow> real" where
  "triweight_raw radius d2 = (if d2 \<le> radius\<^sup>2 then (1 - d2 / radius\<^sup>2) ^ 3 else 0)"

definition kde_at :: "real \<Rightarrow> point list \<Rightarrow> real \<Rightarrow> real \<Rightarrow> real" where
  "kde_at radius pts x y =
     sum_list (map (\<lambda>p. triweight_raw radius ((pt_x p - x)\<^sup>2 + (pt_y p - y)\<^sup>2)) pts)"

text \<open>The output grid: the points' bounding box grown by the radius, at the pixel size;
  no points, no cells.\<close>

definition kde_window :: "real \<Rightarrow> point list \<Rightarrow> window" where
  "kde_window radius pts =
     (case pts of
        [] \<Rightarrow> \<lparr>w_minx = 0, w_maxx = 0, w_miny = 0, w_maxy = 0\<rparr>
      | p # ps \<Rightarrow>
          \<lparr>w_minx = fold min (map pt_x ps) (pt_x p) - radius,
           w_maxx = fold max (map pt_x ps) (pt_x p) + radius,
           w_miny = fold min (map pt_y ps) (pt_y p) - radius,
           w_maxy = fold max (map pt_y ps) (pt_y p) + radius\<rparr>)"

definition window_geo :: "window \<Rightarrow> real \<Rightarrow> geotransform" where
  "window_geo w res =
     \<lparr>gt_x0 = w_minx w, gt_pw = res, gt_r1 = 0, gt_y0 = w_maxy w, gt_r2 = 0, gt_ph = - res\<rparr>"

definition kde_raster :: "real \<Rightarrow> real \<Rightarrow> point list \<Rightarrow> raster" where
  "kde_raster pixel radius pts =
     (let w = kde_window radius pts; g = window_geo w pixel;
          m = nat \<lceil>(w_maxy w - w_miny w) / pixel\<rceil>; n = nat \<lceil>(w_maxx w - w_minx w) / pixel\<rceil>
      in \<lparr>cells = map (\<lambda>i. map (\<lambda>j. kde_at radius pts (centre_x g j) (centre_y g i)) [0..<n]) [0..<m],
          nodata = None, geo = g\<rparr>)"

section \<open>Filling no-data and warping\<close>

definition fill_nodata :: "real \<Rightarrow> raster \<Rightarrow> raster" where
  "fill_nodata fill r =
     r\<lparr>cells := gmap (\<lambda>v. if is_nd (nodata r) v then fill else v) (cells r), nodata := None\<rparr>"

definition warp_rows :: "window \<Rightarrow> real \<Rightarrow> nat" where
  "warp_rows w res = nat \<lfloor>(w_maxy w - w_miny w) / res + 0.5\<rfloor>"

definition warp_cols :: "window \<Rightarrow> real \<Rightarrow> nat" where
  "warp_cols w res = nat \<lfloor>(w_maxx w - w_minx w) / res + 0.5\<rfloor>"

definition src_cell :: "raster \<Rightarrow> real \<Rightarrow> real \<Rightarrow> real" where
  "src_cell r x y =
     (let c = \<lfloor>(x - gt_x0 (geo r)) / gt_pw (geo r)\<rfloor>; l = \<lfloor>(y - gt_y0 (geo r)) / gt_ph (geo r)\<rfloor>
      in if 0 \<le> c \<and> c < int (xsize r) \<and> 0 \<le> l \<and> l < int (ysize r)
         then cells r ! nat l ! nat c else 0)"

definition warp_nn :: "window \<Rightarrow> real \<Rightarrow> raster \<Rightarrow> raster" where
  "warp_nn w res r =
     (let g = window_geo w res
      in \<lparr>cells = map (\<lambda>i. map (\<lambda>j. src_cell r (centre_x g j) (centre_y g i))
                       [0..<warp_cols w res]) [0..<warp_rows w res],
          nodata = None, geo = g\<rparr>)"

section \<open>One band\<close>

definition heatmap_kde :: "point list \<Rightarrow> raster" where
  "heatmap_kde pts = kde_raster 10 400 pts"

definition heatmappart :: "raster \<Rightarrow> nat \<Rightarrow> window \<Rightarrow> py_error + raster" where
  "heatmappart inRaster value projwin =
     (case calc_heat_threshold inRaster value of
        Inl e \<Rightarrow> Inl e
      | Inr msk \<Rightarrow>
          (let hot = extract_value1 (pixels_to_points msk)
           in case calc_heat_scale (heatmap_kde hot) value of
                Inl e \<Rightarrow> Inl e
              | Inr scaled \<Rightarrow> Inr (warp_nn projwin 10 (fill_nodata 0 scaled))))"

section \<open>Six bands and their average\<close>

definition heat_synth :: "raster \<Rightarrow> window \<Rightarrow> py_error + raster" where
  "heat_synth ovi projwin =
     (case heatmappart ovi 1 projwin of Inl e \<Rightarrow> Inl e | Inr h1 \<Rightarrow>
      case heatmappart ovi 2 projwin of Inl e \<Rightarrow> Inl e | Inr h2 \<Rightarrow>
      case heatmappart ovi 3 projwin of Inl e \<Rightarrow> Inl e | Inr h3 \<Rightarrow>
      case heatmappart ovi 4 projwin of Inl e \<Rightarrow> Inl e | Inr h4 \<Rightarrow>
      case heatmappart ovi 5 projwin of Inl e \<Rightarrow> Inl e | Inr h5 \<Rightarrow>
      case heatmappart ovi 6 projwin of Inl e \<Rightarrow> Inl e | Inr h6 \<Rightarrow>
      calc_heat_combine h1 h2 h3 h4 h5 h6)"

text \<open>The all-zero surface on the target grid of a warp to \<open>projwin\<close> at 10 m.\<close>

definition zero_heat :: "window \<Rightarrow> raster" where
  "zero_heat w = \<lparr>cells = const_grid (warp_rows w 10) (warp_cols w 10) 0, nodata = None,
                   geo = window_geo w 10\<rparr>"

text \<open>A reference \<open>projwin\<close>: 20 m by 20 m at the origin.\<close>

definition ref_window :: window where
  "ref_window = \<lparr>w_minx = 0, w_maxx = 20, w_miny = 0, w_maxy = 20\<rparr>"

section \<open>Lemmas\<close>

subsection \<open>Shapes and the engine\<close>

lemma shaped_rect: "rect m n (cells r) \<Longrightarrow> shaped r"
  by (simp add: ysize_def xsize_def rect_shape)

lemma ncols_tabulate [simp]:
  "ncols (map (\<lambda>i. map (\<lambda>j. F i j) [0..<n]) [0..<m]) = (if m = 0 then 0 else n)"
  by (cases m) (simp_all add: ncols_def upt_conv_Cons del: upt_Suc)

lemma gdal_calc_single:
  "shaped r \<Longrightarrow>
   gdal_calc f nd [r] =
     Inr \<lparr>cells = map (\<lambda>i. map (\<lambda>j. calc_at f (calc_nodata nd) [r] i j) [0..<xsize r]) [0..<ysize r],
          nodata = Some (calc_nodata nd), geo = geo r\<rparr>"
  by (rule gdal_calc_rect) simp

lemma warp_nn_shape [grid_simps]:
  "rect (warp_rows w res) (warp_cols w res) (cells (warp_nn w res r))"
  by (simp add: warp_nn_def Let_def rect_tabulate)

lemma warp_nn_fields [simp]:
  "nodata (warp_nn w res r) = None" "geo (warp_nn w res r) = window_geo w res"
  by (simp_all add: warp_nn_def Let_def)

lemma heatmap_kde_shape: "shaped (heatmap_kde pts)"
  unfolding heatmap_kde_def kde_raster_def Let_def
  by (rule shaped_rect, simp only: raster.select_convs, rule rect_tabulate)

lemma heatmap_kde_nodata [simp]: "nodata (heatmap_kde pts) = None"
  by (simp add: heatmap_kde_def kde_raster_def Let_def)

lemma heat_scale_kde:
  "calc_heat_scale (heatmap_kde pts) v =
     Inr \<lparr>cells = gmap (\<lambda>a. a * real v) (cells (heatmap_kde pts)),
          nodata = Some calc_default_nodata, geo = geo (heatmap_kde pts)\<rparr>"
proof -
  let ?k = "heatmap_kde pts"
  have sh: "shaped ?k" by (rule heatmap_kde_shape)
  have "map (\<lambda>i. map (\<lambda>j. calc_at (\<lambda>x. f_heat_scale v (x ! 0)) (calc_nodata None) [?k] i j)
           [0..<xsize ?k]) [0..<ysize ?k] = gmap (\<lambda>a. a * real v) (cells ?k)"
  proof (rule rect_eqI [of "ysize ?k" "xsize ?k"])
    fix i j assume ij: "in_grid (ysize ?k) (xsize ?k) i j"
    from rect_idx [OF sh ij] have "i < length (cells ?k)" "j < length (cells ?k ! i)" by simp_all
    with ij show "map (\<lambda>i. map (\<lambda>j. calc_at (\<lambda>x. f_heat_scale v (x ! 0)) (calc_nodata None) [?k] i j)
           [0..<xsize ?k]) [0..<ysize ?k] ! i ! j = gmap (\<lambda>a. a * real v) (cells ?k) ! i ! j"
      by (simp add: gmap_nth calc_at_val f_heat_scale_def)
  qed (use sh in \<open>simp_all add: rect_tabulate rect_gmap\<close>)
  with sh show ?thesis by (simp add: calc_heat_scale_def gdal_calc_single calc_nodata_def)
qed

subsection \<open>One band\<close>

lemma heatmappart_Inl: "calc_heat_threshold inR v = Inl e \<Longrightarrow> heatmappart inR v w = Inl e"
  by (simp add: heatmappart_def)

lemma heatmappart_Inr:
  "calc_heat_threshold inR v = Inr msk \<Longrightarrow>
   heatmappart inR v w =
     Inr (warp_nn w 10 (fill_nodata 0
       \<lparr>cells = gmap (\<lambda>a. a * real v) (cells (heatmap_kde (extract_value1 (pixels_to_points msk)))),
        nodata = Some calc_default_nodata,
        geo = geo (heatmap_kde (extract_value1 (pixels_to_points msk)))\<rparr>))"
  by (simp add: heatmappart_def heat_scale_kde Let_def)

lemma heat_threshold_ok:
  "shaped inR \<Longrightarrow>
   calc_heat_threshold inR v =
     Inr \<lparr>cells = map (\<lambda>i. map (\<lambda>j. calc_at (\<lambda>x. f_heat_threshold v (x ! 0)) calc_default_nodata [inR] i j)
                         [0..<xsize inR]) [0..<ysize inR],
          nodata = Some calc_default_nodata, geo = geo inR\<rparr>"
  by (simp add: calc_heat_threshold_def gdal_calc_single calc_nodata_def)

lemma heat_threshold_bad:
  "\<not> shaped inR \<Longrightarrow> calc_heat_threshold inR v = Inl (ValueError ''dimensions of the input rasters differ'')"
  by (simp add: calc_heat_threshold_def gdal_calc_mismatch)

lemma fill_nodata_shape [simp]: "shaped (fill_nodata c r) \<longleftrightarrow> shaped r"
  by (simp add: fill_nodata_def ysize_def xsize_def rect_gmap)

subsection \<open>Non-negative surfaces\<close>

lemma triweight_raw_nonneg: "0 \<le> triweight_raw radius d2"
proof -
  have "d2 \<le> radius\<^sup>2 \<Longrightarrow> d2 / radius\<^sup>2 \<le> 1"
    by (cases "radius\<^sup>2 = 0") (simp_all add: divide_le_eq_1)
  then show ?thesis by (simp add: triweight_raw_def)
qed

lemma kde_at_nonneg: "0 \<le> kde_at radius pts x y"
  unfolding kde_at_def by (rule sum_list_nonneg) (auto simp: triweight_raw_nonneg)

lemma heatmap_kde_nonneg: "list_all (list_all (\<lambda>x. 0 \<le> x)) (cells (heatmap_kde pts))"
  by (simp add: heatmap_kde_def kde_raster_def Let_def list_all_iff kde_at_nonneg)

lemma fill_nodata_nonneg:
  "list_all (list_all (\<lambda>x. 0 \<le> x)) (cells r) \<Longrightarrow> 0 \<le> c \<Longrightarrow>
   list_all (list_all (\<lambda>x. 0 \<le> x)) (cells (fill_nodata c r))"
  by (simp add: fill_nodata_def) (auto simp: list_all_iff)

lemma src_cell_nonneg:
  assumes sh: "shaped r" and nn: "list_all (list_all (\<lambda>x. 0 \<le> x)) (cells r)"
  shows "0 \<le> src_cell r x y"
proof -
  { fix a b assume a: "a < ysize r" and b: "b < xsize r"
    from rect_idx [OF sh] a b have "a < length (cells r)" "b < length (cells r ! a)" by simp_all
    with nn have "0 \<le> cells r ! a ! b" by (simp add: list_all_length) }
  then show ?thesis by (auto simp: src_cell_def Let_def nat_less_iff)
qed

lemma warp_nn_nonneg:
  "shaped r \<Longrightarrow> list_all (list_all (\<lambda>x. 0 \<le> x)) (cells r) \<Longrightarrow>
   list_all (list_all (\<lambda>x. 0 \<le> x)) (cells (warp_nn w res r))"
  by (simp add: warp_nn_def Let_def list_all_iff src_cell_nonneg)

subsection \<open>The empty band\<close>

lemma extract_pixels_Nil:
  assumes "\<And>i j. i < ysize r \<Longrightarrow> j < xsize r \<Longrightarrow> is_nd (nodata r) (cells r ! i ! j) \<or> cells r ! i ! j \<noteq> 1"
  shows "extract_value1 (pixels_to_points r) = []"
  using assms by (fastforce simp: extract_value1_def pixels_to_points_def filter_empty_conv)

lemma heatmap_kde_Nil:
  "heatmap_kde [] = \<lparr>cells = [], nodata = None,
     geo = window_geo \<lparr>w_minx = 0, w_maxx = 0, w_miny = 0, w_maxy = 0\<rparr> 10\<rparr>"
  by (simp add: heatmap_kde_def kde_raster_def kde_window_def)

lemma warp_nn_empty:
  "cells r = [] \<Longrightarrow>
   warp_nn w res r = \<lparr>cells = const_grid (warp_rows w res) (warp_cols w res) 0, nodata = None,
                      geo = window_geo w res\<rparr>"
  unfolding warp_nn_def Let_def
  by (simp, rule tabulate_const) (auto simp: src_cell_def Let_def ysize_def)

lemma heatmappart_no_hot:
  "calc_heat_threshold inR v = Inr msk \<Longrightarrow> extract_value1 (pixels_to_points msk) = [] \<Longrightarrow>
   heatmappart inR v w = Inr (zero_heat w)"
  by (simp add: heatmappart_Inr heatmap_kde_Nil fill_nodata_def gmap_def warp_nn_empty zero_heat_def)

lemma threshold_mask_cold:
  assumes sh: "shaped inR"
      and cold: "list_all (list_all (\<lambda>a. is_nd (nodata inR) a \<or> f_heat_threshold v a = 0)) (cells inR)"
      and ij: "i < ysize inR" "j < xsize inR"
  shows "calc_at (\<lambda>x. f_heat_threshold v (x ! 0)) calc_default_nodata [inR] i j \<in> {calc_default_nodata, 0}"
proof -
  from rect_idx [OF sh] ij have "i < length (cells inR)" "j < length (cells inR ! i)" by simp_all
  with cold have "is_nd (nodata inR) (cells inR ! i ! j) \<or> f_heat_threshold v (cells inR ! i ! j) = 0"
    by (simp add: list_all_length)
  then show ?thesis by (auto simp: calc_at_def)
qed

lemma heatmappart_cold:
  assumes sh: "shaped inR"
      and cold: "list_all (list_all (\<lambda>a. is_nd (nodata inR) a \<or> f_heat_threshold v a = 0)) (cells inR)"
  shows "heatmappart inR v w = Inr (zero_heat w)"
proof (rule heatmappart_no_hot [OF heat_threshold_ok [OF sh]], rule extract_pixels_Nil)
  fix i j
  let ?M = "map (\<lambda>i. map (\<lambda>j. calc_at (\<lambda>x. f_heat_threshold v (x ! 0)) calc_default_nodata [inR] i j)
                 [0..<xsize inR]) [0..<ysize inR]"
  assume "i < ysize \<lparr>cells = ?M, nodata = Some calc_default_nodata, geo = geo inR\<rparr>"
     and "j < xsize \<lparr>cells = ?M, nodata = Some calc_default_nodata, geo = geo inR\<rparr>"
  then have ij: "i < ysize inR" "j < xsize inR"
    by (simp_all add: ysize_def xsize_def split: if_splits)
  from threshold_mask_cold [OF sh cold ij] ij
  show "is_nd (nodata \<lparr>cells = ?M, nodata = Some calc_default_nodata, geo = geo inR\<rparr>)
          (cells \<lparr>cells = ?M, nodata = Some calc_default_nodata, geo = geo inR\<rparr> ! i ! j) \<or>
        cells \<lparr>cells = ?M, nodata = Some calc_default_nodata, geo = geo inR\<rparr> ! i ! j \<noteq> 1"
    by auto
qed

subsection \<open>Six bands\<close>

lemma heatmappart_shape:
  "heatmappart inR v w = Inr h \<Longrightarrow>
   rect (warp_rows w 10) (warp_cols w 10) (cells h) \<and> nodata h = None \<and> geo h = window_geo w 10"
  by (cases "calc_heat_threshold inR v") (auto simp: heatmappart_Inl heatmappart_Inr warp_nn_shape)

lemma zero_heat_shape [grid_simps]: "rect (warp_rows w 10) (warp_cols w 10) (cells (zero_heat w))"
  by (simp add: zero_heat_def rect_const_grid)

lemma combine_one_band:
  assumes "rect (warp_rows w 10) (warp_cols w 10) (cells h)" "nodata h = None"
  shows "calc_heat_combine (zero_heat w) h (zero_heat w) (zero_heat w) (zero_heat w) (zero_heat w) =
           Inr \<lparr>cells = gmap (\<lambda>x. x / 6) (cells h), nodata = Some calc_default_nodata,
                geo = window_geo w 10\<rparr>"
proof -
  let ?z = "zero_heat w" and ?R = "warp_rows w 10" and ?C = "warp_cols w 10"
  let ?f = "\<lambda>v. f_heat_combine (v ! 0) (v ! 1) (v ! 2) (v ! 3) (v ! 4) (v ! 5)"
  have all: "list_all (\<lambda>r. rect ?R ?C (cells r)) [?z, h, ?z, ?z, ?z, ?z]"
    using assms(1) by (simp add: zero_heat_shape)
  have "map (\<lambda>i. map (\<lambda>j. calc_at ?f (calc_nodata None) [?z, h, ?z, ?z, ?z, ?z] i j) [0..<?C]) [0..<?R]
          = gmap (\<lambda>x. x / 6) (cells h)"
  proof (rule rect_eqI [of ?R ?C])
    fix i j assume ij: "in_grid ?R ?C i j"
    from rect_idx [OF assms(1) ij] have "i < length (cells h)" "j < length (cells h ! i)" by simp_all
    with ij assms(2) show "map (\<lambda>i. map (\<lambda>j. calc_at ?f (calc_nodata None) [?z, h, ?z, ?z, ?z, ?z] i j)
                          [0..<?C]) [0..<?R] ! i ! j = gmap (\<lambda>x. x / 6) (cells h) ! i ! j"
      by (simp add: calc_at_val gmap_nth zero_heat_def const_grid_nth f_heat_combine_def)
  qed (use assms(1) in \<open>simp_all add: rect_tabulate rect_gmap\<close>)
  with all show ?thesis
    by (simp add: calc_heat_combine_def gdal_calc_rect calc_nodata_def zero_heat_def)
qed

subsection \<open>Kernel bounds\<close>

lemma triweight_raw_le_1: "0 \<le> d2 \<Longrightarrow> triweight_raw radius d2 \<le> 1"
proof -
  assume d: "0 \<le> d2"
  have "d2 \<le> radius\<^sup>2 \<Longrightarrow> 0 \<le> 1 - d2 / radius\<^sup>2 \<and> 1 - d2 / radius\<^sup>2 \<le> 1"
    using d by (cases "radius\<^sup>2 = 0") (simp_all add: divide_le_eq_1)
  then show ?thesis by (auto simp: triweight_raw_def power_le_one)
qed

lemma kde_at_le_length: "kde_at radius pts x y \<le> real (length pts)"
  unfolding kde_at_def by (induction pts) (auto intro!: add_mono triweight_raw_le_1 add_nonneg_nonneg)

section \<open>Properties\<close>

text \<open>C3: the spec's synthesizer scenario.  For a source raster whose cells all hold 2, the
  bands 1, 3, 4, 5 and 6 have no hotspot and give the all-zero surface, and the final
  six-band average is the band-2 surface divided by 6 in every cell.\<close>

theorem heat_synth_single_band:
  "list_all (\<lambda>v. heatmappart \<lparr>cells = const_grid m n 2, nodata = nd, geo = g\<rparr> v w = Inr (zero_heat w))
     [1, 3, 4, 5, 6] \<and>
   (\<exists>h2. heatmappart \<lparr>cells = const_grid m n 2, nodata = nd, geo = g\<rparr> 2 w = Inr h2 \<and>
         heat_synth \<lparr>cells = const_grid m n 2, nodata = nd, geo = g\<rparr> w =
           Inr \<lparr>cells = gmap (\<lambda>x. x / 6) (cells h2), nodata = Some calc_default_nodata,
                geo = window_geo w 10\<rparr>)"
proof -
  let ?r = "\<lparr>cells = const_grid m n (2::real), nodata = nd, geo = g\<rparr>"
  have sh: "shaped ?r" by (rule shaped_rect [of m n]) (simp add: rect_const_grid)
  have cold: "heatmappart ?r v w = Inr (zero_heat w)" if "v \<in> {1, 3, 4, 5, 6}" for v
    by (rule heatmappart_cold [OF sh]) (use that in \<open>auto simp: const_grid_def list_all_iff f_heat_threshold_def b2r_def\<close>)
  obtain msk where "calc_heat_threshold ?r 2 = Inr msk" using heat_threshold_ok [OF sh] by blast
  then obtain h2 where h2: "heatmappart ?r 2 w = Inr h2" using heatmappart_Inr by blast
  from heatmappart_shape [OF h2]
  have "rect (warp_rows w 10) (warp_cols w 10) (cells h2)" "nodata h2 = None" by simp_all
  note comb = combine_one_band [OF this]
  show ?thesis using cold h2 comb by (simp add: heat_synth_def)
qed

text \<open>C7: a band with no hotspot.  When no cell of a well-shaped source raster that holds
  data lies in band \<open>v\<close>, \<open>heatmappart\<close> returns the all-zero surface on the target
  grid of \<open>projwin\<close>, not a failure.\<close>

theorem heatmappart_empty_band:
  assumes "shaped inR"
      and "list_all (list_all (\<lambda>a. is_nd (nodata inR) a \<or> f_heat_threshold v a = 0)) (cells inR)"
  shows "heatmappart inR v w = Inr (zero_heat w)"
  using assms by (rule heatmappart_cold)

text \<open>every band surface is non-negative: the raw triweight kernel is, the scaling
  multiplies by the band index, no-data is filled with 0, and the warp copies source
  cells or writes 0.\<close>

theorem heatmappart_nonneg:
  assumes "heatmappart inR v w = Inr out"
  shows "list_all (list_all (\<lambda>x. 0 \<le> x)) (cells out)"
proof (cases "calc_heat_threshold inR v")
  case (Inl e)
  with assms show ?thesis by (simp add: heatmappart_Inl)
next
  case (Inr msk)
  let ?k = "heatmap_kde (extract_value1 (pixels_to_points msk))"
  let ?s = "\<lparr>cells = gmap (\<lambda>a. a * real v) (cells ?k), nodata = Some calc_default_nodata, geo = geo ?k\<rparr>"
  have "shaped ?s" using heatmap_kde_shape [of "extract_value1 (pixels_to_points msk)"]
    by (simp add: ysize_def xsize_def rect_gmap)
  moreover have "list_all (list_all (\<lambda>x. 0 \<le> x)) (cells ?s)"
    using heatmap_kde_nonneg [of "extract_value1 (pixels_to_points msk)"] by simp (auto simp: list_all_iff)
  ultimately have "list_all (list_all (\<lambda>x. 0 \<le> x)) (cells (warp_nn w 10 (fill_nodata 0 ?s)))"
    by (simp add: warp_nn_nonneg fill_nodata_nonneg)
  with Inr assms show ?thesis by (simp add: heatmappart_Inr)
qed

text \<open>\<open>heatmappart\<close> fails exactly when the source raster is ragged (the raster
  calculator's size check); on every well-shaped raster it returns a surface.\<close>

theorem heatmappart_fails_iff:
  "(\<exists>e. heatmappart inR v w = Inl e) \<longleftrightarrow> \<not> shaped inR"
  by (cases "shaped inR") (simp_all add: heat_threshold_ok heatmappart_Inr heat_threshold_bad heatmappart_Inl)

text \<open>every cell of the band's raw kernel density surface (radius 400, pixel 10)
  lies between 0 and the number of hotspot points: each point contributes at most 1.\<close>

theorem kde_at_bounds:
  "list_all (list_all (\<lambda>x. 0 \<le> x \<and> x \<le> real (length pts))) (cells (heatmap_kde pts))"
  by (simp add: heatmap_kde_def kde_raster_def Let_def list_all_iff kde_at_nonneg kde_at_le_length)

subsection \<open>Witnesses\<close>

theorem heatmappart_empty_band_witness:
  "shaped \<lparr>cells = [[0, 0], [0, 0]], nodata = None, geo = calc_geo\<rparr> \<and>
   list_all (list_all (\<lambda>a. is_nd None a \<or> f_heat_threshold 1 a = 0)) [[0, 0], [0, 0]] \<and>
   heatmappart \<lparr>cells = [[0, 0], [0, 0]], nodata = None, geo = calc_geo\<rparr> 1 ref_window =
     Inr (zero_heat ref_window)"
proof -
  have sh: "shaped \<lparr>cells = [[0, 0], [0, 0]], nodata = None, geo = calc_geo\<rparr>"
    by (simp add: ysize_def xsize_def ncols_def rect_def)
  have cold: "list_all (list_all (\<lambda>a. is_nd None a \<or> f_heat_threshold 1 a = 0)) [[0, 0], [0::real, 0]]"
    by (simp add: f_heat_threshold_def b2r_def)
  from sh cold heatmappart_empty_band [of "\<lparr>cells = [[0, 0], [0, 0]], nodata = None, geo = calc_geo\<rparr>" 1 ref_window]
  show ?thesis by simp
qed

theorem heatmappart_nonneg_witness:
  "\<exists>out. heatmappart ref_raster 1 ref_window = Inr out \<and> list_all (list_all (\<lambda>x. 0 \<le> x)) (cells out)"
proof -
  have sh: "shaped ref_raster" by (simp add: ref_raster_def ysize_def xsize_def ncols_def rect_def)
  obtain msk where "calc_heat_threshold ref_raster 1 = Inr msk" using heat_threshold_ok [OF sh] by blast
  then obtain out where out: "heatmappart ref_raster 1 ref_window = Inr out" using heatmappart_Inr by blast
  with heatmappart_nonneg [OF out] show ?thesis by blast
qed

end
