(* ===== verification/Stages.thy ===== *)
theory Stages
  imports Tables Mosaic Heatmap
begin

text \<open>
  The raster stages of the script, composed from the services of the other theories in
  the order the script calls them, each call with the parameters it passes: the LAI layer
  (fill, LAI table, zero-to-one table), and the oviposition land cover and land use
  (lines 546--795): the roof layer from the building mask and the slope (masked, warped
  to the 10 m window, cut at 8 degrees, reclassified to 129), mosaicked with the land
  cover by \<open>mosaicrasters\<close> and reclassified with \<open>lctable\<close>; the land-use tiles
  mosaicked, filled and reclassified with \<open>lutable\<close>; the average of the two.  The
  lemmas follow one cell through each stage: the LAI layer has a class in every cell,
  and a roof sloping less than 8 degrees wins over the land cover and becomes class 4.
\<close>

section \<open>Leaf area index (lines 918--926, 1100--1115, 1294--1309)\<close>

text \<open>\<open>native:fillnodata\<close> with \<open>BAND 1\<close>, \<open>FILL_VALUE 0\<close> on the clipped LAI raster.\<close>

definition fill_lai :: "raster \<Rightarrow> raster" where
  "fill_lai clipLAI = fill_nodata 0 clipLAI"

text \<open>\<open>native:reclassifybytable\<close> with \<open>laitable\<close>, then with \<open>nozerotable\<close>.\<close>

definition reclass_lai :: "raster \<Rightarrow> py_error + raster" where
  "reclass_lai r = reclassifybytable (script_reclass laitable) r"

definition reclass_lai_nozero :: "raster \<Rightarrow> py_error + raster" where
  "reclass_lai_nozero r = reclassifybytable (script_reclass nozerotable) r"

definition lai_stage :: "raster \<Rightarrow> py_error + raster" where
  "lai_stage clipLAI =
     (case reclass_lai (fill_lai clipLAI) of
        Inl e \<Rightarrow> Inl e
      | Inr r \<Rightarrow> reclass_lai_nozero r)"

section \<open>Warping with the source's no-data\<close>

text \<open>\<open>gdal:warpreproject\<close> with nearest-neighbour resampling (\<open>RESAMPLING 0\<close>) onto the
  window at a target resolution, modelled from the spec (section 4.5, step 7) and GDAL's
  rule for a source with a no-data value: the output keeps it, and target cells whose centre
  falls outside the source get it (0 when the source has none, as \<open>warp_nn\<close>).
  \<open>src_index\<close> is the source cell holding a point.\<close>

definition src_index :: "raster \<Rightarrow> real \<Rightarrow> real \<Rightarrow> (nat \<times> nat) option" where
  "src_index r x y =
     (let c = \<lfloor>(x - gt_x0 (geo r)) / gt_pw (geo r)\<rfloor>; l = \<lfloor>(y - gt_y0 (geo r)) / gt_ph (geo r)\<rfloor>
      in if 0 \<le> c \<and> c < int (xsize r) \<and> 0 \<le> l \<and> l < int (ysize r) then Some (nat l, nat c) else None)"

definition gdal_warp :: "window \<Rightarrow> real \<Rightarrow> raster \<Rightarrow> raster" where
  "gdal_warp w res r =
     (let g = window_geo w res; outside = (case nodata r of None \<Rightarrow> 0 | Some v \<Rightarrow> v)
      in \<lparr>cells = map (\<lambda>i. map (\<lambda>j. case src_index r (centre_x g j) (centre_y g i) of
                                   None \<Rightarrow> outside | Some (l, c) \<Rightarrow> cells r ! l ! c)
                       [0..<warp_cols w res]) [0..<warp_rows w res],
          nodata = nodata r, geo = g\<rparr>)"

section \<open>Land cover for oviposition (lines 546--733)\<close>

text \<open>Roofs: the slope masked to the buildings (lines 546--568, \<open>calc_roof_slope\<close>), warped
  to 10 m on the window (571--587), slopes of 8 degrees or more cut (589--612,
  \<open>calc_slope_cut\<close>) and the rest reclassified to 129 by \<open>r.reclass\<close> (635--646), whose
  null cells are written with the sentinel \<open>null\<close>.\<close>

definition warp_roofs :: "window \<Rightarrow> raster \<Rightarrow> raster" where
  "warp_roofs projwin r = gdal_warp projwin 10 r"

definition reclass_roofs :: "real \<Rightarrow> raster \<Rightarrow> raster" where
  "reclass_roofs null r = r_reclass_thru 0 90 129 null r"

definition roofs_stage :: "window \<Rightarrow> real \<Rightarrow> raster \<Rightarrow> raster \<Rightarrow> py_error + raster" where
  "roofs_stage projwin null buildbool slope =
     (case calc_roof_slope buildbool slope of
        Inl e \<Rightarrow> Inl e
      | Inr s1 \<Rightarrow>
          (case calc_slope_cut (warp_roofs projwin s1) of
             Inl e \<Rightarrow> Inl e
           | Inr s2 \<Rightarrow> Inr (reclass_roofs null s2)))"

text \<open>The land cover and the roofs mosaicked by \<open>mosaicrasters\<close> (lines 670--680), the land
  cover first, and the mosaic reclassified with \<open>lctable\<close> into UInt32 (lines 699--739).  The roofs,
  a temporary output of QGIS, are put on the disk at \<open>roofpath\<close>.\<close>

definition landcover_mosaic :: "disk \<Rightarrow> string \<Rightarrow> string \<Rightarrow> string \<Rightarrow> py_error + disk" where
  "landcover_mosaic d tempfolder lcpath roofpath =
     mosaic_files d (tempfolder @ ''mosaicLC.txt'') (tempfolder @ ''mosaicLC.tif'') [lcpath, roofpath]"

definition reclass_landcover :: "raster \<Rightarrow> py_error + raster" where
  "reclass_landcover r = reclassifybytable_uint32 (script_reclass lctable_ovi) r"

definition landcover_stage :: "disk \<Rightarrow> string \<Rightarrow> string \<Rightarrow> string \<Rightarrow> raster \<Rightarrow> py_error + raster" where
  "landcover_stage d tempfolder lcpath roofpath roofs =
     (case landcover_mosaic (d\<lparr>rasters := (rasters d)(roofpath \<mapsto> roofs)\<rparr>) tempfolder lcpath roofpath of
        Inl e \<Rightarrow> Inl e
      | Inr d' \<Rightarrow>
          (case gdal_open d' (tempfolder @ ''mosaicLC.tif'') of
             Inl e \<Rightarrow> Inl e
           | Inr m \<Rightarrow> reclass_landcover m))"

section \<open>Land use and the combined layer (lines 651--795)\<close>

text \<open>The land-use tiles (grazing, man-made, power lines, gardens, industries) mosaicked
  (lines 651--667), \<open>native:fillnodata\<close> with \<open>FILL_VALUE 0\<close> on the mosaic (683--690), and
  the result reclassified with \<open>lutable\<close> into UInt32 (741--771); the disk after the mosaic
  is returned.\<close>

definition landuse_mosaic :: "disk \<Rightarrow> string \<Rightarrow> string list \<Rightarrow> py_error + disk" where
  "landuse_mosaic d tempfolder lupaths =
     mosaic_files d (tempfolder @ ''mosaicLU.txt'') (tempfolder @ ''mosaicLU.tif'') lupaths"

definition fill_landuse :: "raster \<Rightarrow> raster" where
  "fill_landuse mosaicLU = fill_nodata 0 mosaicLU"

definition reclass_landuse :: "raster \<Rightarrow> py_error + raster" where
  "reclass_landuse r = reclassifybytable_uint32 (script_reclass lutable) r"

definition landuse_stage :: "disk \<Rightarrow> string \<Rightarrow> string list \<Rightarrow> py_error + disk \<times> raster" where
  "landuse_stage d tempfolder lupaths =
     (case landuse_mosaic d tempfolder lupaths of
        Inl e \<Rightarrow> Inl e
      | Inr d' \<Rightarrow>
          (case gdal_open d' (tempfolder @ ''mosaicLU.tif'') of
             Inl e \<Rightarrow> Inl e
           | Inr m \<Rightarrow>
               (case reclass_landuse (fill_landuse m) of
                  Inl e \<Rightarrow> Inl e
                | Inr r \<Rightarrow> Inr (d', r))))"

text \<open>The roofs, the land use, the land cover and their average \<open>(A + B) / 2\<close> (lines
  774--795), in the script's order.  The two reclassifications, which cannot fail on the
  script's tables, are taken in the order of their branches.\<close>

definition lclu_stage ::
  "disk \<Rightarrow> window \<Rightarrow> real \<Rightarrow> string \<Rightarrow> raster \<Rightarrow> raster \<Rightarrow> string \<Rightarrow> string \<Rightarrow> string list \<Rightarrow>
   py_error + raster" where
  "lclu_stage d projwin null tempfolder buildbool slope lcpath roofpath lupaths =
     (case roofs_stage projwin null buildbool slope of
        Inl e \<Rightarrow> Inl e
      | Inr roofs \<Rightarrow>
          (case landuse_stage d tempfolder lupaths of
             Inl e \<Rightarrow> Inl e
           | Inr (d', lu) \<Rightarrow>
               (case landcover_stage d' tempfolder lcpath roofpath roofs of
                  Inl e \<Rightarrow> Inl e
                | Inr lc \<Rightarrow> calc_lclu lu lc)))"

section \<open>Example data\<close>

text \<open>A window of one 10 m cell, a roof cell of slope 3 on it, and a land cover of class 51
  (artificial surface, not a building) on the disk.\<close>

definition ex_window :: window where
  "ex_window = \<lparr>w_minx = 0, w_maxx = 10, w_miny = 0, w_maxy = 10\<rparr>"

definition ex_build :: raster where
  "ex_build = \<lparr>cells = [[1]], nodata = None, geo = window_geo ex_window 10\<rparr>"

definition ex_slope :: raster where
  "ex_slope = \<lparr>cells = [[3]], nodata = Some (-9999), geo = window_geo ex_window 10\<rparr>"

definition ex_lc :: raster where
  "ex_lc = \<lparr>cells = [[51]], nodata = Some 0, geo = window_geo ex_window 10\<rparr>"

definition ex_lc_disk :: disk where
  "ex_lc_disk = \<lparr>texts = Map.empty, rasters = [''lc.tif'' \<mapsto> ex_lc]\<rparr>"

section \<open>Lemmas\<close>

lemma lai_stage_cells:
  "lai_stage clip =
     Inr (clip\<lparr>cells := gmap (\<lambda>v. lai_chain None (if is_nd (nodata clip) v then 0 else v)) (cells clip),
               nodata := Some (-9999)\<rparr>)"
  by (simp add: lai_stage_def reclass_lai_def reclass_lai_nozero_def fill_lai_def fill_nodata_def
      reclassifybytable_script table_lengths lai_chain_def comp_def)

lemma lai_chain_filled:
  "is_nd nd v \<or> -10 < v \<and> v \<le> 100 \<Longrightarrow>
   lai_chain None (if is_nd nd v then 0 else v) \<in> {1, 4, 5, 6, 7, 8, 9, 10}"
  using lai_chain_classes [of None 0] lai_chain_classes [of None v] by auto

text \<open>C21: After filling no-data with 0 and the two LAI reclassifications, every cell of the
  LAI layer, former no-data cells included, is a class in {1,4,...,10}, when the data
  values lie in (-10,100].\<close>

theorem lai_stage_classes:
  assumes "list_all (list_all (\<lambda>v. is_nd (nodata clip) v \<or> -10 < v \<and> v \<le> 100)) (cells clip)"
  shows "\<exists>r. lai_stage clip = Inr r \<and> ysize r = ysize clip \<and> xsize r = xsize clip \<and>
             list_all (list_all (\<lambda>v. v \<in> {1, 4, 5, 6, 7, 8, 9, 10})) (cells r)"
proof -
  have "list_all (list_all (\<lambda>v. lai_chain None (if is_nd (nodata clip) v then 0 else v)
                                    \<in> {1, 4, 5, 6, 7, 8, 9, 10})) (cells clip)"
    using assms by (simp add: list_all_iff lai_chain_filled del: insert_iff)
  then show ?thesis by (simp add: lai_stage_cells xsize_def ysize_def del: insert_iff)
qed

theorem lai_stage_classes_witness:
  "list_all (list_all (\<lambda>v. is_nd (Some (-1)) v \<or> -10 < v \<and> v \<le> 100)) [[-1, 0.5, 3 :: real]] \<and>
   lai_stage \<lparr>cells = [[-1, 0.5, 3]], nodata = Some (-1), geo = calc_geo\<rparr> =
     Inr \<lparr>cells = [[1, 4, 9]], nodata = Some (-9999), geo = calc_geo\<rparr>"
  using lai_stage_classes [of "\<lparr>cells = [[-1, 0.5, 3]], nodata = Some (-1), geo = calc_geo\<rparr>"]
  by (simp add: lai_stage_cells gmap_def lai_chain_def script_cell_def reclass_cell_def laitable_def nozerotable_def)


subsection \<open>Warping\<close>

lemma ncols_rect: "rect m n g \<Longrightarrow> ncols g = (if m = 0 then 0 else n)"
  by (cases g) (auto simp: rect_ncols rect_def ncols_def)

lemma src_cell_index:
  "src_cell r x y = (case src_index r x y of None \<Rightarrow> 0 | Some (l, c) \<Rightarrow> cells r ! l ! c)"
  by (simp add: src_cell_def src_index_def Let_def)

lemma gdal_warp_nn: "nodata r = None \<Longrightarrow> gdal_warp w res r = warp_nn w res r"
  by (simp add: gdal_warp_def warp_nn_def src_cell_index)

lemma src_index_bound:
  "src_index r x y = Some (l, c) \<Longrightarrow> l < ysize r \<and> c < xsize r"
  by (auto simp: src_index_def Let_def nat_less_iff split: if_splits)

lemma src_index_cong:
  "geo r = geo r' \<Longrightarrow> xsize r = xsize r' \<Longrightarrow> ysize r = ysize r' \<Longrightarrow> src_index r = src_index r'"
  by (simp add: src_index_def fun_eq_iff)

lemma gdal_warp_fields [simp]:
  "nodata (gdal_warp w res r) = nodata r" "geo (gdal_warp w res r) = window_geo w res"
  by (simp_all add: gdal_warp_def Let_def)

lemma gdal_warp_shape [grid_simps]:
  "rect (warp_rows w res) (warp_cols w res) (cells (gdal_warp w res r))"
  by (simp add: gdal_warp_def Let_def rect_tabulate)

lemma gdal_warp_nth:
  "in_grid (warp_rows w res) (warp_cols w res) i j \<Longrightarrow>
   src_index r (centre_x (window_geo w res) j) (centre_y (window_geo w res) i) = Some (l, c) \<Longrightarrow>
   cells (gdal_warp w res r) ! i ! j = cells r ! l ! c"
  by (simp add: gdal_warp_def Let_def)

subsection \<open>Roofs\<close>

text \<open>The cell of the roof layer over a source cell \<open>(l, c)\<close> of the building mask: 129 for a
  roof sloping less than 8 degrees, the null sentinel for every other cell.\<close>

lemma roofs_stage_cell:
  assumes shape: "rect m n (cells b)" "rect m n (cells s)"
    and ij: "in_grid (warp_rows w 10) (warp_cols w 10) i j"
    and src: "src_index b (centre_x (window_geo w 10) j) (centre_y (window_geo w 10) i) = Some (l, c)"
    and bv: "cells b ! l ! c \<in> {0, 1}" "\<not> is_nd (nodata b) (cells b ! l ! c)"
    and sv: "\<not> is_nd (nodata s) (cells s ! l ! c)"
  shows "\<exists>roofs. roofs_stage w null b s = Inr roofs \<and>
           rect (warp_rows w 10) (warp_cols w 10) (cells roofs) \<and> nodata roofs = Some null \<and>
           cells roofs ! i ! j =
             (if cells b ! l ! c = 1 \<and> 0 \<le> cells s ! l ! c \<and> cells s ! l ! c < 8 then 129 else null)"
proof -
  let ?s1 = "\<lparr>cells = map (\<lambda>i. map (\<lambda>j. calc_at (\<lambda>v. f_roof_slope (v ! 0) (v ! 1)) 130 [b, s] i j)
                       [0..<n]) [0..<m], nodata = Some 130, geo = geo b\<rparr>"
  have s1: "calc_roof_slope b s = Inr ?s1"
    using shape by (simp add: calc_roof_slope_def gdal_calc_rect calc_nodata_def)
  from src_index_bound [OF src] shape have l: "l < m" and c: "c < ncols (cells b)"
    by (simp_all add: ysize_def xsize_def rect_length)
  with shape(1) have lc: "l < m" "c < n" by (simp_all add: rect_ncols)
  have "src_index ?s1 = src_index b"
    using shape by (intro src_index_cong) (simp_all add: ysize_def xsize_def rect_length ncols_rect)
  then have w: "cells (warp_roofs w ?s1) ! i ! j = f_roof_slope (cells b ! l ! c) (cells s ! l ! c)"
    using gdal_warp_nth [OF ij, of ?s1] src lc bv sv by (simp add: warp_roofs_def calc_at_val)
  let ?W = "warp_roofs w ?s1"
  have Wr: "rect (warp_rows w 10) (warp_cols w 10) (cells ?W)"
    by (simp add: warp_roofs_def gdal_warp_shape)
  let ?s2 = "\<lparr>cells = map (\<lambda>i. map (\<lambda>j. calc_at (\<lambda>v. f_slope_cut (v ! 0)) 130 [?W] i j)
                       [0..<warp_cols w 10]) [0..<warp_rows w 10], nodata = Some 130, geo = geo ?W\<rparr>"
  have s2: "calc_slope_cut ?W = Inr ?s2"
    using Wr by (simp add: calc_slope_cut_def gdal_calc_rect calc_nodata_def)
  have "cells (reclass_roofs null ?s2) ! i ! j =
          (if cells b ! l ! c = 1 \<and> 0 \<le> cells s ! l ! c \<and> cells s ! l ! c < 8 then 129 else null)"
    using ij w bv by (auto simp: reclass_roofs_def r_reclass_thru_def gmap_def calc_at_def
                                 f_slope_cut_def f_roof_slope_def b2r_def warp_roofs_def)
  moreover have "rect (warp_rows w 10) (warp_cols w 10) (cells (reclass_roofs null ?s2))"
    by (simp add: reclass_roofs_def r_reclass_thru_def rect_gmap rect_tabulate)
  ultimately show ?thesis
    using s1 s2 by (simp add: roofs_stage_def reclass_roofs_def r_reclass_thru_def)
qed

subsection \<open>Land cover\<close>

lemma lctable_ovi_roof: "script_cell lctable_ovi None 129 = 4"
  by (simp add: script_cell_def reclass_cell_def lctable_ovi_def)

text \<open>C20: Through the whole roof branch, the mosaic with the land cover and the land-cover
  table written as UInt32, a target cell over a building with slope in \<open>[0, 8)\<close> gets
  class 4 (the roof row of lctable) and every other cell the UInt32 class of its own land
  cover code.  A roof of exactly 8 degrees is among the others: it loses the roof class,
  though the messages of lines 590 and 637 say slopes up to 8 are kept.\<close>

theorem landcover_roof_class:
  assumes shape: "rect m n (cells b)" "rect m n (cells s)"
    and lc: "rasters d lcpath = Some lc" "rect (warp_rows w 10) (warp_cols w 10) (cells lc)"
    and paths: "roofpath \<noteq> lcpath" "CHR ''\<newline>'' \<notin> set lcpath" "CHR ''\<newline>'' \<notin> set roofpath"
    and null: "null \<noteq> 129"
    and ij: "in_grid (warp_rows w 10) (warp_cols w 10) i j"
    and src: "src_index b (centre_x (window_geo w 10) j) (centre_y (window_geo w 10) i) = Some (l, c)"
    and bv: "cells b ! l ! c \<in> {0, 1}" "\<not> is_nd (nodata b) (cells b ! l ! c)"
    and sv: "\<not> is_nd (nodata s) (cells s ! l ! c)"
    and v: "\<not> is_nd (nodata lc) (cells lc ! i ! j)" "0 \<le> cells lc ! i ! j" "cells lc ! i ! j \<le> 128"
  shows "\<exists>roofs r. roofs_stage w null b s = Inr roofs \<and>
             landcover_stage d tempfolder lcpath roofpath roofs = Inr r \<and>
             cells r ! i ! j =
               (if cells b ! l ! c = 1 \<and> 0 \<le> cells s ! l ! c \<and> cells s ! l ! c < 8 then 4
                else uint32_cast (script_cell lctable_ovi None (cells lc ! i ! j)))"
proof -
  let ?R = "warp_rows w 10" and ?C = "warp_cols w 10"
  let ?roof = "cells b ! l ! c = 1 \<and> 0 \<le> cells s ! l ! c \<and> cells s ! l ! c < 8"
  obtain roofs where roofs: "roofs_stage w null b s = Inr roofs"
    and rr: "rect ?R ?C (cells roofs)" and rn: "nodata roofs = Some null"
    and rc: "cells roofs ! i ! j = (if ?roof then 129 else null)"
    using roofs_stage_cell [OF shape ij src bv sv, of null] by blast
  let ?d1 = "d\<lparr>rasters := (rasters d)(roofpath \<mapsto> roofs)\<rparr>"
  let ?M = "mosaic_max ?R ?C [lc, roofs]"
  have "map (rasters ?d1) [lcpath, roofpath] = map Some [lc, roofs]" using lc(1) paths(1) by simp
  from mosaic_files_ok [OF _ _ this, of ?R ?C "tempfolder @ ''mosaicLC.txt''" "tempfolder @ ''mosaicLC.tif''"]
  have mos: "landcover_mosaic ?d1 tempfolder lcpath roofpath =
             Inr (?d1\<lparr>texts := (texts ?d1)(tempfolder @ ''mosaicLC.txt'' \<mapsto> write_filelist [lcpath, roofpath]),
                     rasters := (rasters ?d1)(tempfolder @ ''mosaicLC.tif'' \<mapsto> saveraster roofs ?M)\<rparr>)"
    using paths lc(2) rr by (simp add: landcover_mosaic_def)
  have zl: "zero_nd lc ! i ! j = cells lc ! i ! j" and zr: "zero_nd roofs ! i ! j = (if ?roof then 129 else 0)"
    using ij lc(2) rr rc rn v(1) null by (auto simp: zero_nd_def gmap_nth rect_idx)
  have "?M ! i ! j = (if ?roof then 129 else cells lc ! i ! j)"
    using ij v(2,3) by (simp add: mosaic_max_nth zl zr)
  then have "script_cell lctable_ovi None (?M ! i ! j) =
             (if ?roof then 4 else script_cell lctable_ovi None (cells lc ! i ! j))"
    by (simp add: lctable_ovi_roof)
  moreover have "i < length ?M" "j < length (?M ! i)" using rect_idx [OF rect_mosaic_max ij] by simp_all
  ultimately show ?thesis
    using roofs mos
    by (simp add: landcover_stage_def gdal_open_def reclass_landcover_def reclassifybytable_uint32_script
                  table_lengths saveraster_def gmap_nth)
qed

subsection \<open>Witnesses\<close>

lemma ex_window_grid: "warp_rows ex_window 10 = 1" "warp_cols ex_window 10 = 1"
  by (simp_all add: ex_window_def warp_rows_def warp_cols_def)

lemma ex_build_src:
  "src_index ex_build (centre_x (window_geo ex_window 10) 0) (centre_y (window_geo ex_window 10) 0) =
   Some (0, 0)"
  by (simp add: src_index_def ex_build_def ex_window_def window_geo_def centre_x_def centre_y_def
                xsize_def ysize_def ncols_def)

theorem landcover_roof_class_witness:
  "rect 1 1 (cells ex_build) \<and> rect 1 1 (cells ex_slope) \<and>
   rasters ex_lc_disk ''lc.tif'' = Some ex_lc \<and>
   rect (warp_rows ex_window 10) (warp_cols ex_window 10) (cells ex_lc) \<and>
   ''roofs.tif'' \<noteq> ''lc.tif'' \<and> CHR ''\<newline>'' \<notin> set ''lc.tif'' \<and> CHR ''\<newline>'' \<notin> set ''roofs.tif'' \<and>
   (-1 :: real) \<noteq> 129 \<and> in_grid (warp_rows ex_window 10) (warp_cols ex_window 10) 0 0 \<and>
   src_index ex_build (centre_x (window_geo ex_window 10) 0) (centre_y (window_geo ex_window 10) 0) =
     Some (0, 0) \<and>
   cells ex_build ! 0 ! 0 \<in> {0, 1} \<and> \<not> is_nd (nodata ex_build) (cells ex_build ! 0 ! 0) \<and>
   \<not> is_nd (nodata ex_slope) (cells ex_slope ! 0 ! 0) \<and>
   \<not> is_nd (nodata ex_lc) (cells ex_lc ! 0 ! 0) \<and> 0 \<le> cells ex_lc ! 0 ! 0 \<and> cells ex_lc ! 0 ! 0 \<le> 128 \<and>
   (\<exists>roofs r. roofs_stage ex_window (-1) ex_build ex_slope = Inr roofs \<and>
      landcover_stage ex_lc_disk ''t/'' ''lc.tif'' ''roofs.tif'' roofs = Inr r \<and> cells r ! 0 ! 0 = 4)"
  using landcover_roof_class [where m = 1 and n = 1 and b = ex_build and s = ex_slope and d = ex_lc_disk
      and lcpath = "''lc.tif''" and lc = ex_lc and w = ex_window and roofpath = "''roofs.tif''"
      and null = "-1" and i = 0 and j = 0 and l = 0 and c = 0 and tempfolder = "''t/''"]
  by (simp add: ex_window_grid ex_build_src ex_lc_disk_def)
     (simp add: ex_build_def ex_slope_def ex_lc_def rect_def)

end
