(* ===== verification/Adult.thy ===== *)
theory Adult
  imports Stages
begin

text \<open>
  The adult-habitat branch of the script (lines 1002--1564) as stages composed from the
  services of the other theories, in the script's order and with each call's parameters:
  the vegetation heights (two filled height layers mosaicked, masked to the vegetation
  codes of the land cover, reclassified and their zeros set to 1), the small-scale wind
  reduction (the LAI layer combined with the filled FAI layers of vegetation and
  buildings, reclassified and their zeros set to 1), the large-scale wind reduction (wind
  speed by height and by distance to the ocean, each reclassified, and their average) and
  the two weighted overlays.  Rasters that QGIS services produce with no code in the
  repository (clips, rasterised grids, the ocean proximity) are the stages' inputs.
\<close>

section \<open>Fills of the adult branch\<close>

text \<open>Every \<open>native:fillnodata\<close> call of the branch passes \<open>BAND 1\<close>, \<open>FILL_VALUE 0\<close>.\<close>

definition fill_height_0_5 :: "raster \<Rightarrow> raster" where
  "fill_height_0_5 clipHeight0to5 = fill_nodata 0 clipHeight0to5"

definition fill_height_5_45 :: "raster \<Rightarrow> raster" where
  "fill_height_5_45 clipHeight5to45 = fill_nodata 0 clipHeight5to45"

definition fill_faibuild :: "raster \<Rightarrow> raster" where
  "fill_faibuild faibuild = fill_nodata 0 faibuild"

definition fill_lcvector :: "raster \<Rightarrow> raster" where
  "fill_lcvector landcovervector = fill_nodata 0 landcovervector"

definition fill_faiveg :: "raster \<Rightarrow> raster" where
  "fill_faiveg faiveg = fill_nodata 0 faiveg"

section \<open>Small-scale wind reduction: LAI and FAI (lines 1380--1498)\<close>

text \<open>\<open>(((A * 0.6) * B) + C) / 2\<close> on the LAI layer and the filled FAI layers, then
  \<open>laifaitable\<close> and \<open>nozerotable\<close>.\<close>

definition reclass_laifai :: "raster \<Rightarrow> py_error + raster" where
  "reclass_laifai r = reclassifybytable (script_reclass laifaitable) r"

definition reclass_laifai_nozero :: "raster \<Rightarrow> py_error + raster" where
  "reclass_laifai_nozero r = reclassifybytable (script_reclass nozerotable) r"

definition laifai_stage :: "raster \<Rightarrow> raster \<Rightarrow> raster \<Rightarrow> py_error + raster" where
  "laifai_stage clipLAI faiveg faibuild =
     (case lai_stage clipLAI of
        Inl e \<Rightarrow> Inl e
      | Inr lai \<Rightarrow>
          (case calc_laifai lai (fill_faiveg faiveg) (fill_faibuild faibuild) of
             Inl e \<Rightarrow> Inl e
           | Inr combo \<Rightarrow>
               (case reclass_laifai combo of
                  Inl e \<Rightarrow> Inl e
                | Inr r \<Rightarrow> reclass_laifai_nozero r)))"

section \<open>Vegetation heights (lines 1246--1256, 1311--1332, 1359--1414)\<close>

text \<open>The filled height layers of 0--5 m and 5--45 m objects, temporary outputs of QGIS at
  \<open>p05\<close> and \<open>p545\<close>, mosaicked by \<open>mosaicrasters\<close>; the mosaic masked to the vegetation
  codes of the land cover (\<open>A * B\<close>); \<open>vegheighttable\<close> and \<open>nozerotable\<close>.\<close>

definition heights_mosaic :: "disk \<Rightarrow> string \<Rightarrow> string \<Rightarrow> string \<Rightarrow> py_error + disk" where
  "heights_mosaic d tempfolder p05 p545 =
     mosaic_files d (tempfolder @ ''mosaicHeight.txt'') (tempfolder @ ''mosaicHeight.tif'') [p05, p545]"

definition reclass_vegheight :: "raster \<Rightarrow> py_error + raster" where
  "reclass_vegheight r = reclassifybytable (script_reclass vegheighttable) r"

definition reclass_vegheight_nozero :: "raster \<Rightarrow> py_error + raster" where
  "reclass_vegheight_nozero r = reclassifybytable (script_reclass nozerotable) r"

definition vegheight_stage ::
  "disk \<Rightarrow> string \<Rightarrow> raster \<Rightarrow> raster \<Rightarrow> raster \<Rightarrow> string \<Rightarrow> string \<Rightarrow> py_error + raster" where
  "vegheight_stage d tempfolder clipHeight0to5 clipHeight5to45 clipLandcover p05 p545 =
     (let d1 = d\<lparr>rasters := (rasters d)(p05 \<mapsto> fill_height_0_5 clipHeight0to5,
                                         p545 \<mapsto> fill_height_5_45 clipHeight5to45)\<rparr>
      in case calc_veg_from_nmd clipLandcover of
           Inl e \<Rightarrow> Inl e
         | Inr veg \<Rightarrow>
             (case heights_mosaic d1 tempfolder p05 p545 of
                Inl e \<Rightarrow> Inl e
              | Inr d2 \<Rightarrow>
                  (case gdal_open d2 (tempfolder @ ''mosaicHeight.tif'') of
                     Inl e \<Rightarrow> Inl e
                   | Inr heights \<Rightarrow>
                       (case calc_veg_heights veg heights of
                          Inl e \<Rightarrow> Inl e
                        | Inr vh \<Rightarrow>
                            (case reclass_vegheight vh of
                               Inl e \<Rightarrow> Inl e
                             | Inr r \<Rightarrow> reclass_vegheight_nozero r)))))"

section \<open>Large-scale wind reduction (lines 1258--1281, 1335--1356, 1417--1516)\<close>

text \<open>The wind speed by height (the rasterised power law) through \<open>windheighttable\<close>; the
  distance to the ocean in km, \<open>2.6 * 2.71828 ** (-0.015 * A)\<close> and
  \<open>windreduxoceantable\<close>; their average.\<close>

definition reclass_windheight :: "raster \<Rightarrow> py_error + raster" where
  "reclass_windheight r = reclassifybytable (script_reclass windheighttable) r"

definition reclass_windredux :: "raster \<Rightarrow> py_error + raster" where
  "reclass_windredux r = reclassifybytable (script_reclass windreduxoceantable) r"

definition wind_stage :: "raster \<Rightarrow> raster \<Rightarrow> py_error + raster" where
  "wind_stage windpowerlaw proximity =
     (case reclass_windheight windpowerlaw of
        Inl e \<Rightarrow> Inl e
      | Inr wh \<Rightarrow>
          (case calc_ocean_km proximity of
             Inl e \<Rightarrow> Inl e
           | Inr km \<Rightarrow>
               (case calc_wind_redux km of
                  Inl e \<Rightarrow> Inl e
                | Inr wr \<Rightarrow>
                    (case reclass_windredux wr of
                       Inl e \<Rightarrow> Inl e
                     | Inr wo \<Rightarrow> calc_wind_combine wh wo))))"

section \<open>Land-cover vector classes (lines 874--884)\<close>

text \<open>The field calculator \<open>Reclassed\<close> on the land-use vector layer: a \<open>CASE\<close> on the
  attribute \<open>DETALJTYP\<close> with no \<open>ELSE\<close>, so that any other type is \<open>NULL\<close>.  The
  attribute's values are the constructors, written without their diacritics
  (\<open>OPMARK\<close> for the script's \<open>'<Ouml>PMARK'\<close> and so on); \<open>OtherType\<close> is every other
  value.  The layer is rasterised with \<open>NODATA 0\<close> (lines 976--990), so water, \<open>NULL\<close>
  and cells outside every polygon are all 0 before the fill of line 1243.\<close>

datatype detaljtyp =
    OPMARK | OPTORG | BEBHOG | BEBIND | BEBLAG | BEBSLUT | ODLAKER | ODLFRUKT | SKOGBARR
  | SKOGLOV | VATTEN | OtherType

primrec reclass_lcvector :: "detaljtyp \<Rightarrow> real option" where
  "reclass_lcvector OPMARK = Some 7"
| "reclass_lcvector OPTORG = Some 4"
| "reclass_lcvector BEBHOG = Some 2"
| "reclass_lcvector BEBIND = Some 7"
| "reclass_lcvector BEBLAG = Some 5"
| "reclass_lcvector BEBSLUT = Some 1"
| "reclass_lcvector ODLAKER = Some 7"
| "reclass_lcvector ODLFRUKT = Some 8"
| "reclass_lcvector SKOGBARR = Some 8"
| "reclass_lcvector SKOGLOV = Some 9"
| "reclass_lcvector VATTEN = Some 0"
| "reclass_lcvector OtherType = None"

section \<open>The adult composite (lines 1236--1243, 1520--1564)\<close>

text \<open>The first overlay of LAI, hotspots, the filled land-cover vector raster, wind,
  \<open>paiveg\<close> and vegetation heights (\<open>AdultsMCA1\<close>), then the second with the LAI-FAI layer
  and the NMD land cover (\<open>AdultsMCA2\<close>).\<close>

definition adult_stage ::
  "raster \<Rightarrow> raster \<Rightarrow> raster \<Rightarrow> raster \<Rightarrow> raster \<Rightarrow> raster \<Rightarrow> raster \<Rightarrow> raster \<Rightarrow> py_error + raster" where
  "adult_stage lai heat landcovervector wind vegpai vegh laifai nmd =
     (case calc_adult1 lai heat (fill_lcvector landcovervector) wind vegpai vegh of
        Inl e \<Rightarrow> Inl e
      | Inr mca1 \<Rightarrow> calc_adult2 laifai nmd mca1)"

text \<open>A class layer: a raster of the grid's shape whose every cell is a class in
  \<open>[1, 10]\<close>, none of them no-data.\<close>

definition class_layer :: "nat \<Rightarrow> nat \<Rightarrow> raster \<Rightarrow> bool" where
  "class_layer m n r \<longleftrightarrow>
     rect m n (cells r) \<and> list_all (list_all (\<lambda>v. \<not> is_nd (nodata r) v \<and> 1 \<le> v \<and> v \<le> 10)) (cells r)"

section \<open>Example data\<close>

text \<open>One-cell layers for the witnesses: an LAI of 0.3, FAI of vegetation 0.5 and a
  no-data FAI of buildings; a 3 m object over pine forest (NMD 111) with the 5--45 m layer
  no-data; a wind speed of 2 m/s at 5 km from the ocean; and a layer of class 5.\<close>

definition ex_cell :: "real \<Rightarrow> real option \<Rightarrow> raster" where
  "ex_cell v nd = \<lparr>cells = [[v]], nodata = nd, geo = calc_geo\<rparr>"

section \<open>Lemmas\<close>

lemma laifaitable_laitable: "laifaitable = laitable"
  by (simp add: laifaitable_def laitable_def)

lemma lai_classes_range: "x \<in> {1, 4, 5, 6, 7, 8, 9, 10} \<Longrightarrow> 1 \<le> x \<and> x \<le> (10::real)"
  by auto

lemma filled_value:
  "is_nd nd v \<or> 0 \<le> v \<and> v \<le> 1 \<Longrightarrow> 0 \<le> (if is_nd nd v then 0 else v) \<and> (if is_nd nd v then 0 else v) \<le> (1::real)"
  by auto

lemma f_laifai_range:
  assumes "1 \<le> a" "a \<le> 10" "0 \<le> b" "b \<le> 1" "0 \<le> c" "c \<le> 1"
  shows "0 \<le> f_laifai a b c \<and> f_laifai a b c \<le> 7 / 2"
proof -
  have "a * b \<le> 10 * 1" using assms by (intro mult_mono) simp_all
  moreover have "0 \<le> a * b" using assms by simp
  ultimately show ?thesis using assms by (simp add: f_laifai_def)
qed

text \<open>C24: The small-scale wind layer (LAI stage, filled FAI layers, the LAIFAI formula,
  laifaitable and the zero-to-one table) has a class in {1,4,...,10} in every cell when
  LAI data lie in (-10,100] and FAI data in [0,1].\<close>

theorem laifai_stage_classes:
  assumes shape: "rect m n (cells clipLAI)" "rect m n (cells faiveg)" "rect m n (cells faibuild)"
    and lai: "list_all (list_all (\<lambda>v. is_nd (nodata clipLAI) v \<or> -10 < v \<and> v \<le> 100)) (cells clipLAI)"
    and fv: "list_all (list_all (\<lambda>v. is_nd (nodata faiveg) v \<or> 0 \<le> v \<and> v \<le> 1)) (cells faiveg)"
    and fb: "list_all (list_all (\<lambda>v. is_nd (nodata faibuild) v \<or> 0 \<le> v \<and> v \<le> 1)) (cells faibuild)"
  shows "\<exists>r. laifai_stage clipLAI faiveg faibuild = Inr r \<and> rect m n (cells r) \<and>
             list_all (list_all (\<lambda>v. v \<in> {1, 4, 5, 6, 7, 8, 9, 10})) (cells r)"
proof -
  let ?S = "{1, 4, 5, 6, 7, 8, 9, 10} :: real set"
  let ?fl = "\<lambda>r v. if is_nd (nodata r) v then 0 else v"
  let ?L = "clipLAI\<lparr>cells := gmap (\<lambda>v. lai_chain None (?fl clipLAI v)) (cells clipLAI), nodata := Some (-9999)\<rparr>"
  let ?FV = "fill_faiveg faiveg" and ?FB = "fill_faibuild faibuild"
  have rs: "list_all (\<lambda>r. rect m n (cells r)) [?L, ?FV, ?FB]"
    using shape by (simp add: rect_gmap fill_faiveg_def fill_faibuild_def fill_nodata_def)
  have cell: "calc_at (\<lambda>v. f_laifai (v ! 0) (v ! 1) (v ! 2)) (calc_nodata None) [?L, ?FV, ?FB] i j \<in> {0..7/2}"
    if ij: "in_grid m n i j" for i j
  proof -
    have ix: "i < length (cells clipLAI)" "j < length (cells clipLAI ! i)"
         "i < length (cells faiveg)" "j < length (cells faiveg ! i)"
         "i < length (cells faibuild)" "j < length (cells faibuild ! i)"
      using rect_idx [OF shape(1) ij] rect_idx [OF shape(2) ij] rect_idx [OF shape(3) ij] by simp_all
    let ?a = "lai_chain None (?fl clipLAI (cells clipLAI ! i ! j))"
    have a: "?a \<in> ?S"
      using lai ix(1,2) by (intro lai_chain_filled) (simp add: list_all_length)
    have b: "0 \<le> ?fl faiveg (cells faiveg ! i ! j) \<and> ?fl faiveg (cells faiveg ! i ! j) \<le> 1"
      using fv ix(3,4) by (intro filled_value) (simp add: list_all_length)
    have c: "0 \<le> ?fl faibuild (cells faibuild ! i ! j) \<and> ?fl faibuild (cells faibuild ! i ! j) \<le> 1"
      using fb ix(5,6) by (intro filled_value) (simp add: list_all_length)
    have "?a \<noteq> -9999" using a by auto
    then show ?thesis
      using f_laifai_range [OF conjunct1 [OF lai_classes_range [OF a]] conjunct2 [OF lai_classes_range [OF a]]
                               conjunct1 [OF b] conjunct2 [OF b] conjunct1 [OF c] conjunct2 [OF c]] ix
      by (simp add: calc_at_def gmap_nth fill_faiveg_def fill_faibuild_def fill_nodata_def)
  qed
  let ?C = "\<lparr>cells = map (\<lambda>i. map (\<lambda>j. calc_at (\<lambda>v. f_laifai (v ! 0) (v ! 1) (v ! 2)) (calc_nodata None)
                                         [?L, ?FV, ?FB] i j) [0..<n]) [0..<m],
             nodata = Some (calc_nodata None), geo = geo ?L\<rparr>"
  have combo: "calc_laifai ?L ?FV ?FB = Inr ?C"
    using rs by (simp only: calc_laifai_def gdal_calc_rect)
  have cls: "lai_chain (Some (calc_nodata None)) x \<in> ?S" if "x \<in> {0..7/2}" for x
    using that lai_chain_classes [of "Some (calc_nodata None)" x]
    by (simp add: calc_nodata_def calc_default_nodata_def)
  have "list_all (list_all (\<lambda>v. v \<in> ?S)) (gmap (lai_chain (Some (calc_nodata None))) (cells ?C))"
    using cell cls by (simp add: list_all_iff gmap_def del: insert_iff)
  then show ?thesis
    using combo
    by (simp add: laifai_stage_def lai_stage_cells reclass_laifai_def reclass_laifai_nozero_def
                  reclassifybytable_script table_lengths lai_chain_def laifaitable_laitable
                  gmap_gmap comp_def rect_gmap rect_tabulate del: insert_iff)
qed

subsection \<open>Vegetation heights\<close>

lemma cells_fill_zero: "cells (fill_nodata 0 r) = zero_nd r"
  by (simp add: fill_nodata_def zero_nd_def)

lemma zero_nd_filled [simp]: "zero_nd (fill_nodata 0 r) = zero_nd r"
  by (simp add: fill_nodata_def zero_nd_def gmap_def)

lemma vegheight_cell:
  assumes "0 \<le> h" "h \<le> 100" "k \<in> {0, 1}"
  shows "script_cell nozerotable (Some (-9999)) (script_cell vegheighttable (Some (calc_nodata None)) (k * h)) =
         (if k = 1 \<and> 0 < h then script_cell vegheighttable None h else 1)"
proof (cases "k = 1 \<and> 0 < h")
  case True
  have "script_cell vegheighttable None h \<in> codes (triples vegheighttable)"
    using True assms(2) by (intro script_cell_in_codes) (simp_all add: vegheighttable_def contiguous_tables)
  moreover have "script_cell vegheighttable (Some (calc_nodata None)) h = script_cell vegheighttable None h"
    using assms(2) by (simp add: script_cell_def reclass_cell_def calc_nodata_def calc_default_nodata_def)
  ultimately show ?thesis
    using True by (auto simp: nozero_cell codes_def vegheighttable_def)
next
  case False
  then have kh: "k * h = 0" using assms(1,3) by auto
  have "script_cell vegheighttable (Some (calc_nodata None)) 0 = 0"
    by (simp add: script_cell_def reclass_cell_def vegheighttable_def calc_nodata_def calc_default_nodata_def)
  then show ?thesis using False unfolding kh by (auto simp: nozero_cell)
qed

lemma veg_cell_indicator:
  "b2r (a \<in> set nmd_veg_codes) \<in> {0, 1}" "b2r (a \<in> set nmd_veg_codes) \<noteq> calc_nodata None"
  by (simp_all add: b2r_def calc_nodata_def calc_default_nodata_def)

text \<open>C23: Through the fills, the height mosaic, the vegetation mask, the vegetation-height
  table and the zero-to-one table, a cell gets the height class of the taller filled
  height layer when its land cover is a vegetation code and that height is positive, and
  class 1 otherwise.\<close>

theorem vegheight_stage_cell:
  assumes shape: "rect m n (cells h05)" "rect m n (cells h545)" "rect m n (cells lc)"
    and paths: "p05 \<noteq> p545" "CHR ''\<newline>'' \<notin> set p05" "CHR ''\<newline>'' \<notin> set p545"
    and ij: "in_grid m n i j"
    and nmd: "\<not> is_nd (nodata lc) (cells lc ! i ! j)"
    and hts: "0 \<le> zero_nd h05 ! i ! j" "0 \<le> zero_nd h545 ! i ! j"
      "max (zero_nd h05 ! i ! j) (zero_nd h545 ! i ! j) \<le> 100"
  shows "\<exists>r. vegheight_stage d tempfolder h05 h545 lc p05 p545 = Inr r \<and>
             cells r ! i ! j =
               (let h = max (zero_nd h05 ! i ! j) (zero_nd h545 ! i ! j)
                in if cells lc ! i ! j \<in> set nmd_veg_codes \<and> 0 < h
                   then script_cell vegheighttable None h else 1)"
proof -
  let ?h = "max (zero_nd h05 ! i ! j) (zero_nd h545 ! i ! j)"
  let ?k = "b2r (cells lc ! i ! j \<in> set nmd_veg_codes)"
  let ?F05 = "fill_height_0_5 h05" and ?F545 = "fill_height_5_45 h545"
  let ?V = "\<lparr>cells = map (\<lambda>i. map (\<lambda>j. calc_at (\<lambda>v. f_veg_from_nmd (v ! 0)) (calc_nodata None) [lc] i j)
                       [0..<n]) [0..<m], nodata = Some (calc_nodata None), geo = geo lc\<rparr>"
  have veg: "calc_veg_from_nmd lc = Inr ?V"
    using shape(3) by (simp add: calc_veg_from_nmd_def gdal_calc_rect)
  let ?d1 = "d\<lparr>rasters := (rasters d)(p05 \<mapsto> ?F05, p545 \<mapsto> ?F545)\<rparr>"
  let ?M = "mosaic_max m n [?F05, ?F545]"
  have rF: "list_all (\<lambda>r. rect m n (cells r)) [?F05, ?F545]"
    using shape(1,2) by (simp add: fill_height_0_5_def fill_height_5_45_def fill_nodata_def rect_gmap)
  have "map (rasters ?d1) [p05, p545] = map Some [?F05, ?F545]" using paths(1) by simp
  from mosaic_files_ok [OF _ _ this rF, of "tempfolder @ ''mosaicHeight.txt''" "tempfolder @ ''mosaicHeight.tif''"]
  have mos: "heights_mosaic ?d1 tempfolder p05 p545 =
             Inr (?d1\<lparr>texts := (texts ?d1)(tempfolder @ ''mosaicHeight.txt'' \<mapsto> write_filelist [p05, p545]),
                     rasters := (rasters ?d1)(tempfolder @ ''mosaicHeight.tif'' \<mapsto> saveraster ?F545 ?M)\<rparr>)"
    using paths by (simp add: heights_mosaic_def)
  let ?H = "saveraster ?F545 ?M"
  let ?VH = "\<lparr>cells = map (\<lambda>i. map (\<lambda>j. calc_at (\<lambda>v. f_veg_heights (v ! 0) (v ! 1)) (calc_nodata None)
                        [?V, ?H] i j) [0..<n]) [0..<m], nodata = Some (calc_nodata None), geo = geo ?V\<rparr>"
  have vh: "calc_veg_heights ?V ?H = Inr ?VH"
    unfolding calc_veg_heights_def
    by (rule gdal_calc_rect) (simp add: rect_tabulate rect_mosaic_max saveraster_def)
  have ix: "i < length (cells lc)" "j < length (cells lc ! i)" using rect_idx [OF shape(3) ij] by simp_all
  have vcell: "cells ?V ! i ! j = ?k"
    using ij nmd by (simp add: calc_at_def veg_from_nmd_indicator)
  have mcell: "?M ! i ! j = ?h"
    using ij by (simp add: mosaic_max_nth fill_height_0_5_def fill_height_5_45_def)
  have "cells ?VH ! i ! j = ?k * ?h"
    using ij vcell mcell veg_cell_indicator(2) [of "cells lc ! i ! j"]
    by (simp add: calc_at_def saveraster_def f_veg_heights_def del: raster.select_convs)
       (simp add: saveraster_def f_veg_heights_def)
  then have "script_cell nozerotable (Some (-9999))
               (script_cell vegheighttable (Some (calc_nodata None)) (cells ?VH ! i ! j)) =
             (if ?k = 1 \<and> 0 < ?h then script_cell vegheighttable None ?h else 1)"
    using vegheight_cell [OF _ hts(3) veg_cell_indicator(1)] hts(1,2) by simp
  moreover have "i < length (cells ?VH)" "j < length (cells ?VH ! i)" using ij by simp_all
  ultimately show ?thesis
    using veg mos vh
    by (simp add: vegheight_stage_def gdal_open_def reclass_vegheight_def reclass_vegheight_nozero_def
                  reclassifybytable_script table_lengths gmap_nth Let_def)
qed

subsection \<open>Large-scale wind reduction\<close>

lemma windheight_class:
  "0 < v \<Longrightarrow> v \<le> 100 \<Longrightarrow> \<not> is_nd nd v \<Longrightarrow>
   2 \<le> script_cell windheighttable nd v \<and> script_cell windheighttable nd v \<le> 10"
  using script_cell_in_codes [OF contiguous_tables(5), of v nd]
  by (auto simp: windheighttable_def codes_def)

lemma windredux_class:
  "-1 < v \<Longrightarrow> v \<le> 5 \<Longrightarrow> \<not> is_nd nd v \<Longrightarrow>
   1 \<le> script_cell windreduxoceantable nd v \<and> script_cell windreduxoceantable nd v \<le> 10"
  using script_cell_in_codes [OF contiguous_tables(8), of v nd]
  by (auto simp: windreduxoceantable_def codes_def)

lemma f_wind_redux_range:
  assumes "0 \<le> a"
  shows "0 < f_wind_redux a \<and> f_wind_redux a \<le> 2.6"
proof -
  have "(2.71828::real) powr (-0.015 * a) \<le> 2.71828 powr 0"
    using assms by (intro powr_mono) simp_all
  then show ?thesis by (simp add: f_wind_redux_def)
qed

lemma calc_default_big: "calc_nodata None = 340282346600000000000000000000000000000"
  by (simp add: calc_nodata_def calc_default_nodata_def)

text \<open>C25: The large-scale wind layer (wind speed by height and by distance to the ocean, each
  reclassified, and their average) lies in [1.5,10] for wind speeds in (0,100] and
  distances in [0,10^9] m without no-data.\<close>

theorem wind_stage_range:
  assumes shape: "rect m n (cells wp)" "rect m n (cells px)"
    and wpv: "list_all (list_all (\<lambda>v. \<not> is_nd (nodata wp) v \<and> 0 < v \<and> v \<le> 100)) (cells wp)"
    and pxv: "list_all (list_all (\<lambda>v. \<not> is_nd (nodata px) v \<and> 0 \<le> v \<and> v \<le> 1000000000)) (cells px)"
  shows "\<exists>r. wind_stage wp px = Inr r \<and> rect m n (cells r) \<and>
             list_all (list_all (\<lambda>v. 3 / 2 \<le> v \<and> v \<le> 10)) (cells r)"
proof -
  let ?nd = "calc_nodata None"
  let ?WH = "wp\<lparr>cells := gmap (script_cell windheighttable (nodata wp)) (cells wp), nodata := Some (-9999)\<rparr>"
  let ?KM = "\<lparr>cells = map (\<lambda>i. map (\<lambda>j. calc_at (\<lambda>v. f_ocean_km (v ! 0)) ?nd [px] i j) [0..<n]) [0..<m],
              nodata = Some ?nd, geo = geo px\<rparr>"
  let ?WR = "\<lparr>cells = map (\<lambda>i. map (\<lambda>j. calc_at (\<lambda>v. f_wind_redux (v ! 0)) ?nd [?KM] i j) [0..<n]) [0..<m],
              nodata = Some ?nd, geo = geo ?KM\<rparr>"
  let ?WO = "?WR\<lparr>cells := gmap (script_cell windreduxoceantable (nodata ?WR)) (cells ?WR), nodata := Some (-9999)\<rparr>"
  have wh: "reclass_windheight wp = Inr ?WH"
    by (simp add: reclass_windheight_def reclassifybytable_script table_lengths)
  have km: "calc_ocean_km px = Inr ?KM"
    unfolding calc_ocean_km_def by (rule gdal_calc_rect) (simp add: shape(2))
  have wr: "calc_wind_redux ?KM = Inr ?WR"
    unfolding calc_wind_redux_def by (rule gdal_calc_rect) (simp add: rect_tabulate)
  have wo: "reclass_windredux ?WR = Inr ?WO"
    by (simp add: reclass_windredux_def reclassifybytable_script table_lengths)
  have rWH: "rect m n (cells ?WH)" and rWO: "rect m n (cells ?WO)"
    using shape(1) by (simp_all add: rect_gmap rect_tabulate)
  let ?C = "\<lparr>cells = map (\<lambda>i. map (\<lambda>j. calc_at (\<lambda>v. f_wind_combine (v ! 0) (v ! 1)) ?nd [?WH, ?WO] i j)
                       [0..<n]) [0..<m], nodata = Some ?nd, geo = geo ?WH\<rparr>"
  have comb: "calc_wind_combine ?WH ?WO = Inr ?C"
    unfolding calc_wind_combine_def by (rule gdal_calc_rect) (simp add: shape(1) rect_gmap rect_tabulate)
  have cell: "3 / 2 \<le> cells ?C ! i ! j \<and> cells ?C ! i ! j \<le> 10" if ij: "in_grid m n i j" for i j
  proof -
    have ix: "i < length (cells wp)" "j < length (cells wp ! i)"
             "i < length (cells px)" "j < length (cells px ! i)"
      using rect_idx [OF shape(1) ij] rect_idx [OF shape(2) ij] by simp_all
    let ?w = "cells wp ! i ! j" and ?p = "cells px ! i ! j"
    have w: "\<not> is_nd (nodata wp) ?w" "0 < ?w" "?w \<le> 100" using wpv ix(1,2) by (simp_all add: list_all_length)
    have p: "\<not> is_nd (nodata px) ?p" "0 \<le> ?p" "?p \<le> 1000000000" using pxv ix(3,4) by (simp_all add: list_all_length)
    have kmc: "cells ?KM ! i ! j = f_ocean_km ?p" using ij p(1) by (simp add: calc_at_def)
    have kmnd: "f_ocean_km ?p \<noteq> ?nd" using p(3) by (simp add: f_ocean_km_def calc_default_big)
    have r: "0 < f_wind_redux (f_ocean_km ?p) \<and> f_wind_redux (f_ocean_km ?p) \<le> 2.6"
      using p(2) by (intro f_wind_redux_range) (simp add: f_ocean_km_def)
    have wrc: "cells ?WR ! i ! j = f_wind_redux (f_ocean_km ?p)" using ij kmc kmnd by (simp add: calc_at_def)
    have wrnd: "\<not> is_nd (nodata ?WR) (f_wind_redux (f_ocean_km ?p))" using r by (simp add: calc_default_big)
    have a: "2 \<le> script_cell windheighttable (nodata wp) ?w \<and> script_cell windheighttable (nodata wp) ?w \<le> 10"
      using windheight_class [OF w(2,3,1)] .
    have b: "1 \<le> script_cell windreduxoceantable (nodata ?WR) (f_wind_redux (f_ocean_km ?p)) \<and>
             script_cell windreduxoceantable (nodata ?WR) (f_wind_redux (f_ocean_km ?p)) \<le> 10"
      using r by (intro windredux_class [OF _ _ wrnd]) simp_all
    have "cells ?C ! i ! j = f_wind_combine (script_cell windheighttable (nodata wp) ?w)
                               (script_cell windreduxoceantable (nodata ?WR) (f_wind_redux (f_ocean_km ?p)))"
      using ij ix a b wrc by (auto simp: calc_at_def gmap_nth)
    then show ?thesis using a b by (simp add: f_wind_combine_def)
  qed
  have "list_all (list_all (\<lambda>v. 3 / 2 \<le> v \<and> v \<le> 10)) (cells ?C)"
    using cell by (simp add: list_all_length)
  then show ?thesis
    using wh km wr wo comb by (simp add: wind_stage_def rect_tabulate)
qed

subsection \<open>The adult composite\<close>

lemma class_layer_cell:
  "class_layer m n r \<Longrightarrow> in_grid m n i j \<Longrightarrow>
   \<not> is_nd (nodata r) (cells r ! i ! j) \<and> 1 \<le> cells r ! i ! j \<and> cells r ! i ! j \<le> 10"
  by (auto simp: class_layer_def list_all_length rect_iff_nth)

lemma class_layer_fill:
  "class_layer m n r \<Longrightarrow> class_layer m n (fill_nodata 0 r)"
  by (simp add: class_layer_def fill_nodata_def rect_gmap) (auto simp: list_all_iff)

lemma f_adult_range:
  assumes "\<forall>x \<in> {a, b, c, d, e, f, g, h}. 1 \<le> x \<and> x \<le> (10::real)"
  shows "1 \<le> f_adult2 g h (f_adult1 a b c d e f) \<and> f_adult2 g h (f_adult1 a b c d e f) \<le> 10"
  using assms by (simp add: f_adult1_def f_adult2_def)

text \<open>C22: When the eight class layers fed to the two adult overlays hold classes in [1,10]
  and no no-data, every cell of AdultsMCA2 lies in [1,10]: the weights of both overlays
  together sum to 1.\<close>

theorem adult_stage_range:
  assumes "list_all (class_layer m n) [lai, heat, landcovervector, wind, vegpai, vegh, laifai, nmd]"
  shows "\<exists>r. adult_stage lai heat landcovervector wind vegpai vegh laifai nmd = Inr r \<and> rect m n (cells r) \<and>
             list_all (list_all (\<lambda>v. 1 \<le> v \<and> v \<le> 10)) (cells r)"
proof -
  let ?nd = "calc_nodata None"
  let ?lcv = "fill_lcvector landcovervector"
  let ?in1 = "[lai, heat, ?lcv, wind, vegpai, vegh]"
  have cl1: "list_all (class_layer m n) ?in1"
    using assms by (simp add: fill_lcvector_def class_layer_fill)
  have cl2: "class_layer m n laifai" "class_layer m n nmd" using assms by simp_all
  let ?f1 = "\<lambda>v. f_adult1 (v ! 0) (v ! 1) (v ! 2) (v ! 3) (v ! 4) (v ! 5)"
  let ?M1 = "\<lparr>cells = map (\<lambda>i. map (\<lambda>j. calc_at ?f1 ?nd ?in1 i j) [0..<n]) [0..<m],
              nodata = Some ?nd, geo = geo lai\<rparr>"
  have m1: "calc_adult1 lai heat ?lcv wind vegpai vegh = Inr ?M1"
    unfolding calc_adult1_def
    by (rule gdal_calc_rect) (use cl1 in \<open>simp add: class_layer_def\<close>)
  have c1: "calc_at ?f1 ?nd ?in1 i j = ?f1 (map (\<lambda>r. cells r ! i ! j) ?in1)"
    if ij: "in_grid m n i j" for i j
    using cl1 class_layer_cell [OF _ ij] by (intro calc_at_val) (simp add: list_all_iff)
  have m1nd: "\<not> is_nd (nodata ?M1) (cells ?M1 ! i ! j)" if ij: "in_grid m n i j" for i j
  proof -
    have "\<forall>r \<in> set ?in1. 1 \<le> cells r ! i ! j \<and> cells r ! i ! j \<le> 10"
      using cl1 class_layer_cell [OF _ ij] by (simp add: list_all_iff)
    then have "f_adult1 (cells lai ! i ! j) (cells heat ! i ! j) (cells ?lcv ! i ! j)
                 (cells wind ! i ! j) (cells vegpai ! i ! j) (cells vegh ! i ! j) \<le> 10"
      by (simp add: f_adult1_def)
    then show ?thesis using ij c1 [OF ij] by (simp add: calc_default_big)
  qed
  let ?f2 = "\<lambda>v. f_adult2 (v ! 0) (v ! 1) (v ! 2)"
  let ?M2 = "\<lparr>cells = map (\<lambda>i. map (\<lambda>j. calc_at ?f2 ?nd [laifai, nmd, ?M1] i j) [0..<n]) [0..<m],
              nodata = Some ?nd, geo = geo laifai\<rparr>"
  have m2: "calc_adult2 laifai nmd ?M1 = Inr ?M2"
    unfolding calc_adult2_def
    by (rule gdal_calc_rect) (use cl2 in \<open>simp add: class_layer_def rect_tabulate\<close>)
  have cell: "1 \<le> cells ?M2 ! i ! j \<and> cells ?M2 ! i ! j \<le> 10" if ij: "in_grid m n i j" for i j
  proof -
    have "\<forall>r \<in> set (?in1 @ [laifai, nmd]). 1 \<le> cells r ! i ! j \<and> cells r ! i ! j \<le> 10"
      using cl1 cl2 class_layer_cell [OF _ ij] by (simp add: list_all_iff)
    then have "1 \<le> f_adult2 (cells laifai ! i ! j) (cells nmd ! i ! j)
                      (f_adult1 (cells lai ! i ! j) (cells heat ! i ! j) (cells ?lcv ! i ! j)
                        (cells wind ! i ! j) (cells vegpai ! i ! j) (cells vegh ! i ! j)) \<and>
               f_adult2 (cells laifai ! i ! j) (cells nmd ! i ! j)
                      (f_adult1 (cells lai ! i ! j) (cells heat ! i ! j) (cells ?lcv ! i ! j)
                        (cells wind ! i ! j) (cells vegpai ! i ! j) (cells vegh ! i ! j)) \<le> 10"
      by (intro f_adult_range) simp
    moreover have "calc_at ?f2 ?nd [laifai, nmd, ?M1] i j = ?f2 (map (\<lambda>r. cells r ! i ! j) [laifai, nmd, ?M1])"
      using class_layer_cell [OF cl2(1) ij] class_layer_cell [OF cl2(2) ij] m1nd [OF ij]
      by (intro calc_at_val) simp
    ultimately show ?thesis using ij c1 [OF ij] by simp
  qed
  have "list_all (list_all (\<lambda>v. 1 \<le> v \<and> v \<le> 10)) (cells ?M2)"
    using cell by (simp add: list_all_length)
  then show ?thesis using m1 m2 by (simp add: adult_stage_def rect_tabulate)
qed

subsection \<open>Witnesses\<close>

lemma ex_cell_simps [simp]:
  "cells (ex_cell v nd) = [[v]]" "nodata (ex_cell v nd) = nd" "geo (ex_cell v nd) = calc_geo"
  by (simp_all add: ex_cell_def)

theorem laifai_stage_classes_witness:
  "rect 1 1 (cells (ex_cell 0.3 None)) \<and> rect 1 1 (cells (ex_cell 0.5 None)) \<and>
   rect 1 1 (cells (ex_cell 1 (Some 1))) \<and>
   list_all (list_all (\<lambda>v. is_nd None v \<or> -10 < v \<and> v \<le> 100)) [[0.3 :: real]] \<and>
   list_all (list_all (\<lambda>v. is_nd None v \<or> 0 \<le> v \<and> v \<le> 1)) [[0.5 :: real]] \<and>
   list_all (list_all (\<lambda>v. is_nd (Some 1) v \<or> 0 \<le> v \<and> v \<le> 1)) [[1 :: real]] \<and>
   (\<exists>r. laifai_stage (ex_cell 0.3 None) (ex_cell 0.5 None) (ex_cell 1 (Some 1)) = Inr r \<and>
        rect 1 1 (cells r) \<and> list_all (list_all (\<lambda>v. v \<in> {1, 4, 5, 6, 7, 8, 9, 10})) (cells r))"
  using laifai_stage_classes [of 1 1 "ex_cell 0.3 None" "ex_cell 0.5 None" "ex_cell 1 (Some 1)"]
  by (simp add: rect_def del: insert_iff)

theorem vegheight_stage_cell_witness:
  "rect 1 1 (cells (ex_cell 3 None)) \<and> rect 1 1 (cells (ex_cell 0 (Some 0))) \<and>
   rect 1 1 (cells (ex_cell 111 None)) \<and>
   ''h05.tif'' \<noteq> ''h545.tif'' \<and> CHR ''\<newline>'' \<notin> set ''h05.tif'' \<and> CHR ''\<newline>'' \<notin> set ''h545.tif'' \<and>
   in_grid 1 1 0 0 \<and> \<not> is_nd (nodata (ex_cell 111 None)) (cells (ex_cell 111 None) ! 0 ! 0) \<and>
   0 \<le> zero_nd (ex_cell 3 None) ! 0 ! 0 \<and> 0 \<le> zero_nd (ex_cell 0 (Some 0)) ! 0 ! 0 \<and>
   max (zero_nd (ex_cell 3 None) ! 0 ! 0) (zero_nd (ex_cell 0 (Some 0)) ! 0 ! 0) \<le> 100 \<and>
   (\<exists>r. vegheight_stage ex_disk ''t/'' (ex_cell 3 None) (ex_cell 0 (Some 0)) (ex_cell 111 None)
          ''h05.tif'' ''h545.tif'' = Inr r \<and> cells r ! 0 ! 0 = 10)"
proof -
  have z: "zero_nd (ex_cell 3 None) ! 0 ! 0 = 3" "zero_nd (ex_cell 0 (Some 0)) ! 0 ! 0 = 0"
    by (simp_all add: zero_nd_def gmap_def)
  have c: "script_cell vegheighttable None 3 = 10" "(111::real) \<in> set nmd_veg_codes"
    by (simp_all add: script_cell_def reclass_cell_def vegheighttable_def nmd_veg_codes_def)
  show ?thesis
    using vegheight_stage_cell [of 1 1 "ex_cell 3 None" "ex_cell 0 (Some 0)" "ex_cell 111 None"
        "''h05.tif''" "''h545.tif''" 0 0 ex_disk "''t/''"]
    by (simp add: z c rect_def)
qed

theorem wind_stage_range_witness:
  "rect 1 1 (cells (ex_cell 2 None)) \<and> rect 1 1 (cells (ex_cell 5000 None)) \<and>
   list_all (list_all (\<lambda>v. \<not> is_nd None v \<and> 0 < v \<and> v \<le> 100)) [[2 :: real]] \<and>
   list_all (list_all (\<lambda>v. \<not> is_nd None v \<and> 0 \<le> v \<and> v \<le> 1000000000)) [[5000 :: real]] \<and>
   (\<exists>r. wind_stage (ex_cell 2 None) (ex_cell 5000 None) = Inr r \<and> rect 1 1 (cells r) \<and>
        list_all (list_all (\<lambda>v. 3 / 2 \<le> v \<and> v \<le> 10)) (cells r))"
  using wind_stage_range [of 1 1 "ex_cell 2 None" "ex_cell 5000 None"]
  by (simp add: rect_def)

theorem adult_stage_range_witness:
  "list_all (class_layer 1 1) (replicate 8 (ex_cell 5 None)) \<and>
   (\<exists>r. adult_stage (ex_cell 5 None) (ex_cell 5 None) (ex_cell 5 None) (ex_cell 5 None)
          (ex_cell 5 None) (ex_cell 5 None) (ex_cell 5 None) (ex_cell 5 None) = Inr r \<and>
        rect 1 1 (cells r) \<and> list_all (list_all (\<lambda>v. 1 \<le> v \<and> v \<le> 10)) (cells r))"
proof -
  have "class_layer 1 1 (ex_cell 5 None)" by (simp add: class_layer_def rect_def)
  then show ?thesis
    using adult_stage_range [of 1 1 "ex_cell 5 None" "ex_cell 5 None" "ex_cell 5 None" "ex_cell 5 None"
        "ex_cell 5 None" "ex_cell 5 None" "ex_cell 5 None" "ex_cell 5 None"]
    by (simp add: numeral_eq_Suc)
qed

end
