(* ===== verification/FieldCalc.thy ===== *)
theory FieldCalc
  imports Raster
begin

text \<open>
  The field calculators of the script (\<open>src/MyggmodellTRANSAFE_Uppsala.py\<close>): the IUHD
  chain (lines 252--411), zonal statistics and QGIS field calculations on the 100 m grid
  ending in the field \<open>IUHD\<close>, and the adult model's FAI clamp (lines 907--916) and wind
  speed by height (lines 990--1022).  A feature is its attribute row, a map from field names to values, \<open>NULL\<close>
  being an absent value.  The QGIS expressions are a small datatype \<open>qexpr\<close> with
  QGIS's \<open>NULL\<close> rules (modelled from the spec and the QGIS expression engine):
  arithmetic and comparisons with a \<open>NULL\<close> operand are \<open>NULL\<close>, division by zero is
  \<open>NULL\<close>, \<open>ln\<close> of a non-positive number is \<open>NULL\<close>, so is \<open>^\<close> of a negative base
  with a fractional exponent, a comparison is 1 or 0, and
  \<open>CASE WHEN c\<close> takes its \<open>ELSE\<close> branch when \<open>c\<close> is \<open>NULL\<close> or 0.  Every field
  calculator writes its result to a shapefile with \<open>FIELD_PRECISION 3\<close>, so the stored
  value is rounded to three decimals (\<open>round3\<close>); the field width 10 is not modelled.
\<close>

section \<open>QGIS expressions\<close>

datatype qexpr =
    QField string
  | QNum real
  | QAdd qexpr qexpr
  | QSub qexpr qexpr
  | QMul qexpr qexpr
  | QDiv qexpr qexpr
  | QPow qexpr qexpr
  | QGt qexpr qexpr
  | QLt qexpr qexpr
  | QIsNull qexpr
  | QLn qexpr
  | QCase qexpr qexpr qexpr

type_synonym feature = "string \<Rightarrow> real option"

definition q_lift2 :: "(real \<Rightarrow> real \<Rightarrow> real) \<Rightarrow> real option \<Rightarrow> real option \<Rightarrow> real option" where
  "q_lift2 f a b = (case (a, b) of (Some x, Some y) \<Rightarrow> Some (f x y) | _ \<Rightarrow> None)"

text \<open>Division by zero is \<open>NULL\<close>.\<close>

definition q_div :: "real option \<Rightarrow> real option \<Rightarrow> real option" where
  "q_div a b = (case (a, b) of (Some x, Some y) \<Rightarrow> if y = 0 then None else Some (x / y) | _ \<Rightarrow> None)"

text \<open>The power operator \<open>^\<close>: \<open>NULL\<close> for zero to a negative power and for a negative
  base with a fractional exponent, otherwise C's \<open>pow\<close> (with \<open>pow 0 0 = 1\<close>).\<close>

definition q_pow :: "real option \<Rightarrow> real option \<Rightarrow> real option" where
  "q_pow a b = (case (a, b) of
     (Some x, Some y) \<Rightarrow>
       if (x = 0 \<and> y < 0) \<or> (x < 0 \<and> y \<noteq> of_int \<lfloor>y\<rfloor>) then None
       else if 0 < x then Some (x powr y)
       else if x = 0 then Some (if y = 0 then 1 else 0)
       else Some (if 0 \<le> y then x ^ nat \<lfloor>y\<rfloor> else inverse (x ^ nat (- \<lfloor>y\<rfloor>)))
   | _ \<Rightarrow> None)"

fun qeval :: "qexpr \<Rightarrow> feature \<Rightarrow> real option" where
  "qeval (QField n) ft = ft n"
| "qeval (QNum c) ft = Some c"
| "qeval (QAdd a b) ft = q_lift2 (+) (qeval a ft) (qeval b ft)"
| "qeval (QSub a b) ft = q_lift2 (-) (qeval a ft) (qeval b ft)"
| "qeval (QMul a b) ft = q_lift2 (*) (qeval a ft) (qeval b ft)"
| "qeval (QDiv a b) ft = q_div (qeval a ft) (qeval b ft)"
| "qeval (QPow a b) ft = q_pow (qeval a ft) (qeval b ft)"
| "qeval (QGt a b) ft = q_lift2 (\<lambda>x y. b2r (x > y)) (qeval a ft) (qeval b ft)"
| "qeval (QLt a b) ft = q_lift2 (\<lambda>x y. b2r (x < y)) (qeval a ft) (qeval b ft)"
| "qeval (QIsNull a) ft = Some (b2r (qeval a ft = None))"
| "qeval (QLn a) ft = (case qeval a ft of Some x \<Rightarrow> if x \<le> 0 then None else Some (ln x) | None \<Rightarrow> None)"
| "qeval (QCase c t e) ft =
     (case qeval c ft of Some x \<Rightarrow> if x \<noteq> 0 then qeval t ft else qeval e ft | None \<Rightarrow> qeval e ft)"

section \<open>Field calculator and zonal statistics\<close>

text \<open>A double field with three decimals.\<close>

definition round3 :: "real \<Rightarrow> real" where
  "round3 x = real_of_int (round (x * 1000)) / 1000"

definition field_calc :: "string \<Rightarrow> qexpr \<Rightarrow> feature \<Rightarrow> feature" where
  "field_calc name e ft = ft(name := map_option round3 (qeval e ft))"

definition field_calculator :: "string \<Rightarrow> qexpr \<Rightarrow> feature list \<Rightarrow> feature list" where
  "field_calculator name e layer = map (field_calc name e) layer"

text \<open>\<open>native:zonalstatistics\<close>: \<open>STATISTICS\<close> code 0 is the count, 1 the sum and 2 the mean, written in
  place to the input layer as \<open>prefix || 'count'\<close> and \<open>prefix || 'sum'\<close>.  The values for
  each polygon (the raster cells inside it) are an argument, one per feature.\<close>

datatype zstat = ZCount | ZSum | ZMean

primrec zstat_name :: "zstat \<Rightarrow> string" where
  "zstat_name ZCount = ''count''"
| "zstat_name ZSum = ''sum''"
| "zstat_name ZMean = ''mean''"

definition zonal_feature :: "string \<Rightarrow> zstat list \<Rightarrow> feature \<Rightarrow> (zstat \<Rightarrow> real option) \<Rightarrow> feature" where
  "zonal_feature prefix stats ft z = fold (\<lambda>s g. g(prefix @ zstat_name s := z s)) stats ft"

definition zonal_statistics ::
  "string \<Rightarrow> zstat list \<Rightarrow> (zstat \<Rightarrow> real option) list \<Rightarrow> feature list \<Rightarrow> feature list" where
  "zonal_statistics prefix stats zs layer = map2 (zonal_feature prefix stats) layer zs"

section \<open>The formulas of the IUHD chain\<close>

definition f_wai :: "real \<Rightarrow> qexpr" where
  "f_wai cellsize = QDiv (QMul (QField ''_wasum'') (QNum cellsize)) (QField ''area'')"

definition f_pai :: qexpr where
  "f_pai = QDiv (QField ''_paisum'') (QField ''_paicount'')"

definition f_hw :: qexpr where
  "f_hw = QDiv (QMul (QField ''wai'') (QField ''pai''))
              (QMul (QMul (QNum 2) (QField ''pai'')) (QSub (QNum 1) (QField ''pai'')))"

definition f_hwdecr :: qexpr where
  "f_hwdecr = QCase (QGt (QField ''HW'') (QNum 3)) (QNum 3) (QField ''HW'')"

definition f_paiveg :: qexpr where
  "f_paiveg = QDiv (QField ''_paivsum'') (QField ''_paivcount'')"

definition f_vegcooling :: qexpr where
  "f_vegcooling = QMul (QDiv (QField ''paiveg'') (QNum 0.1)) (QNum 0.3)"

definition f_uhimaxhw :: qexpr where
  "f_uhimaxhw = QAdd (QNum 7.54) (QMul (QNum 3.97) (QLn (QField ''HWDecr'')))"

definition f_removenull :: qexpr where
  "f_removenull = QCase (QIsNull (QField ''UHIMaxHW'')) (QNum 0) (QField ''UHIMaxHW'')"

definition f_removeneg :: qexpr where
  "f_removeneg = QCase (QLt (QField ''UHIMaxHWNN'') (QNum 0)) (QNum 0) (QField ''UHIMaxHWNN'')"

definition f_iuhd :: qexpr where
  "f_iuhd = QSub (QField ''UHIMaxNoNe'') (QField ''VegCooling'')"

text \<open>The building frontal-area clamp of the adult model (line 912).\<close>

definition f_faibuild :: qexpr where
  "f_faibuild = QCase (QGt (QField ''Morph_fai'') (QNum 0.9)) (QNum 0.9) (QField ''Morph_fai'')"

text \<open>The wind speed by height, a power law of the grid cell's mean elevation (line 1018).\<close>

definition f_wsheight :: qexpr where
  "f_wsheight = QMul (QNum 2.6) (QPow (QDiv (QField ''_DEMmean'') (QNum 2)) (QNum 0.2))"

section \<open>The chain\<close>

text \<open>The script's order: wall-area sum, \<open>wai\<close>, building count and sum, \<open>pai\<close>, \<open>HW\<close>,
  \<open>HWDecr\<close>, vegetation count and sum, \<open>paiveg\<close>, \<open>VegCooling\<close>, \<open>UHIMaxHW\<close>,
  \<open>UHIMaxHWNN\<close>, \<open>UHIMaxNoNe\<close>, \<open>IUHD\<close>.  The zonal values come from the wall-height
  raster, \<open>inBuildbool\<close> and \<open>inVegbool\<close>.\<close>

definition iuhd_layer ::
  "real \<Rightarrow> (zstat \<Rightarrow> real option) list \<Rightarrow> (zstat \<Rightarrow> real option) list \<Rightarrow>
   (zstat \<Rightarrow> real option) list \<Rightarrow> feature list \<Rightarrow> feature list" where
  "iuhd_layer cellsize zwa zpai zpaiv grid =
     (let l1 = zonal_statistics ''_wa'' [ZSum] zwa grid;
          l2 = field_calculator ''wai'' (f_wai cellsize) l1;
          l3 = zonal_statistics ''_pai'' [ZCount, ZSum] zpai l2;
          l4 = field_calculator ''pai'' f_pai l3;
          l5 = field_calculator ''HW'' f_hw l4;
          l6 = field_calculator ''HWDecr'' f_hwdecr l5;
          l7 = zonal_statistics ''_paiv'' [ZCount, ZSum] zpaiv l6;
          l8 = field_calculator ''paiveg'' f_paiveg l7;
          l9 = field_calculator ''VegCooling'' f_vegcooling l8;
          l10 = field_calculator ''UHIMaxHW'' f_uhimaxhw l9;
          l11 = field_calculator ''UHIMaxHWNN'' f_removenull l10;
          l12 = field_calculator ''UHIMaxNoNe'' f_removeneg l11
      in field_calculator ''IUHD'' f_iuhd l12)"

text \<open>The same chain on one feature, with that feature's zonal values.\<close>

definition iuhd_feature ::
  "real \<Rightarrow> (zstat \<Rightarrow> real option) \<Rightarrow> (zstat \<Rightarrow> real option) \<Rightarrow> (zstat \<Rightarrow> real option) \<Rightarrow>
   feature \<Rightarrow> feature" where
  "iuhd_feature cellsize zwa zpai zpaiv ft =
     (let f1 = zonal_feature ''_wa'' [ZSum] ft zwa;
          f2 = field_calc ''wai'' (f_wai cellsize) f1;
          f3 = zonal_feature ''_pai'' [ZCount, ZSum] f2 zpai;
          f4 = field_calc ''pai'' f_pai f3;
          f5 = field_calc ''HW'' f_hw f4;
          f6 = field_calc ''HWDecr'' f_hwdecr f5;
          f7 = zonal_feature ''_paiv'' [ZCount, ZSum] f6 zpaiv;
          f8 = field_calc ''paiveg'' f_paiveg f7;
          f9 = field_calc ''VegCooling'' f_vegcooling f8;
          f10 = field_calc ''UHIMaxHW'' f_uhimaxhw f9;
          f11 = field_calc ''UHIMaxHWNN'' f_removenull f10;
          f12 = field_calc ''UHIMaxNoNe'' f_removeneg f11
      in field_calc ''IUHD'' f_iuhd f12)"

section \<open>The grid layers of the adult model\<close>

text \<open>The building frontal-area index clamped at 0.9 (lines 907--916), on the grid layer
  to which the morphometric calculator has added \<open>Morph_fai\<close> (\<open>ATTR_TABLE\<close>, prefix
  \<open>Morph\<close>, lines 887--904; an input here).\<close>

definition faibuild_layer :: "feature list \<Rightarrow> feature list" where
  "faibuild_layer grid = field_calculator ''FAIBuildDe'' f_faibuild grid"

text \<open>The mean elevation of each grid cell (\<open>native:zonalstatisticsfb\<close>, prefix \<open>_DEM\<close>,
  \<open>STATISTICS [2]\<close>, lines 990--999: a copy of the grid with the new field).\<close>

definition dem_mean_layer :: "(zstat \<Rightarrow> real option) list \<Rightarrow> feature list \<Rightarrow> feature list" where
  "dem_mean_layer zdem grid = zonal_statistics ''_DEM'' [ZMean] zdem grid"

text \<open>The wind speed by height on that layer (lines 1012--1022).\<close>

definition wsheight_layer :: "(zstat \<Rightarrow> real option) list \<Rightarrow> feature list \<Rightarrow> feature list" where
  "wsheight_layer zdem grid = field_calculator ''WSHeight'' f_wsheight (dem_mean_layer zdem grid)"

section \<open>The chain in closed form\<close>

text \<open>What the chain computes, written as one formula over the zonal values: the stored
  \<open>HW\<close> before the clamp, the warming term \<open>UHIMaxNoNe\<close> from the stored \<open>HWDecr\<close>, and
  \<open>IUHD\<close> from them and the vegetation fraction.\<close>

definition hw_of :: "real \<Rightarrow> real option \<Rightarrow> real option \<Rightarrow> real option \<Rightarrow> real option \<Rightarrow> real option" where
  "hw_of cs wasum area paisum paicount =
     (let wai = map_option round3 (q_div (q_lift2 (*) wasum (Some cs)) area);
          pai = map_option round3 (q_div paisum paicount)
      in map_option round3 (q_div (q_lift2 (*) wai pai)
           (q_lift2 (*) (q_lift2 (*) (Some 2) pai) (q_lift2 (-) (Some 1) pai))))"

definition warming_of :: "real option \<Rightarrow> real" where
  "warming_of hdecr =
     (case hdecr of None \<Rightarrow> 0 | Some h \<Rightarrow> if h \<le> 0 then 0 else max 0 (round3 (7.54 + 3.97 * ln h)))"

definition iuhd_of ::
  "real \<Rightarrow> real option \<Rightarrow> real option \<Rightarrow> real option \<Rightarrow> real option \<Rightarrow> real option \<Rightarrow> real option \<Rightarrow> real option" where
  "iuhd_of cs wasum area paisum paicount paivsum paivcount =
     (let hdecr = map_option (\<lambda>x. round3 (if 3 < x then 3 else x)) (hw_of cs wasum area paisum paicount)
      in map_option (\<lambda>p. round3 (warming_of hdecr - round3 (3 * p)))
           (map_option round3 (q_div paivsum paivcount)))"

section \<open>Lemmas\<close>

subsection \<open>Reading fields\<close>

lemma field_calc_apply:
  "field_calc name e ft n = (if n = name then map_option round3 (qeval e ft) else ft n)"
  by (simp add: field_calc_def)

lemma zonal_feature_count_sum [simp]:
  "zonal_feature p [ZCount, ZSum] ft z n =
     (if n = p @ ''sum'' then z ZSum else if n = p @ ''count'' then z ZCount else ft n)"
  by (simp add: zonal_feature_def)

lemma zonal_feature_sum [simp]:
  "zonal_feature p [ZSum] ft z n = (if n = p @ ''sum'' then z ZSum else ft n)"
  by (simp add: zonal_feature_def)

lemma field_calc_same [simp]: "field_calc name e ft name = map_option round3 (qeval e ft)"
  by (simp add: field_calc_def)

lemma field_calc_other [simp]: "n \<noteq> name \<Longrightarrow> field_calc name e ft n = ft n"
  by (simp add: field_calc_def)

lemma iuhd_layer_nth:
  assumes "i < length grid" "length zwa = length grid" "length zpai = length grid" "length zpaiv = length grid"
  shows "length (iuhd_layer cs zwa zpai zpaiv grid) = length grid \<and>
         iuhd_layer cs zwa zpai zpaiv grid ! i = iuhd_feature cs (zwa ! i) (zpai ! i) (zpaiv ! i) (grid ! i)"
  using assms
  by (simp add: iuhd_layer_def iuhd_feature_def Let_def field_calculator_def zonal_statistics_def
      field_calc_def)

subsection \<open>Rounding to three decimals\<close>

lemma round3_mono: "x \<le> y \<Longrightarrow> round3 x \<le> round3 y"
  by (simp add: round3_def round_mono divide_right_mono)

lemma round3_round3 [simp]: "round3 (round3 x) = round3 x"
  by (simp add: round3_def)

lemma round3_ge: "x - 1 / 2000 \<le> round3 x"
proof -
  have "x * 1000 - 1 / 2 \<le> real_of_int (round (x * 1000))" by (rule of_int_round_ge)
  then show ?thesis by (simp add: round3_def field_simps)
qed

subsection \<open>The formulas under NULL\<close>

lemma qeval_hwdecr: "qeval f_hwdecr ft = map_option (\<lambda>x. if 3 < x then 3 else x) (ft ''HW'')"
  by (cases "ft ''HW''") (simp_all add: f_hwdecr_def q_lift2_def b2r_def)

lemma qeval_uhimaxhw:
  "qeval f_uhimaxhw ft =
     (case ft ''HWDecr'' of Some h \<Rightarrow> if h \<le> 0 then None else Some (7.54 + 3.97 * ln h) | None \<Rightarrow> None)"
  by (simp add: f_uhimaxhw_def q_lift2_def split: option.split)

lemma qeval_removenull: "qeval f_removenull ft = Some (case ft ''UHIMaxHW'' of None \<Rightarrow> 0 | Some x \<Rightarrow> x)"
  by (cases "ft ''UHIMaxHW''") (simp_all add: f_removenull_def b2r_def)

lemma qeval_removeneg: "qeval f_removeneg ft = map_option (\<lambda>x. if x < 0 then 0 else x) (ft ''UHIMaxHWNN'')"
  by (cases "ft ''UHIMaxHWNN''") (simp_all add: f_removeneg_def q_lift2_def b2r_def)

lemma qeval_vegcooling: "qeval f_vegcooling ft = map_option (\<lambda>p. 3 * p) (ft ''paiveg'')"
  by (cases "ft ''paiveg''") (simp_all add: f_vegcooling_def q_lift2_def q_div_def)

lemma qeval_paiveg: "qeval f_paiveg ft = q_div (ft ''_paivsum'') (ft ''_paivcount'')"
  by (simp add: f_paiveg_def)

lemma qeval_wai: "qeval (f_wai cs) ft = q_div (q_lift2 (*) (ft ''_wasum'') (Some cs)) (ft ''area'')"
  by (simp add: f_wai_def)

lemma qeval_pai: "qeval f_pai ft = q_div (ft ''_paisum'') (ft ''_paicount'')"
  by (simp add: f_pai_def)

lemma qeval_hw:
  "qeval f_hw ft = q_div (q_lift2 (*) (ft ''wai'') (ft ''pai''))
     (q_lift2 (*) (q_lift2 (*) (Some 2) (ft ''pai'')) (q_lift2 (-) (Some 1) (ft ''pai'')))"
  by (simp add: f_hw_def)

lemma qeval_iuhd: "qeval f_iuhd ft = q_lift2 (-) (ft ''UHIMaxNoNe'') (ft ''VegCooling'')"
  by (simp add: f_iuhd_def)

lemma q_lift2_Some_left [simp]: "q_lift2 f (Some x) b = map_option (f x) b"
  by (cases b) (simp_all add: q_lift2_def)

lemma round3_0 [simp]: "round3 0 = 0"
  by (simp add: round3_def)

lemma warming_steps:
  "field_calc ''UHIMaxNoNe'' f_removeneg (field_calc ''UHIMaxHWNN'' f_removenull
     (field_calc ''UHIMaxHW'' f_uhimaxhw g)) ''UHIMaxNoNe'' = Some (warming_of (g ''HWDecr''))"
proof (cases "g ''HWDecr''")
  case (Some h)
  then show ?thesis
    by (cases "round3 (7.54 + 3.97 * ln h) < 0")
       (simp_all add: qeval_removeneg qeval_removenull qeval_uhimaxhw warming_of_def max_def)
qed (simp add: qeval_removeneg qeval_removenull qeval_uhimaxhw warming_of_def)

lemmas qeval_iuhd_chain = qeval_wai qeval_pai qeval_hw qeval_hwdecr qeval_vegcooling qeval_paiveg
  qeval_iuhd

lemma iuhd_feature_closed:
  "iuhd_feature cs zwa zpai zpaiv ft ''IUHD'' =
     iuhd_of cs (zwa ZSum) (ft ''area'') (zpai ZSum) (zpai ZCount) (zpaiv ZSum) (zpaiv ZCount)"
  unfolding iuhd_feature_def Let_def
  apply (subst field_calc_same, subst qeval_iuhd, subst warming_steps)
  apply (simp add: qeval_iuhd_chain iuhd_of_def hw_of_def Let_def option.map_comp o_def)
  done


subsection \<open>Bounds of the warming and cooling terms\<close>

lemma round3_bounds:
  "a \<le> x \<Longrightarrow> x \<le> b \<Longrightarrow> round3 a \<le> round3 x \<and> round3 x \<le> round3 b"
  by (simp add: round3_mono)

lemma round3_numerals [simp]: "round3 1 = 1" "round3 3 = 3" "round3 (-3) = -3" "round3 15.48 = 15.48"
  by (simp_all add: round3_def)

lemma hdecr_le_3: "map_option (\<lambda>x. round3 (if 3 < x then 3 else x)) hw = Some h \<Longrightarrow> h \<le> 3"
  using round3_mono [of "if 3 < x then 3 else x" 3 for x] by auto

lemma warming_of_bounds:
  assumes "\<And>h. hdecr = Some h \<Longrightarrow> h \<le> 3"
  shows "0 \<le> warming_of hdecr \<and> warming_of hdecr \<le> 15.48"
proof (cases hdecr)
  case (Some h)
  show ?thesis
  proof (cases "h \<le> 0")
    case False
    have "h \<le> 3" using assms Some by blast
    moreover have "ln h \<le> h - 1" using False by (intro ln_le_minus_one) simp
    ultimately have "ln h \<le> 2" by linarith
    then have "7.54 + 3.97 * ln h \<le> (15.48::real)" by simp
    then have "round3 (7.54 + 3.97 * ln h) \<le> round3 15.48" by (rule round3_mono)
    then have "round3 (7.54 + 3.97 * ln h) \<le> 15.48" unfolding round3_numerals .
    with Some False show ?thesis by (simp add: warming_of_def)
  qed (simp add: Some warming_of_def)
qed (simp add: warming_of_def)

lemma vegcooling_bounds:
  assumes "0 \<le> s" "s \<le> c" "0 < c"
  shows "map_option round3 (q_div (Some s) (Some c)) = Some (round3 (s / c)) \<and>
         0 \<le> round3 (3 * round3 (s / c)) \<and> round3 (3 * round3 (s / c)) \<le> 3"
proof -
  from assms have "0 \<le> s / c" "s / c \<le> 1" by simp_all
  then have "0 \<le> round3 (s / c)" "round3 (s / c) \<le> 1"
    using round3_bounds [of 0 "s / c" 1] by simp_all
  then have "0 \<le> 3 * round3 (s / c)" "3 * round3 (s / c) \<le> 3" by simp_all
  then have "0 \<le> round3 (3 * round3 (s / c)) \<and> round3 (3 * round3 (s / c)) \<le> 3"
    using round3_bounds [of 0 "3 * round3 (s / c)" 3] by simp
  with assms show ?thesis by (simp add: q_div_def)
qed

lemma iuhd_feature_warming:
  "iuhd_feature cs zwa zpai zpaiv ft ''UHIMaxNoNe'' =
     Some (warming_of (map_option (\<lambda>x. round3 (if 3 < x then 3 else x)) (hw_of cs (zwa ZSum) (ft ''area'') (zpai ZSum) (zpai ZCount))))"
  unfolding iuhd_feature_def Let_def
  apply (subst field_calc_other, simp, subst warming_steps)
  apply (simp add: qeval_iuhd_chain hw_of_def Let_def option.map_comp o_def)
  done

lemma q_div_zero [simp]: "q_div a (Some 0) = None"
  by (cases a) (simp_all add: q_div_def)

lemma q_div_None [simp]: "q_div None b = None" "q_div a None = None"
  by (simp_all add: q_div_def split: option.split)

lemma hw_of_no_buildings: "hw_of cs wasum area (Some 0) paicount = None"
proof -
  have "map_option round3 (q_div (Some 0) paicount) = None \<or>
        map_option round3 (q_div (Some 0) paicount) = Some 0"
    by (cases paicount) (simp_all add: q_div_def)
  then show ?thesis by (auto simp: hw_of_def Let_def q_lift2_def split: option.split)
qed

lemma iuhd_feature_range:
  assumes "zpaiv ZSum = Some s" "zpaiv ZCount = Some c" "0 \<le> s" "s \<le> c" "0 < c"
  shows "\<exists>x. iuhd_feature cs zwa zpai zpaiv ft ''IUHD'' = Some x \<and> -3 \<le> x \<and> x \<le> 15.48"
proof -
  let ?hd = "map_option (\<lambda>x. round3 (if 3 < x then 3 else x))
               (hw_of cs (zwa ZSum) (ft ''area'') (zpai ZSum) (zpai ZCount))"
  let ?v = "round3 (3 * round3 (s / c))"
  have w: "0 \<le> warming_of ?hd \<and> warming_of ?hd \<le> 15.48"
    by (rule warming_of_bounds) (rule hdecr_le_3)
  have v: "map_option round3 (q_div (Some s) (Some c)) = Some (round3 (s / c)) \<and> 0 \<le> ?v \<and> ?v \<le> 3"
    by (rule vegcooling_bounds [OF assms(3-5)])
  then have "-3 \<le> warming_of ?hd - ?v" "warming_of ?hd - ?v \<le> 15.48" using w by linarith+
  then have "round3 (-3) \<le> round3 (warming_of ?hd - ?v) \<and> round3 (warming_of ?hd - ?v) \<le> round3 15.48"
    by (rule round3_bounds)
  then have "-3 \<le> round3 (warming_of ?hd - ?v) \<and> round3 (warming_of ?hd - ?v) \<le> 15.48"
    unfolding round3_numerals .
  moreover have "q_div (Some s) (Some c) = Some (s / c)" using assms(5) by (simp add: q_div_def)
  then have "iuhd_feature cs zwa zpai zpaiv ft ''IUHD'' = Some (round3 (warming_of ?hd - ?v))"
    using assms(1,2) by (simp add: iuhd_feature_closed iuhd_of_def Let_def)
  ultimately show ?thesis by blast
qed

subsection \<open>The FAI clamp and the wind speed by height\<close>

lemma zonal_feature_mean [simp]:
  "zonal_feature p [ZMean] ft z n = (if n = p @ ''mean'' then z ZMean else ft n)"
  by (simp add: zonal_feature_def)

lemma round3_more [simp]: "round3 0.9 = 0.9" "round3 1.3 = 1.3" "round3 15.6 = 15.6"
  by (simp_all add: round3_def)

lemma qeval_faibuild: "qeval f_faibuild ft = map_option (\<lambda>x. min x 0.9) (ft ''Morph_fai'')"
  by (cases "ft ''Morph_fai''") (simp_all add: f_faibuild_def q_lift2_def b2r_def min_def)

lemma floor_fifth [simp]: "\<lfloor>0.2 :: real\<rfloor> = 0"
  by (simp add: floor_eq_iff)

text \<open>The power law is defined exactly on non-negative elevations; at 0 it is 0, as
  \<open>0 powr y = 0\<close> and C's \<open>pow 0 0.2 = 0\<close> agree.\<close>

lemma qeval_wsheight:
  "qeval f_wsheight ft =
     (case ft ''_DEMmean'' of None \<Rightarrow> None | Some m \<Rightarrow> if m < 0 then None else Some (2.6 * (m / 2) powr 0.2))"
  by (cases "ft ''_DEMmean''") (auto simp: f_wsheight_def q_lift2_def q_div_def q_pow_def)

lemma faibuild_layer_nth:
  "i < length grid \<Longrightarrow>
   (faibuild_layer grid ! i) ''FAIBuildDe'' = map_option (\<lambda>x. round3 (min x 0.9)) ((grid ! i) ''Morph_fai'')"
  by (simp add: faibuild_layer_def field_calculator_def qeval_faibuild option.map_comp o_def)

lemma wsheight_layer_nth:
  assumes "i < length grid" "length zdem = length grid"
  shows "(wsheight_layer zdem grid ! i) ''WSHeight'' =
           (case (zdem ! i) ZMean of None \<Rightarrow> None
            | Some m \<Rightarrow> if m < 0 then None else Some (round3 (2.6 * (m / 2) powr 0.2)))"
  using assms
  by (simp add: wsheight_layer_def dem_mean_layer_def field_calculator_def zonal_statistics_def qeval_wsheight
      split: option.split)

text \<open>Between 1 m and 10 km of mean elevation the wind speed lies in \<open>[1.3, 15.6]\<close>:
  \<open>(1/32) powr 0.2 = 1/2\<close> and \<open>7776 powr 0.2 = 6\<close>.\<close>

lemma fifth_root_pow5: "0 \<le> b \<Longrightarrow> (b ^ 5) powr (1 / 5 :: real) = b"
proof (cases "b = 0")
  case False
  assume "0 \<le> b"
  with False have b: "0 < b" by simp
  have "(b ^ 5) powr (1 / 5 :: real) = (b powr 5) powr (1 / 5)"
    using b by (simp add: powr_numeral)
  also have "\<dots> = b" using b by (subst powr_powr) simp
  finally show ?thesis .
qed simp

lemma fifth_roots: "(1 / 32) powr (1 / 5 :: real) = 1 / 2" "7776 powr (1 / 5 :: real) = 6"
  "32 powr (1 / 5 :: real) = 2"
  using fifth_root_pow5 [of "1 / 2"] fifth_root_pow5 [of 6] fifth_root_pow5 [of 2]
  by (simp_all add: power_divide)

lemma fifth: "(0.2 :: real) = 1 / 5"
  by simp

lemma wsheight_bounds:
  assumes "1 \<le> m" "m \<le> 10000"
  shows "1.3 \<le> round3 (2.6 * (m / 2) powr 0.2) \<and> round3 (2.6 * (m / 2) powr 0.2) \<le> 15.6"
proof -
  have "(1 / 32) powr (1 / 5 :: real) \<le> (m / 2) powr (1 / 5)"
    using assms by (intro powr_mono2) simp_all
  then have lo: "1 / 2 \<le> (m / 2) powr (1 / 5)" by (simp only: fifth_roots)
  have "(m / 2) powr (1 / 5 :: real) \<le> 7776 powr (1 / 5)"
    using assms by (intro powr_mono2) simp_all
  then have hi: "(m / 2) powr (1 / 5) \<le> 6" by (simp only: fifth_roots)
  from lo hi have "1.3 \<le> 2.6 * (m / 2) powr 0.2" "2.6 * (m / 2) powr 0.2 \<le> 15.6"
    unfolding fifth by simp_all
  then have "round3 1.3 \<le> round3 (2.6 * (m / 2) powr 0.2) \<and> round3 (2.6 * (m / 2) powr 0.2) \<le> round3 15.6"
    by (rule round3_bounds)
  then show ?thesis unfolding round3_more .
qed

section \<open>Properties\<close>

text \<open>C9: the IUHD chain as the script runs it on the grid layer (zonal statistics written in
  place, thirteen steps, each reading the fields the earlier steps wrote) gives every grid
  cell the value of the closed-form IUHD formula over that cell's zonal values.\<close>

theorem iuhd_layer_refines:
  assumes "i < length grid" "length zwa = length grid" "length zpai = length grid"
      and "length zpaiv = length grid"
  shows "(iuhd_layer cs zwa zpai zpaiv grid ! i) ''IUHD'' =
           iuhd_of cs ((zwa ! i) ZSum) ((grid ! i) ''area'') ((zpai ! i) ZSum) ((zpai ! i) ZCount)
             ((zpaiv ! i) ZSum) ((zpaiv ! i) ZCount)"
  using iuhd_layer_nth [OF assms] by (simp add: iuhd_feature_closed)

text \<open>C11: for a grid cell whose vegetation fraction is a fraction (\<open>0 \<le> sum \<le> count\<close>,
  \<open>count > 0\<close>), IUHD is defined and lies in \<open>[-3, 15.48]\<close>, inside the range
  \<open>(-3, 100]\<close> of the IUHD table except for its lower end.\<close>

theorem iuhd_bounds:
  assumes "zpaiv ZSum = Some s" "zpaiv ZCount = Some c" "0 \<le> s" "s \<le> c" "0 < c"
  shows "\<exists>x. iuhd_feature cs zwa zpai zpaiv ft ''IUHD'' = Some x \<and> -3 \<le> x \<and> x \<le> 15.48"
  using assms by (rule iuhd_feature_range)

text \<open>C12: IUHD is \<open>NULL\<close> exactly when the vegetation fraction is: when the vegetation
  count or sum is \<open>NULL\<close> or the count is 0.  The warming term is never \<open>NULL\<close>.\<close>

theorem iuhd_null_iff:
  "iuhd_feature cs zwa zpai zpaiv ft ''IUHD'' = None \<longleftrightarrow>
     zpaiv ZSum = None \<or> zpaiv ZCount = None \<or> zpaiv ZCount = Some 0"
  by (simp add: iuhd_feature_closed iuhd_of_def Let_def q_div_def split: option.split)

text \<open>a grid cell without buildings and fully covered by vegetation gets IUHD exactly
  \<open>-3\<close>: \<open>HW\<close> divides by zero and is \<open>NULL\<close>, the warming term becomes 0, and the
  cooling term is 3.\<close>

theorem iuhd_full_vegetation:
  assumes "zpai ZSum = Some 0" "zpaiv ZSum = Some c" "zpaiv ZCount = Some c" "c \<noteq> 0"
  shows "iuhd_feature cs zwa zpai zpaiv ft ''IUHD'' = Some (-3)"
  using assms
  by (simp add: iuhd_feature_closed iuhd_of_def hw_of_no_buildings Let_def q_div_def warming_of_def)

text \<open>C13: whatever the building data, \<open>Remove Null\<close> and \<open>Remove Negative\<close> leave a
  warming term \<open>UHIMaxNoNe\<close> in \<open>[0, 15.48]\<close>: \<open>HWDecr\<close> is at most 3 and
  \<open>ln 3 \<le> 2\<close>.\<close>

theorem iuhd_warming_bounds:
  "\<exists>u. iuhd_feature cs zwa zpai zpaiv ft ''UHIMaxNoNe'' = Some u \<and> 0 \<le> u \<and> u \<le> 15.48"
proof -
  let ?hd = "map_option (\<lambda>x. round3 (if 3 < x then 3 else x))
               (hw_of cs (zwa ZSum) (ft ''area'') (zpai ZSum) (zpai ZCount))"
  have "0 \<le> warming_of ?hd \<and> warming_of ?hd \<le> 15.48"
    by (rule warming_of_bounds) (rule hdecr_le_3)
  then show ?thesis by (simp only: iuhd_feature_warming option.inject simp_thms ex_simps)
qed

text \<open>C14: the FAI clamp: every grid cell's \<open>FAIBuildDe\<close> is its \<open>Morph_fai\<close> capped at
  0.9 and stored with three decimals, \<open>NULL\<close> where \<open>Morph_fai\<close> is; a non-negative index
  is stored in \<open>[0, 0.9]\<close>, inside the range \<open>[0, 1]\<close> the LAI-FAI formula expects.\<close>

theorem faibuild_clamp:
  assumes "i < length grid"
  shows "(faibuild_layer grid ! i) ''FAIBuildDe'' = map_option (\<lambda>x. round3 (min x 0.9)) ((grid ! i) ''Morph_fai'') \<and>
         ((grid ! i) ''Morph_fai'' = Some x \<longrightarrow> 0 \<le> x \<longrightarrow>
            (\<exists>v. (faibuild_layer grid ! i) ''FAIBuildDe'' = Some v \<and> 0 \<le> v \<and> v \<le> 0.9))"
proof -
  have "0 \<le> x \<Longrightarrow> 0 \<le> round3 (min x 0.9) \<and> round3 (min x 0.9) \<le> 0.9"
    using round3_bounds [of 0 "min x 0.9" "0.9"] by simp
  then show ?thesis using faibuild_layer_nth [OF assms] by auto
qed

subsection \<open>Witnesses\<close>

theorem faibuild_clamp_witness:
  "0 < length [[''Morph_fai'' \<mapsto> 1.5 :: real]] \<and>
   (faibuild_layer [[''Morph_fai'' \<mapsto> 1.5]] ! 0) ''FAIBuildDe'' = Some 0.9"
  using faibuild_clamp [where i = 0 and grid = "[[''Morph_fai'' \<mapsto> 1.5]]" and x = "1.5"]
  by (simp add: min_def)

theorem iuhd_layer_refines_witness:
  "(iuhd_layer 0.5 [\<lambda>_. None] [\<lambda>_. None] [\<lambda>_. Some 1] [Map.empty] ! 0) ''IUHD'' =
     iuhd_of 0.5 None None None None (Some 1) (Some 1)"
  using iuhd_layer_refines [where i = 0 and grid = "[Map.empty]" and zwa = "[\<lambda>_. None]"
      and zpai = "[\<lambda>_. None]" and zpaiv = "[\<lambda>_. Some 1]" and cs = "0.5"]
  by simp

theorem iuhd_bounds_witness:
  "\<exists>x. iuhd_feature 0.5 (\<lambda>_. None) (\<lambda>_. Some 1) (\<lambda>_. Some 1) Map.empty ''IUHD'' = Some x \<and>
       -3 \<le> x \<and> x \<le> 15.48"
  using iuhd_bounds [where zpaiv = "\<lambda>_. Some 1" and s = 1 and c = 1 and cs = "0.5"
      and zwa = "\<lambda>_. None" and zpai = "\<lambda>_. Some 1" and ft = Map.empty]
  by simp

theorem iuhd_full_vegetation_witness:
  "iuhd_feature 0.5 (\<lambda>_. None) (\<lambda>_. Some 0) (\<lambda>_. Some 1) Map.empty ''IUHD'' = Some (-3)"
  using iuhd_full_vegetation [where zpai = "\<lambda>_. Some 0" and zpaiv = "\<lambda>_. Some 1" and c = 1
      and cs = "0.5" and zwa = "\<lambda>_. None" and ft = Map.empty]
  by simp

end
