(* ===== verification/Pipeline.thy ===== *)
theory Pipeline
  imports Prelude "HOL-Library.List_Lexorder" "HOL-Library.Char_ord"
begin

text \<open>
  Pipeline orchestration: the script's shared dictionary \<open>outputs\<close> of named
  intermediate results (\<open>src/MyggmodellTRANSAFE_Uppsala.py\<close>, from \<open>outputs = {}\<close> on
  line 95 to the end).  Every statement of the script that touches the dictionary is an
  operation of \<open>script\<close>, with its line: \<open>Run key alg\<close> for
  \<open>outputs[key] = processing.run(alg, ...)\<close>, \<open>Assign key fields\<close> for a dictionary
  literal stored under \<open>key\<close>, and \<open>Read key field\<close> for \<open>outputs[key][field]\<close>, in
  the order Python evaluates them (the parameters of a call before its result is stored).
  The three \<open>if\<close> statements that touch the dictionary are \<open>Branch\<close>es on a
  configuration.  A stored result is represented by the names of its outputs, those of
  the algorithm that produced it (\<open>alg_outputs\<close>, from the QGIS, GDAL, GRASS and UMEP
  algorithm definitions, not in the repository).  A missing key or field raises
  \<open>KeyError\<close>.

  The keys are the 85 string literals the script uses.  \<open>run_script_str\<close> is the
  dictionary with those strings as keys, as Python has it; \<open>run_script\<close> interns each
  key as its position in the sorted list \<open>key_names\<close> (written in the script by the
  key's own name, an input abbreviation of its position), which the kernel evaluates
  quickly.  The two are proved to agree.  A static check of the accesses
  (\<open>check_stmts\<close>) is proved sound for every configuration it agrees with, and the
  script passes it when the ocean distance is given.
\<close>

section \<open>Keys and algorithms\<close>

definition key_names :: "string list" where
  "key_names = [''AddGeometryAttributes'',
    ''AdultsMCA1'',
    ''AdultsMCA2'',
    ''Buffer'',
    ''ClipBuildings'',
    ''ClipCDSM'',
    ''ClipDEM'',
    ''ClipDSM'',
    ''ClipGracing'',
    ''ClipHeight0to5'',
    ''ClipHeight5to45'',
    ''ClipLAI'',
    ''ClipLandUse'',
    ''ClipLandcover'',
    ''ClipManmade'',
    ''ClipPowerlines'',
    ''CreateGrid'',
    ''ExtractByExpressionBuildings'',
    ''ExtractByExpressionIndustries'',
    ''FieldCalculator'',
    ''FieldCalculatorHw'',
    ''FieldCalculatorHwDecreased'',
    ''FieldCalculatorHwwarming'',
    ''FieldCalculatorIuhd'',
    ''FieldCalculatorPlanareafraction'',
    ''FieldCalculatorReclassLandcovervector'',
    ''FieldCalculatorRemoveNegativeHwwarm'',
    ''FieldCalculatorRemoveNull'',
    ''FieldCalculatorVegcooling'',
    ''FieldCalculatorVegplanareafraction'',
    ''FieldCalculatorWallareafraction'',
    ''FieldCalculatorWindSpeedTopo'',
    ''HeatmapWMCAOviposition'',
    ''MosaicRasterLayersLandCover'',
    ''MosaicRasterLayersLandCoverND'',
    ''MosaicRasterLayersLandUses'',
    ''MosaicRasterLayersMergeHeights'',
    ''ProximityRasterDistanceDistanceFromOcean'',
    ''ProximityRasterDistanceDistanceFromOceantemp'',
    ''RasterCalculatorCombineOceanHeightWind'',
    ''RasterCalculatorGetVegetationFromNmd'',
    ''RasterCalculatorGetVegetationHeights'',
    ''RasterCalculatorLCLU'',
    ''RasterCalculatorLaifaicombo'',
    ''RasterCalculatorOceanDistanceInKm'',
    ''RasterCalculatorSetsSlopes8ToNodata'',
    ''RasterCalculatorWindreduxocean'',
    ''RasterizeVectorToRasterFaibuild'',
    ''RasterizeVectorToRasterFaiveg'',
    ''RasterizeVectorToRasterGardens'',
    ''RasterizeVectorToRasterIndustries'',
    ''RasterizeVectorToRasterLandcovervectorToRaster'',
    ''RasterizeVectorToRasterUUHD'',
    ''RasterizeVectorToRasterVegpai'',
    ''RasterizeVectorToRasterWindPowerLaw'',
    ''ReclassifyByTableHeatmaphotspot'',
    ''ReclassifyByTableLai'',
    ''ReclassifyByTableLaifaiSkaBliOutput'',
    ''ReclassifyByTableNmdgrund'',
    ''ReclassifyByTableVegheights'',
    ''ReclassifyByTableWindreduxocean'',
    ''ReclassifyByTableWindspeedheight'',
    ''ReclassifyValuesRangeReclassifiesSlopes8'',
    ''ReclassifyValuesSimpleIUHD'',
    ''ReclassifyValuesSimpleLandCover'',
    ''ReclassifyValuesSimpleLandUse'',
    ''ReclassifyValuesSingleLandcovervectorrasterNodataTo0'',
    ''ReclassifyValuesSingleObjekthojd0_5'',
    ''ReclassifyValuesSingleObjekthojd5_45'',
    ''ReclassifyValuesSingleReclass0To1Lai'',
    ''ReclassifyValuesSingleReclass0To1Laifai'',
    ''ReclassifyValuesSingleReclass0To1Vegheight'',
    ''ReclassifyValuesSingleRemoveNodataFaibuild'',
    ''ReclassifyValuesSingleRemoveNodataFaiveg'',
    ''ReclassifyValuesSingleRemoveNodataLai'',
    ''ReclassifyValuesTableVeg_pai'',
    ''SlopeOfRooftops'',
    ''SlopeOfRooftopstemp'',
    ''UrbanGeometryWallHeightAndAspect'',
    ''UrbanMorphologyMorphometricCalculatorGridBuilding'',
    ''UrbanMorphologyMorphometricCalculatorGridVegetation'',
    ''WMCAOviposition'',
    ''WarpReprojectTestingAllSlopesTo10mRes'',
    ''ZonalStatistics'',
    ''ZonalStatisticsDemMean'']"

abbreviation (input) AddGeometryAttributes :: nat where "AddGeometryAttributes \<equiv> 0"

abbreviation (input) AdultsMCA1 :: nat where "AdultsMCA1 \<equiv> 1"

abbreviation (input) AdultsMCA2 :: nat where "AdultsMCA2 \<equiv> 2"

abbreviation (input) Buffer :: nat where "Buffer \<equiv> 3"

abbreviation (input) ClipBuildings :: nat where "ClipBuildings \<equiv> 4"

abbreviation (input) ClipCDSM :: nat where "ClipCDSM \<equiv> 5"

abbreviation (input) ClipDEM :: nat where "ClipDEM \<equiv> 6"

abbreviation (input) ClipDSM :: nat where "ClipDSM \<equiv> 7"

abbreviation (input) ClipGracing :: nat where "ClipGracing \<equiv> 8"

abbreviation (input) ClipHeight0to5 :: nat where "ClipHeight0to5 \<equiv> 9"

abbreviation (input) ClipHeight5to45 :: nat where "ClipHeight5to45 \<equiv> 10"

abbreviation (input) ClipLAI :: nat where "ClipLAI \<equiv> 11"

abbreviation (input) ClipLandUse :: nat where "ClipLandUse \<equiv> 12"

abbreviation (input) ClipLandcover :: nat where "ClipLandcover \<equiv> 13"

abbreviation (input) ClipManmade :: nat where "ClipManmade \<equiv> 14"

abbreviation (input) ClipPowerlines :: nat where "ClipPowerlines \<equiv> 15"

abbreviation (input) CreateGrid :: nat where "CreateGrid \<equiv> 16"

abbreviation (input) ExtractByExpressionBuildings :: nat where "ExtractByExpressionBuildings \<equiv> 17"

abbreviation (input) ExtractByExpressionIndustries :: nat where "ExtractByExpressionIndustries \<equiv> 18"

abbreviation (input) FieldCalculator :: nat where "FieldCalculator \<equiv> 19"

abbreviation (input) FieldCalculatorHw :: nat where "FieldCalculatorHw \<equiv> 20"

abbreviation (input) FieldCalculatorHwDecreased :: nat where "FieldCalculatorHwDecreased \<equiv> 21"

abbreviation (input) FieldCalculatorHwwarming :: nat where "FieldCalculatorHwwarming \<equiv> 22"

abbreviation (input) FieldCalculatorIuhd :: nat where "FieldCalculatorIuhd \<equiv> 23"

abbreviation (input) FieldCalculatorPlanareafraction :: nat where "FieldCalculatorPlanareafraction \<equiv> 24"

abbreviation (input) FieldCalculatorReclassLandcovervector :: nat where "FieldCalculatorReclassLandcovervector \<equiv> 25"

abbreviation (input) FieldCalculatorRemoveNegativeHwwarm :: nat where "FieldCalculatorRemoveNegativeHwwarm \<equiv> 26"

abbreviation (input) FieldCalculatorRemoveNull :: nat where "FieldCalculatorRemoveNull \<equiv> 27"

abbreviation (input) FieldCalculatorVegcooling :: nat where "FieldCalculatorVegcooling \<equiv> 28"

abbreviation (input) FieldCalculatorVegplanareafraction :: nat where "FieldCalculatorVegplanareafraction \<equiv> 29"

abbreviation (input) FieldCalculatorWallareafraction :: nat where "FieldCalculatorWallareafraction \<equiv> 30"

abbreviation (input) FieldCalculatorWindSpeedTopo :: nat where "FieldCalculatorWindSpeedTopo \<equiv> 31"

abbreviation (input) HeatmapWMCAOviposition :: nat where "HeatmapWMCAOviposition \<equiv> 32"

abbreviation (input) MosaicRasterLayersLandCover :: nat where "MosaicRasterLayersLandCover \<equiv> 33"

abbreviation (input) MosaicRasterLayersLandCoverND :: nat where "MosaicRasterLayersLandCoverND \<equiv> 34"

abbreviation (input) MosaicRasterLayersLandUses :: nat where "MosaicRasterLayersLandUses \<equiv> 35"

abbreviation (input) MosaicRasterLayersMergeHeights :: nat where "MosaicRasterLayersMergeHeights \<equiv> 36"

abbreviation (input) ProximityRasterDistanceDistanceFromOcean :: nat where "ProximityRasterDistanceDistanceFromOcean \<equiv> 37"

abbreviation (input) ProximityRasterDistanceDistanceFromOceantemp :: nat where "ProximityRasterDistanceDistanceFromOceantemp \<equiv> 38"

abbreviation (input) RasterCalculatorCombineOceanHeightWind :: nat where "RasterCalculatorCombineOceanHeightWind \<equiv> 39"

abbreviation (input) RasterCalculatorGetVegetationFromNmd :: nat where "RasterCalculatorGetVegetationFromNmd \<equiv> 40"

abbreviation (input) RasterCalculatorGetVegetationHeights :: nat where "RasterCalculatorGetVegetationHeights \<equiv> 41"

abbreviation (input) RasterCalculatorLCLU :: nat where "RasterCalculatorLCLU \<equiv> 42"

abbreviation (input) RasterCalculatorLaifaicombo :: nat where "RasterCalculatorLaifaicombo \<equiv> 43"

abbreviation (input) RasterCalculatorOceanDistanceInKm :: nat where "RasterCalculatorOceanDistanceInKm \<equiv> 44"

abbreviation (input) RasterCalculatorSetsSlopes8ToNodata :: nat where "RasterCalculatorSetsSlopes8ToNodata \<equiv> 45"

abbreviation (input) RasterCalculatorWindreduxocean :: nat where "RasterCalculatorWindreduxocean \<equiv> 46"

abbreviation (input) RasterizeVectorToRasterFaibuild :: nat where "RasterizeVectorToRasterFaibuild \<equiv> 47"

abbreviation (input) RasterizeVectorToRasterFaiveg :: nat where "RasterizeVectorToRasterFaiveg \<equiv> 48"

abbreviation (input) RasterizeVectorToRasterGardens :: nat where "RasterizeVectorToRasterGardens \<equiv> 49"

abbreviation (input) RasterizeVectorToRasterIndustries :: nat where "RasterizeVectorToRasterIndustries \<equiv> 50"

abbreviation (input) RasterizeVectorToRasterLandcovervectorToRaster :: nat where "RasterizeVectorToRasterLandcovervectorToRaster \<equiv> 51"

abbreviation (input) RasterizeVectorToRasterUUHD :: nat where "RasterizeVectorToRasterUUHD \<equiv> 52"

abbreviation (input) RasterizeVectorToRasterVegpai :: nat where "RasterizeVectorToRasterVegpai \<equiv> 53"

abbreviation (input) RasterizeVectorToRasterWindPowerLaw :: nat where "RasterizeVectorToRasterWindPowerLaw \<equiv> 54"

abbreviation (input) ReclassifyByTableHeatmaphotspot :: nat where "ReclassifyByTableHeatmaphotspot \<equiv> 55"

abbreviation (input) ReclassifyByTableLai :: nat where "ReclassifyByTableLai \<equiv> 56"

abbreviation (input) ReclassifyByTableLaifaiSkaBliOutput :: nat where "ReclassifyByTableLaifaiSkaBliOutput \<equiv> 57"

abbreviation (input) ReclassifyByTableNmdgrund :: nat where "ReclassifyByTableNmdgrund \<equiv> 58"

abbreviation (input) ReclassifyByTableVegheights :: nat where "ReclassifyByTableVegheights \<equiv> 59"

abbreviation (input) ReclassifyByTableWindreduxocean :: nat where "ReclassifyByTableWindreduxocean \<equiv> 60"

abbreviation (input) ReclassifyByTableWindspeedheight :: nat where "ReclassifyByTableWindspeedheight \<equiv> 61"

abbreviation (input) ReclassifyValuesRangeReclassifiesSlopes8 :: nat where "ReclassifyValuesRangeReclassifiesSlopes8 \<equiv> 62"

abbreviation (input) ReclassifyValuesSimpleIUHD :: nat where "ReclassifyValuesSimpleIUHD \<equiv> 63"

abbreviation (input) ReclassifyValuesSimpleLandCover :: nat where "ReclassifyValuesSimpleLandCover \<equiv> 64"

abbreviation (input) ReclassifyValuesSimpleLandUse :: nat where "ReclassifyValuesSimpleLandUse \<equiv> 65"

abbreviation (input) ReclassifyValuesSingleLandcovervectorrasterNodataTo0 :: nat where "ReclassifyValuesSingleLandcovervectorrasterNodataTo0 \<equiv> 66"

abbreviation (input) ReclassifyValuesSingleObjekthojd0_5 :: nat where "ReclassifyValuesSingleObjekthojd0_5 \<equiv> 67"

abbreviation (input) ReclassifyValuesSingleObjekthojd5_45 :: nat where "ReclassifyValuesSingleObjekthojd5_45 \<equiv> 68"

abbreviation (input) ReclassifyValuesSingleReclass0To1Lai :: nat where "ReclassifyValuesSingleReclass0To1Lai \<equiv> 69"

abbreviation (input) ReclassifyValuesSingleReclass0To1Laifai :: nat where "ReclassifyValuesSingleReclass0To1Laifai \<equiv> 70"

abbreviation (input) ReclassifyValuesSingleReclass0To1Vegheight :: nat where "ReclassifyValuesSingleReclass0To1Vegheight \<equiv> 71"

abbreviation (input) ReclassifyValuesSingleRemoveNodataFaibuild :: nat where "ReclassifyValuesSingleRemoveNodataFaibuild \<equiv> 72"

abbreviation (input) ReclassifyValuesSingleRemoveNodataFaiveg :: nat where "ReclassifyValuesSingleRemoveNodataFaiveg \<equiv> 73"

abbreviation (input) ReclassifyValuesSingleRemoveNodataLai :: nat where "ReclassifyValuesSingleRemoveNodataLai \<equiv> 74"

abbreviation (input) ReclassifyValuesTableVeg_pai :: nat where "ReclassifyValuesTableVeg_pai \<equiv> 75"

abbreviation (input) SlopeOfRooftops :: nat where "SlopeOfRooftops \<equiv> 76"

abbreviation (input) SlopeOfRooftopstemp :: nat where "SlopeOfRooftopstemp \<equiv> 77"

abbreviation (input) UrbanGeometryWallHeightAndAspect :: nat where "UrbanGeometryWallHeightAndAspect \<equiv> 78"

abbreviation (input) UrbanMorphologyMorphometricCalculatorGridBuilding :: nat where "UrbanMorphologyMorphometricCalculatorGridBuilding \<equiv> 79"

abbreviation (input) UrbanMorphologyMorphometricCalculatorGridVegetation :: nat where "UrbanMorphologyMorphometricCalculatorGridVegetation \<equiv> 80"

abbreviation (input) WMCAOviposition :: nat where "WMCAOviposition \<equiv> 81"

abbreviation (input) WarpReprojectTestingAllSlopesTo10mRes :: nat where "WarpReprojectTestingAllSlopesTo10mRes \<equiv> 82"

abbreviation (input) ZonalStatistics :: nat where "ZonalStatistics \<equiv> 83"

abbreviation (input) ZonalStatisticsDemMean :: nat where "ZonalStatisticsDemMean \<equiv> 84"

datatype alg =
    Gdal_cliprasterbyextent
  | Gdal_cliprasterbymasklayer
  | Gdal_proximity
  | Gdal_rastercalculator
  | Gdal_rasterize
  | Gdal_slope
  | Gdal_warpreproject
  | Grass7_r_reclass
  | Native_buffer
  | Native_clip
  | Native_creategrid
  | Native_extractbyexpression
  | Native_fieldcalculator
  | Native_fillnodata
  | Native_reclassifybytable
  | Native_zonalstatistics
  | Native_zonalstatisticsfb
  | Qgis_exportaddgeometrycolumns
  | Umep_wall_height_aspect
  | Umep_morphometric_grid

primrec alg_name :: "alg \<Rightarrow> string" where
    "alg_name Gdal_cliprasterbyextent = ''gdal:cliprasterbyextent''"
  | "alg_name Gdal_cliprasterbymasklayer = ''gdal:cliprasterbymasklayer''"
  | "alg_name Gdal_proximity = ''gdal:proximity''"
  | "alg_name Gdal_rastercalculator = ''gdal:rastercalculator''"
  | "alg_name Gdal_rasterize = ''gdal:rasterize''"
  | "alg_name Gdal_slope = ''gdal:slope''"
  | "alg_name Gdal_warpreproject = ''gdal:warpreproject''"
  | "alg_name Grass7_r_reclass = ''grass7:r.reclass''"
  | "alg_name Native_buffer = ''native:buffer''"
  | "alg_name Native_clip = ''native:clip''"
  | "alg_name Native_creategrid = ''native:creategrid''"
  | "alg_name Native_extractbyexpression = ''native:extractbyexpression''"
  | "alg_name Native_fieldcalculator = ''native:fieldcalculator''"
  | "alg_name Native_fillnodata = ''native:fillnodata''"
  | "alg_name Native_reclassifybytable = ''native:reclassifybytable''"
  | "alg_name Native_zonalstatistics = ''native:zonalstatistics''"
  | "alg_name Native_zonalstatisticsfb = ''native:zonalstatisticsfb''"
  | "alg_name Qgis_exportaddgeometrycolumns = ''qgis:exportaddgeometrycolumns''"
  | "alg_name Umep_wall_height_aspect = ''umep:Urban Geometry: Wall Height and Aspect''"
  | "alg_name Umep_morphometric_grid = ''umep:Urban Morphology: Morphometric Calculator (Grid)''"

text \<open>The output names of the algorithms, the keys of the dictionary \<open>processing.run\<close> returns.\<close>

datatype field =
    OUTPUT
  | INPUT_VECTOR
  | grass_output
  | OUTPUT_HEIGHT
  | OUTPUT_ASPECT
  | OUTPUT_DIR
  | TARGET_OUT_GRID

primrec field_name :: "field \<Rightarrow> string" where
    "field_name OUTPUT = ''OUTPUT''"
  | "field_name INPUT_VECTOR = ''INPUT_VECTOR''"
  | "field_name grass_output = ''output''"
  | "field_name OUTPUT_HEIGHT = ''OUTPUT_HEIGHT''"
  | "field_name OUTPUT_ASPECT = ''OUTPUT_ASPECT''"
  | "field_name OUTPUT_DIR = ''OUTPUT_DIR''"
  | "field_name TARGET_OUT_GRID = ''TARGET_OUT_GRID''"

primrec alg_outputs :: "alg \<Rightarrow> field list" where
    "alg_outputs Gdal_cliprasterbyextent = [OUTPUT]"
  | "alg_outputs Gdal_cliprasterbymasklayer = [OUTPUT]"
  | "alg_outputs Gdal_proximity = [OUTPUT]"
  | "alg_outputs Gdal_rastercalculator = [OUTPUT]"
  | "alg_outputs Gdal_rasterize = [OUTPUT]"
  | "alg_outputs Gdal_slope = [OUTPUT]"
  | "alg_outputs Gdal_warpreproject = [OUTPUT]"
  | "alg_outputs Grass7_r_reclass = [grass_output]"
  | "alg_outputs Native_buffer = [OUTPUT]"
  | "alg_outputs Native_clip = [OUTPUT]"
  | "alg_outputs Native_creategrid = [OUTPUT]"
  | "alg_outputs Native_extractbyexpression = [OUTPUT]"
  | "alg_outputs Native_fieldcalculator = [OUTPUT]"
  | "alg_outputs Native_fillnodata = [OUTPUT]"
  | "alg_outputs Native_reclassifybytable = [OUTPUT]"
  | "alg_outputs Native_zonalstatistics = [INPUT_VECTOR]"
  | "alg_outputs Native_zonalstatisticsfb = [OUTPUT]"
  | "alg_outputs Qgis_exportaddgeometrycolumns = [OUTPUT]"
  | "alg_outputs Umep_wall_height_aspect = [OUTPUT_HEIGHT, OUTPUT_ASPECT]"
  | "alg_outputs Umep_morphometric_grid = [OUTPUT_DIR]"

section \<open>Operations on the dictionary\<close>

datatype op =
    Run nat alg nat
  | Assign nat "field list" nat
  | Read nat field nat

text \<open>The script's conditions: \<open>oceanDist == ''\<close> (line 172),
  \<open>not os.path.exists(datafolder + 'wallheight.tif')\<close> (line 218) and
  \<open>useoldheatmaps == 0\<close> (line 823).\<close>

datatype cond = OceanEmpty | WallheightMissing | NewHeatmaps

datatype stmt = Op op | Branch cond "op list" "op list"

subsection \<open>The dictionary with string keys\<close>

type_synonym outputs_str = "string \<Rightarrow> field list option"

fun exec_op_str :: "outputs_str \<Rightarrow> op \<Rightarrow> py_error + outputs_str" where
  "exec_op_str d (Run k a l) = Inr (d(key_names ! k \<mapsto> alg_outputs a))"
| "exec_op_str d (Assign k fs l) = Inr (d(key_names ! k \<mapsto> fs))"
| "exec_op_str d (Read k f l) =
     (case d (key_names ! k) of
        None \<Rightarrow> Inl (KeyError (key_names ! k))
      | Some fs \<Rightarrow> if f \<in> set fs then Inr d else Inl (KeyError (field_name f)))"

subsection \<open>The dictionary with interned keys\<close>

type_synonym outputs = "nat \<Rightarrow> field list option"

fun exec_op :: "outputs \<Rightarrow> op \<Rightarrow> py_error + outputs" where
  "exec_op d (Run k a l) = Inr (d(k \<mapsto> alg_outputs a))"
| "exec_op d (Assign k fs l) = Inr (d(k \<mapsto> fs))"
| "exec_op d (Read k f l) =
     (case d k of
        None \<Rightarrow> Inl (KeyError (key_names ! k))
      | Some fs \<Rightarrow> if f \<in> set fs then Inr d else Inl (KeyError (field_name f)))"

subsection \<open>Sequences and branches\<close>

text \<open>One run over the statements, for either dictionary: the operation is a parameter.\<close>

fun exec_ops :: "('d \<Rightarrow> op \<Rightarrow> py_error + 'd) \<Rightarrow> 'd \<Rightarrow> op list \<Rightarrow> py_error + 'd" where
  "exec_ops ex d [] = Inr d"
| "exec_ops ex d (o1 # os) = (case ex d o1 of Inl e \<Rightarrow> Inl e | Inr d' \<Rightarrow> exec_ops ex d' os)"

fun exec_stmts ::
  "('d \<Rightarrow> op \<Rightarrow> py_error + 'd) \<Rightarrow> (cond \<Rightarrow> bool) \<Rightarrow> 'd \<Rightarrow> stmt list \<Rightarrow> py_error + 'd" where
  "exec_stmts ex cfg d [] = Inr d"
| "exec_stmts ex cfg d (Op o1 # ss) =
     (case ex d o1 of Inl e \<Rightarrow> Inl e | Inr d' \<Rightarrow> exec_stmts ex cfg d' ss)"
| "exec_stmts ex cfg d (Branch c t e # ss) =
     (case exec_ops ex d (if cfg c then t else e) of
        Inl err \<Rightarrow> Inl err
      | Inr d' \<Rightarrow> exec_stmts ex cfg d' ss)"

section \<open>The script\<close>

text \<open>Lines 94--215: model start: clipping to the study area and the ocean distance.\<close>

definition script_setup :: "stmt list" where
  "script_setup = [
    Op (Run ClipLandcover Gdal_cliprasterbymasklayer 114),
    Op (Read ClipLandcover OUTPUT 116),
    Op (Run ClipManmade Gdal_cliprasterbyextent 128),
    Op (Run ClipPowerlines Gdal_cliprasterbyextent 132),
    Op (Run ClipGracing Gdal_cliprasterbyextent 136),
    Op (Run ClipDSM Gdal_cliprasterbyextent 140),
    Op (Run ClipDEM Gdal_cliprasterbyextent 144),
    Op (Run ClipCDSM Gdal_cliprasterbyextent 148),
    Op (Run ClipLAI Gdal_cliprasterbyextent 152),
    Op (Run ClipHeight0to5 Gdal_cliprasterbyextent 156),
    Op (Run ClipHeight5to45 Gdal_cliprasterbyextent 160),
    Branch OceanEmpty
      [Run ProximityRasterDistanceDistanceFromOceantemp Gdal_proximity 187,
       Read ProximityRasterDistanceDistanceFromOcean OUTPUT 189,
       Run ProximityRasterDistanceDistanceFromOcean Gdal_cliprasterbyextent 192]
      [Run ProximityRasterDistanceDistanceFromOcean Gdal_cliprasterbyextent 197]]"

text \<open>Lines 216--460: the IUHD model.\<close>

definition script_iuhd :: "stmt list" where
  "script_iuhd = [
    Branch WallheightMissing
      [Run UrbanGeometryWallHeightAndAspect Umep_wall_height_aspect 224]
      [Assign UrbanGeometryWallHeightAndAspect [OUTPUT_HEIGHT] 226],
    Op (Run CreateGrid Native_creategrid 239),
    Op (Run AddGeometryAttributes Qgis_exportaddgeometrycolumns 249),
    Op (Read UrbanGeometryWallHeightAndAspect OUTPUT_HEIGHT 255),
    Op (Read AddGeometryAttributes OUTPUT 256),
    Op (Run ZonalStatistics Native_zonalstatistics 260),
    Op (Read ZonalStatistics INPUT_VECTOR 270),
    Op (Run FieldCalculatorWallareafraction Native_fieldcalculator 274),
    Op (Read FieldCalculatorWallareafraction OUTPUT 281),
    Op (Run ZonalStatistics Native_zonalstatistics 285),
    Op (Run FieldCalculatorPlanareafraction Native_fieldcalculator 298),
    Op (Read FieldCalculatorPlanareafraction OUTPUT 307),
    Op (Run FieldCalculatorHw Native_fieldcalculator 310),
    Op (Read FieldCalculatorHw OUTPUT 319),
    Op (Run FieldCalculatorHwDecreased Native_fieldcalculator 322),
    Op (Read FieldCalculatorHwDecreased OUTPUT 329),
    Op (Run ZonalStatistics Native_zonalstatistics 333),
    Op (Run FieldCalculatorVegplanareafraction Native_fieldcalculator 346),
    Op (Read FieldCalculatorVegplanareafraction OUTPUT 356),
    Op (Run FieldCalculatorVegcooling Native_fieldcalculator 359),
    Op (Read FieldCalculatorVegcooling OUTPUT 369),
    Op (Run FieldCalculatorHwwarming Native_fieldcalculator 372),
    Op (Read FieldCalculatorHwwarming OUTPUT 382),
    Op (Run FieldCalculatorRemoveNull Native_fieldcalculator 385),
    Op (Read FieldCalculatorRemoveNull OUTPUT 395),
    Op (Run FieldCalculatorRemoveNegativeHwwarm Native_fieldcalculator 398),
    Op (Read FieldCalculatorRemoveNegativeHwwarm OUTPUT 408),
    Op (Run FieldCalculatorIuhd Native_fieldcalculator 411),
    Op (Read FieldCalculatorIuhd OUTPUT 423),
    Op (Run RasterizeVectorToRasterUUHD Gdal_rasterize 431),
    Op (Read RasterizeVectorToRasterUUHD OUTPUT 448),
    Op (Run ReclassifyValuesSimpleIUHD Native_reclassifybytable 457)]"

text \<open>Lines 461--798: the oviposition model.\<close>

definition script_ovi :: "stmt list" where
  "script_ovi = [
    Op (Run ClipLandUse Native_clip 469),
    Op (Read ClipLandUse OUTPUT 475),
    Op (Run ExtractByExpressionIndustries Native_extractbyexpression 478),
    Op (Run ClipBuildings Native_clip 486),
    Op (Read ClipBuildings OUTPUT 491),
    Op (Run ExtractByExpressionBuildings Native_extractbyexpression 494),
    Op (Read ExtractByExpressionBuildings OUTPUT 502),
    Op (Run Buffer Native_buffer 508),
    Op (Read ExtractByExpressionIndustries OUTPUT 520),
    Op (Run RasterizeVectorToRasterIndustries Gdal_rasterize 528),
    Op (Run SlopeOfRooftopstemp Gdal_slope 543),
    Op (Read SlopeOfRooftopstemp OUTPUT 558),
    Op (Run SlopeOfRooftops Gdal_rastercalculator 569),
    Op (Read SlopeOfRooftops OUTPUT 576),
    Op (Run WarpReprojectTestingAllSlopesTo10mRes Gdal_warpreproject 588),
    Op (Read WarpReprojectTestingAllSlopesTo10mRes OUTPUT 602),
    Op (Run RasterCalculatorSetsSlopes8ToNodata Gdal_rastercalculator 614),
    Op (Read Buffer OUTPUT 626),
    Op (Run RasterizeVectorToRasterGardens Gdal_rasterize 634),
    Op (Read RasterCalculatorSetsSlopes8ToNodata OUTPUT 640),
    Op (Run ReclassifyValuesRangeReclassifiesSlopes8 Grass7_r_reclass 649),
    Op (Read ClipGracing OUTPUT 654),
    Op (Read ClipManmade OUTPUT 656),
    Op (Read ClipPowerlines OUTPUT 658),
    Op (Read RasterizeVectorToRasterGardens OUTPUT 660),
    Op (Read RasterizeVectorToRasterIndustries OUTPUT 662),
    Op (Assign MosaicRasterLayersLandUses [TARGET_OUT_GRID] 667),
    Op (Read ClipLandcover OUTPUT 673),
    Op (Read ReclassifyValuesRangeReclassifiesSlopes8 grass_output 675),
    Op (Assign MosaicRasterLayersLandCover [TARGET_OUT_GRID] 680),
    Op (Read MosaicRasterLayersLandUses TARGET_OUT_GRID 687),
    Op (Run MosaicRasterLayersLandCoverND Native_fillnodata 690),
    Op (Read MosaicRasterLayersLandUses TARGET_OUT_GRID 693),
    Op (Read MosaicRasterLayersLandCover TARGET_OUT_GRID 730),
    Op (Run ReclassifyValuesSimpleLandCover Native_reclassifybytable 739),
    Op (Read MosaicRasterLayersLandCoverND OUTPUT 762),
    Op (Run ReclassifyValuesSimpleLandUse Native_reclassifybytable 771),
    Op (Read ReclassifyValuesSimpleLandUse OUTPUT 784),
    Op (Read ReclassifyValuesSimpleLandCover OUTPUT 785),
    Op (Run RasterCalculatorLCLU Gdal_rastercalculator 795)]"

text \<open>Lines 799--871: WMCA oviposition and IUHD, and the six heatmaps.\<close>

definition script_wmca_ovi :: "stmt list" where
  "script_wmca_ovi = [
    Op (Read RasterCalculatorLCLU OUTPUT 810),
    Op (Read ReclassifyValuesSimpleIUHD OUTPUT 811),
    Op (Run WMCAOviposition Gdal_rastercalculator 821),
    Branch NewHeatmaps
      [Read WMCAOviposition OUTPUT 825,
       Read WMCAOviposition OUTPUT 827,
       Read WMCAOviposition OUTPUT 829,
       Read WMCAOviposition OUTPUT 831,
       Read WMCAOviposition OUTPUT 833,
       Read WMCAOviposition OUTPUT 835]
      [],
    Op (Run HeatmapWMCAOviposition Gdal_rastercalculator 869)]"

text \<open>Lines 872--1185: the adult model, first part.\<close>

definition script_adult1 :: "stmt list" where
  "script_adult1 = [
    Op (Read ClipLandUse OUTPUT 881),
    Op (Run FieldCalculatorReclassLandcovervector Native_fieldcalculator 884),
    Op (Read CreateGrid OUTPUT 897),
    Op (Run UrbanMorphologyMorphometricCalculatorGridBuilding Umep_morphometric_grid 904),
    Op (Read CreateGrid OUTPUT 913),
    Op (Run FieldCalculator Native_fieldcalculator 916),
    Op (Read ClipLAI OUTPUT 923),
    Op (Run ReclassifyValuesSingleRemoveNodataLai Native_fillnodata 926),
    Op (Read ClipLandcover OUTPUT 959),
    Op (Run ReclassifyByTableNmdgrund Native_reclassifybytable 967),
    Op (Read FieldCalculatorReclassLandcovervector OUTPUT 979),
    Op (Run RasterizeVectorToRasterLandcovervectorToRaster Gdal_rasterize 987),
    Op (Read CreateGrid OUTPUT 993),
    Op (Run ZonalStatisticsDemMean Native_zonalstatisticsfb 999),
    Op (Read ClipHeight0to5 OUTPUT 1006),
    Op (Run ReclassifyValuesSingleObjekthojd0_5 Native_fillnodata 1009),
    Op (Read ZonalStatisticsDemMean OUTPUT 1019),
    Op (Run FieldCalculatorWindSpeedTopo Native_fieldcalculator 1022),
    Op (Read FieldCalculator OUTPUT 1034),
    Op (Run RasterizeVectorToRasterFaibuild Gdal_rasterize 1042),
    Op (Read CreateGrid OUTPUT 1056),
    Op (Run UrbanMorphologyMorphometricCalculatorGridVegetation Umep_morphometric_grid 1063),
    Op (Read CreateGrid OUTPUT 1074),
    Op (Run RasterizeVectorToRasterVegpai Gdal_rasterize 1082),
    Op (Read ClipHeight5to45 OUTPUT 1089),
    Op (Run ReclassifyValuesSingleObjekthojd5_45 Native_fillnodata 1092),
    Op (Read ReclassifyValuesSingleRemoveNodataLai OUTPUT 1107),
    Op (Run ReclassifyByTableLai Native_reclassifybytable 1115),
    Op (Read HeatmapWMCAOviposition OUTPUT 1133),
    Op (Run ReclassifyByTableHeatmaphotspot Native_reclassifybytable 1141),
    Op (Read ClipLandcover OUTPUT 1150),
    Op (Run RasterCalculatorGetVegetationFromNmd Gdal_rastercalculator 1157),
    Op (Read RasterizeVectorToRasterVegpai OUTPUT 1175),
    Op (Run ReclassifyValuesTableVeg_pai Native_reclassifybytable 1183)]"

text \<open>Lines 1186--1519: the adult model, second part.\<close>

definition script_adult2 :: "stmt list" where
  "script_adult2 = [
    Op (Read CreateGrid OUTPUT 1195),
    Op (Run RasterizeVectorToRasterFaiveg Gdal_rasterize 1203),
    Op (Read FieldCalculatorWindSpeedTopo OUTPUT 1215),
    Op (Run RasterizeVectorToRasterWindPowerLaw Gdal_rasterize 1223),
    Op (Read RasterizeVectorToRasterFaibuild OUTPUT 1230),
    Op (Run ReclassifyValuesSingleRemoveNodataFaibuild Native_fillnodata 1233),
    Op (Read RasterizeVectorToRasterLandcovervectorToRaster OUTPUT 1240),
    Op (Run ReclassifyValuesSingleLandcovervectorrasterNodataTo0 Native_fillnodata 1243),
    Op (Read ReclassifyValuesSingleObjekthojd0_5 OUTPUT 1249),
    Op (Read ReclassifyValuesSingleObjekthojd5_45 OUTPUT 1251),
    Op (Assign MosaicRasterLayersMergeHeights [TARGET_OUT_GRID] 1256),
    Op (Read RasterizeVectorToRasterWindPowerLaw OUTPUT 1273),
    Op (Run ReclassifyByTableWindspeedheight Native_reclassifybytable 1281),
    Op (Read RasterizeVectorToRasterFaiveg OUTPUT 1288),
    Op (Run ReclassifyValuesSingleRemoveNodataFaiveg Native_fillnodata 1291),
    Op (Read ReclassifyByTableLai OUTPUT 1300),
    Op (Run ReclassifyValuesSingleReclass0To1Lai Native_reclassifybytable 1308),
    Op (Read RasterCalculatorGetVegetationFromNmd OUTPUT 1321),
    Op (Read MosaicRasterLayersMergeHeights TARGET_OUT_GRID 1322),
    Op (Run RasterCalculatorGetVegetationHeights Gdal_rastercalculator 1332),
    Op (Read ProximityRasterDistanceDistanceFromOcean OUTPUT 1345),
    Op (Run RasterCalculatorOceanDistanceInKm Gdal_rastercalculator 1356),
    Op (Read RasterCalculatorGetVegetationHeights OUTPUT 1369),
    Op (Run ReclassifyByTableVegheights Native_reclassifybytable 1377),
    Op (Read ReclassifyValuesSingleReclass0To1Lai OUTPUT 1388),
    Op (Read ReclassifyValuesSingleRemoveNodataFaiveg OUTPUT 1389),
    Op (Read ReclassifyValuesSingleRemoveNodataFaibuild OUTPUT 1390),
    Op (Run RasterCalculatorLaifaicombo Gdal_rastercalculator 1397),
    Op (Read ReclassifyByTableVegheights OUTPUT 1406),
    Op (Run ReclassifyValuesSingleReclass0To1Vegheight Native_reclassifybytable 1414),
    Op (Read RasterCalculatorOceanDistanceInKm OUTPUT 1423),
    Op (Run RasterCalculatorWindreduxocean Gdal_rastercalculator 1430),
    Op (Read RasterCalculatorLaifaicombo OUTPUT 1446),
    Op (Run ReclassifyByTableLaifaiSkaBliOutput Native_reclassifybytable 1454),
    Op (Read RasterCalculatorWindreduxocean OUTPUT 1473),
    Op (Run ReclassifyByTableWindreduxocean Native_reclassifybytable 1481),
    Op (Read ReclassifyByTableLaifaiSkaBliOutput OUTPUT 1490),
    Op (Run ReclassifyValuesSingleReclass0To1Laifai Native_reclassifybytable 1498),
    Op (Read ReclassifyByTableWindspeedheight OUTPUT 1508),
    Op (Read ReclassifyByTableWindreduxocean OUTPUT 1509),
    Op (Run RasterCalculatorCombineOceanHeightWind Gdal_rastercalculator 1516)]"

text \<open>Lines 1520--1577: WMCA adult and heatmap.\<close>

definition script_wmca_adult :: "stmt list" where
  "script_wmca_adult = [
    Op (Read ReclassifyValuesSingleReclass0To1Lai OUTPUT 1523),
    Op (Read ReclassifyByTableHeatmaphotspot OUTPUT 1524),
    Op (Read ReclassifyValuesSingleLandcovervectorrasterNodataTo0 OUTPUT 1525),
    Op (Read RasterCalculatorCombineOceanHeightWind OUTPUT 1526),
    Op (Read ReclassifyValuesTableVeg_pai OUTPUT 1527),
    Op (Read ReclassifyValuesSingleReclass0To1Vegheight OUTPUT 1528),
    Op (Run AdultsMCA1 Gdal_rastercalculator 1542),
    Op (Read ReclassifyValuesSingleReclass0To1Laifai OUTPUT 1545),
    Op (Read ReclassifyByTableNmdgrund OUTPUT 1546),
    Op (Read AdultsMCA1 OUTPUT 1547),
    Op (Run AdultsMCA2 Gdal_rastercalculator 1564)]"


definition script :: "stmt list" where
  "script = script_setup @ script_iuhd @ script_ovi @ script_wmca_ovi @ script_adult1 @ script_adult2 @ script_wmca_adult"

definition run_script_str :: "(cond \<Rightarrow> bool) \<Rightarrow> py_error + outputs_str" where
  "run_script_str cfg = exec_stmts exec_op_str cfg Map.empty script"

definition run_script :: "(cond \<Rightarrow> bool) \<Rightarrow> py_error + outputs" where
  "run_script cfg = exec_stmts exec_op cfg Map.empty script"

subsection \<open>From interned keys back to strings\<close>

fun index_of :: "string list \<Rightarrow> string \<Rightarrow> nat option" where
  "index_of [] s = None"
| "index_of (x # xs) s = (if x = s then Some 0 else map_option Suc (index_of xs s))"

definition lift_outputs :: "outputs \<Rightarrow> outputs_str" where
  "lift_outputs d s = (case index_of key_names s of None \<Rightarrow> None | Some k \<Rightarrow> d k)"

primrec op_key :: "op \<Rightarrow> nat" where
  "op_key (Run k a l) = k"
| "op_key (Assign k fs l) = k"
| "op_key (Read k f l) = k"

primrec stmt_ops :: "stmt \<Rightarrow> op list" where
  "stmt_ops (Op o1) = [o1]"
| "stmt_ops (Branch c t e) = t @ e"

section \<open>A static check of the dictionary accesses\<close>

text \<open>
  A type check of the statements in the style of definite initialisation: an environment
  records, for each key, the fields every run is sure to have stored under it.  A read
  checks that its key and field are sure; a branch whose condition is known is checked on
  that side, a branch whose condition is unknown on both sides, keeping what both sides
  are sure of (\<open>env_meet\<close>).  The conditions are known through \<open>A\<close>: \<open>Some b\<close> for a
  condition fixed to \<open>b\<close>, \<open>None\<close> for one left open.
\<close>

type_synonym env = "nat \<Rightarrow> field list option"

fun check_op :: "env \<Rightarrow> op \<Rightarrow> env option" where
  "check_op G (Run k a l) = Some (G(k \<mapsto> alg_outputs a))"
| "check_op G (Assign k fs l) = Some (G(k \<mapsto> fs))"
| "check_op G (Read k f l) = (case G k of Some fs \<Rightarrow> if f \<in> set fs then Some G else None | None \<Rightarrow> None)"

fun check_ops :: "env \<Rightarrow> op list \<Rightarrow> env option" where
  "check_ops G [] = Some G"
| "check_ops G (o1 # os) = (case check_op G o1 of None \<Rightarrow> None | Some G' \<Rightarrow> check_ops G' os)"

definition env_meet :: "env \<Rightarrow> env \<Rightarrow> env" where
  "env_meet G1 G2 k =
     (case (G1 k, G2 k) of (Some a, Some b) \<Rightarrow> Some (filter (\<lambda>f. f \<in> set b) a) | _ \<Rightarrow> None)"

definition check_branch ::
  "(cond \<Rightarrow> bool option) \<Rightarrow> env \<Rightarrow> cond \<Rightarrow> op list \<Rightarrow> op list \<Rightarrow> env option" where
  "check_branch A G c t e =
     (case A c of
        Some b \<Rightarrow> check_ops G (if b then t else e)
      | None \<Rightarrow> (case (check_ops G t, check_ops G e) of
                   (Some G1, Some G2) \<Rightarrow> Some (env_meet G1 G2)
                 | _ \<Rightarrow> None))"

fun check_stmts :: "(cond \<Rightarrow> bool option) \<Rightarrow> env \<Rightarrow> stmt list \<Rightarrow> env option" where
  "check_stmts A G [] = Some G"
| "check_stmts A G (Op o1 # ss) = (case check_op G o1 of None \<Rightarrow> None | Some G' \<Rightarrow> check_stmts A G' ss)"
| "check_stmts A G (Branch c t e # ss) =
     (case check_branch A G c t e of None \<Rightarrow> None | Some G' \<Rightarrow> check_stmts A G' ss)"

text \<open>A dictionary holds at least what an environment is sure of.\<close>

definition env_le :: "env \<Rightarrow> outputs \<Rightarrow> bool" where
  "env_le G d \<longleftrightarrow>
     (\<forall>k. case G k of None \<Rightarrow> True | Some fs \<Rightarrow> (case d k of None \<Rightarrow> False | Some fs' \<Rightarrow> set fs \<subseteq> set fs'))"

text \<open>A configuration agrees with what \<open>A\<close> fixes.\<close>

definition consistent :: "(cond \<Rightarrow> bool option) \<Rightarrow> (cond \<Rightarrow> bool) \<Rightarrow> bool" where
  "consistent A cfg \<longleftrightarrow>
     list_all (\<lambda>c. case A c of None \<Rightarrow> True | Some b \<Rightarrow> cfg c = b) [OceanEmpty, WallheightMissing, NewHeatmaps]"

text \<open>The script's setting: the ocean distance fixed, the other two conditions open.\<close>

definition ocean_known :: "bool \<Rightarrow> cond \<Rightarrow> bool option" where
  "ocean_known b c = (if c = OceanEmpty then Some b else None)"

section \<open>Lemmas\<close>

subsection \<open>Running a script in pieces\<close>

lemma exec_ops_append:
  "exec_ops ex d (xs @ ys) = (case exec_ops ex d xs of Inl e \<Rightarrow> Inl e | Inr d' \<Rightarrow> exec_ops ex d' ys)"
  by (induction ex d xs rule: exec_ops.induct) (auto split: sum.split)

lemma exec_stmts_append:
  "exec_stmts ex cfg d (xs @ ys) =
     (case exec_stmts ex cfg d xs of Inl e \<Rightarrow> Inl e | Inr d' \<Rightarrow> exec_stmts ex cfg d' ys)"
  by (induction ex cfg d xs rule: exec_stmts.induct) (auto split: sum.split)

lemmas script_sections = script_setup_def script_iuhd_def script_ovi_def script_wmca_ovi_def
  script_adult1_def script_adult2_def script_wmca_adult_def

subsection \<open>Interned and string keys agree\<close>

lemma index_of_Some: "index_of xs s = Some k \<Longrightarrow> k < length xs \<and> xs ! k = s"
  by (induction xs arbitrary: k) (auto split: if_splits)

lemma index_of_nth: "distinct xs \<Longrightarrow> k < length xs \<Longrightarrow> index_of xs (xs ! k) = Some k"
proof (induction xs arbitrary: k)
  case (Cons x xs)
  then show ?case by (cases k) (auto simp: nth_mem)
qed simp

lemma key_names_distinct: "distinct key_names"
proof -
  have tr: "transp ((<) :: string \<Rightarrow> string \<Rightarrow> bool)" by (rule transpI) (rule less_trans)
  have "sorted_wrt (<) key_names"
    unfolding key_names_def by (simp del: sorted_wrt.simps add: sorted_wrt1 sorted_wrt2 [OF tr])
  then show ?thesis using strict_sorted_iff by blast
qed

lemma lift_outputs_key: "k < length key_names \<Longrightarrow> lift_outputs d (key_names ! k) = d k"
  by (simp add: lift_outputs_def index_of_nth key_names_distinct)

lemma lift_outputs_name: "k < length key_names \<Longrightarrow> key_names ! k = s \<Longrightarrow> lift_outputs d s = d k"
  using lift_outputs_key by blast

lemma lift_outputs_upd:
  "k < length key_names \<Longrightarrow> lift_outputs (d(k \<mapsto> v)) = (lift_outputs d)(key_names ! k \<mapsto> v)"
proof
  fix s assume k: "k < length key_names"
  show "lift_outputs (d(k \<mapsto> v)) s = ((lift_outputs d)(key_names ! k \<mapsto> v)) s"
  proof (cases "index_of key_names s")
    case (Some j)
    with index_of_Some [OF this] k key_names_distinct show ?thesis
      by (auto simp: lift_outputs_def nth_eq_iff_index_eq)
  next
    case None
    with k have "s \<noteq> key_names ! k" by (auto simp: index_of_nth key_names_distinct)
    with None show ?thesis by (simp add: lift_outputs_def)
  qed
qed

lemma exec_op_lift:
  "op_key o1 < length key_names \<Longrightarrow>
   exec_op_str (lift_outputs d) o1 = map_sum id lift_outputs (exec_op d o1)"
  by (cases o1) (auto simp: lift_outputs_key lift_outputs_upd split: option.split)

lemma exec_ops_lift:
  "list_all (\<lambda>o1. op_key o1 < length key_names) os \<Longrightarrow>
   exec_ops exec_op_str (lift_outputs d) os = map_sum id lift_outputs (exec_ops exec_op d os)"
proof (induction os arbitrary: d)
  case (Cons o1 os)
  then show ?case by (cases "exec_op d o1") (simp_all add: exec_op_lift)
qed simp

lemma exec_stmts_lift:
  "list_all (\<lambda>s. list_all (\<lambda>o1. op_key o1 < length key_names) (stmt_ops s)) ss \<Longrightarrow>
   exec_stmts exec_op_str cfg (lift_outputs d) ss = map_sum id lift_outputs (exec_stmts exec_op cfg d ss)"
proof (induction ss arbitrary: d)
  case (Cons s ss)
  show ?case
  proof (cases s)
    case (Op o1)
    with Cons show ?thesis by (cases "exec_op d o1") (simp_all add: exec_op_lift)
  next
    case (Branch c t e)
    with Cons.prems have "list_all (\<lambda>o1. op_key o1 < length key_names) (if cfg c then t else e)"
      by simp
    from exec_ops_lift [OF this, of d] Branch Cons show ?thesis
      by (cases "exec_ops exec_op d (if cfg c then t else e)") simp_all
  qed
qed simp

lemma script_keys: "list_all (\<lambda>s. list_all (\<lambda>o1. op_key o1 < length key_names) (stmt_ops s)) script"
  by (simp add: script_def script_sections key_names_def)

lemma lift_outputs_empty: "lift_outputs Map.empty = Map.empty"
  by (simp add: lift_outputs_def fun_eq_iff split: option.split)

subsection \<open>Running the script\<close>

lemma run_script_ok:
  assumes "\<not> cfg OceanEmpty"
  shows "\<exists>d. run_script cfg = Inr d \<and>
           d ReclassifyValuesSimpleIUHD = Some [OUTPUT] \<and> d WMCAOviposition = Some [OUTPUT] \<and>
           d HeatmapWMCAOviposition = Some [OUTPUT] \<and> d AdultsMCA2 = Some [OUTPUT]"
  using assms
  unfolding run_script_def script_def exec_stmts_append
  by (cases "cfg WallheightMissing"; cases "cfg NewHeatmaps") (simp_all add: script_sections)

lemma run_script_ocean:
  "cfg OceanEmpty \<Longrightarrow>
   run_script cfg = Inl (KeyError ''ProximityRasterDistanceDistanceFromOcean'')"
  unfolding run_script_def script_def exec_stmts_append
  by (simp add: script_sections key_names_def)

lemma run_script_str_lift: "run_script_str cfg = map_sum id lift_outputs (run_script cfg)"
  using exec_stmts_lift [OF script_keys, of cfg "Map.empty"]
  by (simp add: run_script_str_def run_script_def lift_outputs_empty)

subsection \<open>Soundness of the static check\<close>

lemma env_le_upd:
  assumes "env_le G d"
  shows "env_le (G(k \<mapsto> fs)) (d(k \<mapsto> fs))"
  unfolding env_le_def
proof
  fix k'
  show "case (G(k \<mapsto> fs)) k' of None \<Rightarrow> True
          | Some xs \<Rightarrow> (case (d(k \<mapsto> fs)) k' of None \<Rightarrow> False | Some ys \<Rightarrow> set xs \<subseteq> set ys)"
    using assms [unfolded env_le_def, rule_format, of k'] by (cases "k' = k") (auto split: option.splits)
qed

lemma env_le_read:
  "env_le G d \<Longrightarrow> G k = Some fs \<Longrightarrow> f \<in> set fs \<Longrightarrow> \<exists>fs'. d k = Some fs' \<and> f \<in> set fs'"
  unfolding env_le_def by (erule allE [of _ k]) (auto split: option.splits)

lemma env_le_meet: "env_le G1 d \<Longrightarrow> env_le (env_meet G1 G2) d"
  unfolding env_le_def env_meet_def
  by (force split: option.splits)

lemma env_meet_commute_le: "env_le G2 d \<Longrightarrow> env_le (env_meet G1 G2) d"
  unfolding env_le_def env_meet_def
  by (force split: option.splits)

lemma check_op_sound:
  "check_op G o1 = Some G' \<Longrightarrow> env_le G d \<Longrightarrow> \<exists>d'. exec_op d o1 = Inr d' \<and> env_le G' d'"
  by (cases o1) (auto simp: env_le_upd dest: env_le_read split: option.splits if_splits)

lemma check_ops_sound:
  "check_ops G os = Some G' \<Longrightarrow> env_le G d \<Longrightarrow> \<exists>d'. exec_ops exec_op d os = Inr d' \<and> env_le G' d'"
proof (induction os arbitrary: G d)
  case Nil
  then show ?case by simp
next
  case (Cons o1 os)
  then obtain G1 where g1: "check_op G o1 = Some G1" and rest: "check_ops G1 os = Some G'"
    by (auto split: option.splits)
  from check_op_sound [OF g1 Cons.prems(2)] obtain d1 where "exec_op d o1 = Inr d1" "env_le G1 d1" by blast
  with Cons.IH [OF rest] show ?case by simp
qed

lemma consistent_iff: "consistent A cfg \<longleftrightarrow> (\<forall>c b. A c = Some b \<longrightarrow> cfg c = b)"
proof -
  have "(\<forall>c. P c) \<longleftrightarrow> P OceanEmpty \<and> P WallheightMissing \<and> P NewHeatmaps" for P
    by (metis cond.exhaust)
  then show ?thesis by (auto simp: consistent_def split: option.splits)
qed

lemma check_branch_sound:
  assumes "check_branch A G c t e = Some G'"
    and "env_le G d" "consistent A cfg"
  shows "\<exists>d'. exec_ops exec_op d (if cfg c then t else e) = Inr d' \<and> env_le G' d'"
proof (cases "A c")
  case None
  with assms(1) [unfolded check_branch_def] obtain G1 G2 where t: "check_ops G t = Some G1" and e: "check_ops G e = Some G2"
    and G': "G' = env_meet G1 G2" by (auto split: option.splits)
  show ?thesis
  proof (cases "cfg c")
    case True
    with check_ops_sound [OF t assms(2)] G' env_le_meet show ?thesis by auto
  next
    case False
    with check_ops_sound [OF e assms(2)] G' env_meet_commute_le show ?thesis by auto
  qed
next
  case (Some b)
  with assms(3) have "cfg c = b" by (simp add: consistent_iff)
  with Some assms(1) check_ops_sound [OF _ assms(2)] show ?thesis by (simp add: check_branch_def)
qed

lemma check_stmts_sound_aux:
  "check_stmts A G ss = Some G' \<Longrightarrow> env_le G d \<Longrightarrow> consistent A cfg \<Longrightarrow>
   \<exists>d'. exec_stmts exec_op cfg d ss = Inr d' \<and> env_le G' d'"
proof (induction A G ss arbitrary: d rule: check_stmts.induct)
  case (1 A G)
  then show ?case by simp
next
  case (2 A G o1 ss)
  then obtain G1 where g1: "check_op G o1 = Some G1" and rest: "check_stmts A G1 ss = Some G'"
    by (auto split: option.splits)
  from check_op_sound [OF g1 "2.prems"(2)] obtain d1 where "exec_op d o1 = Inr d1" "env_le G1 d1" by blast
  with "2.IH" [OF g1 rest _ "2.prems"(3)] show ?case by simp
next
  case (3 A G c t e ss)
  then obtain G1 where b: "check_branch A G c t e = Some G1"
    and rest: "check_stmts A G1 ss = Some G'"
    by (auto split: option.splits)
  from check_branch_sound [OF b "3.prems"(2,3)] obtain d1
    where "exec_ops exec_op d (if cfg c then t else e) = Inr d1" "env_le G1 d1" by blast
  with "3.IH" [OF b rest _ "3.prems"(3)] show ?case by simp
qed

lemma env_le_empty [simp]: "env_le Map.empty d"
  by (simp add: env_le_def)

lemma script_check_ocean_empty:
  "check_stmts (ocean_known True) Map.empty script = None"
  unfolding script_def
  by (simp add: script_sections ocean_known_def check_branch_def)

lemma script_check_ocean:
  "\<exists>G. check_stmts (ocean_known False) Map.empty script = Some G \<and>
       G ReclassifyValuesSimpleIUHD = Some [OUTPUT] \<and> G WMCAOviposition = Some [OUTPUT] \<and>
       G HeatmapWMCAOviposition = Some [OUTPUT] \<and> G AdultsMCA2 = Some [OUTPUT]"
  unfolding script_def
  by (simp add: script_sections ocean_known_def env_meet_def check_branch_def)

section \<open>Properties\<close>

text \<open>the dictionary with interned keys behaves as the script's dictionary of string
  keys: the same error, or the same results under the key names.\<close>

theorem pipeline_interning: "run_script_str cfg = map_sum id lift_outputs (run_script cfg)"
  by (rule run_script_str_lift)

text \<open>C27: with a precomputed ocean distance (\<open>oceanDist\<close> not empty, as the script ships),
  whether or not the wall-height raster exists and whether or not the heatmaps are
  recomputed, every key and field the script reads from \<open>outputs\<close> was stored before, so
  no \<open>KeyError\<close> is raised, and the four final artifacts are stored: the reclassified
  IUHD, the WMCA oviposition composite, the oviposition heatmap and the adult composite.\<close>

theorem pipeline_completes:
  assumes "\<not> cfg OceanEmpty"
  shows "\<exists>d. run_script_str cfg = Inr d \<and>
           d ''ReclassifyValuesSimpleIUHD'' = Some [OUTPUT] \<and> d ''WMCAOviposition'' = Some [OUTPUT] \<and>
           d ''HeatmapWMCAOviposition'' = Some [OUTPUT] \<and> d ''AdultsMCA2'' = Some [OUTPUT]"
proof -
  obtain d where d: "run_script cfg = Inr d"
      "d ReclassifyValuesSimpleIUHD = Some [OUTPUT]" "d WMCAOviposition = Some [OUTPUT]"
      "d HeatmapWMCAOviposition = Some [OUTPUT]" "d AdultsMCA2 = Some [OUTPUT]"
    using run_script_ok [of cfg, OF assms] by blast
  have "lift_outputs d ''ReclassifyValuesSimpleIUHD'' = d ReclassifyValuesSimpleIUHD"
      "lift_outputs d ''WMCAOviposition'' = d WMCAOviposition"
      "lift_outputs d ''HeatmapWMCAOviposition'' = d HeatmapWMCAOviposition"
      "lift_outputs d ''AdultsMCA2'' = d AdultsMCA2"
    by (rule lift_outputs_name; simp add: key_names_def)+
  with d show ?thesis by (simp add: run_script_str_lift)
qed

text \<open>C26: with \<open>oceanDist = ''\<close> the script computes the proximity raster under the key
  \<open>ProximityRasterDistanceDistanceFromOceantemp\<close> (line 187) but then reads
  \<open>outputs['ProximityRasterDistanceDistanceFromOcean']\<close> (line 189), which nothing has
  stored yet: the run stops with \<open>KeyError\<close>.\<close>

theorem pipeline_ocean_keyerror:
  assumes "cfg OceanEmpty"
  shows "run_script_str cfg = Inl (KeyError ''ProximityRasterDistanceDistanceFromOcean'')"
  using run_script_ocean [of cfg, OF assms] by (simp add: run_script_str_lift)

text \<open>the static check is sound for the script: if the script passes it, then in
  every configuration that agrees with the conditions the check fixed, the script runs
  without \<open>KeyError\<close> and its dictionary holds at least what the check ends with.\<close>

theorem check_script_sound:
  assumes "check_stmts A Map.empty script = Some G" "consistent A cfg"
  shows "\<exists>d. run_script cfg = Inr d \<and> env_le G d"
  using check_stmts_sound_aux [OF assms(1) env_le_empty assms(2)] by (simp add: run_script_def)

text \<open>the script passes the static check when the ocean distance is given, with the
  other two conditions left open, and its environment then holds the four final artifacts;
  with \<open>oceanDist = ''\<close> the check fails.\<close>

theorem pipeline_typed:
  "(\<exists>G. check_stmts (ocean_known False) Map.empty script = Some G \<and>
        G ReclassifyValuesSimpleIUHD = Some [OUTPUT] \<and> G WMCAOviposition = Some [OUTPUT] \<and>
        G HeatmapWMCAOviposition = Some [OUTPUT] \<and> G AdultsMCA2 = Some [OUTPUT]) \<and>
   check_stmts (ocean_known True) Map.empty script = None"
  using script_check_ocean script_check_ocean_empty by blast

subsection \<open>Witnesses\<close>

theorem pipeline_completes_witness:
  "\<exists>d. run_script_str (\<lambda>c. c = NewHeatmaps) = Inr d \<and>
       d ''ReclassifyValuesSimpleIUHD'' = Some [OUTPUT] \<and> d ''WMCAOviposition'' = Some [OUTPUT] \<and>
       d ''HeatmapWMCAOviposition'' = Some [OUTPUT] \<and> d ''AdultsMCA2'' = Some [OUTPUT]"
  using pipeline_completes [of "\<lambda>c. c = NewHeatmaps"] by simp

theorem pipeline_ocean_keyerror_witness:
  "run_script_str (\<lambda>_. True) = Inl (KeyError ''ProximityRasterDistanceDistanceFromOcean'')"
  using pipeline_ocean_keyerror [of "\<lambda>_. True"] by simp

theorem check_script_sound_witness:
  "check_stmts (ocean_known False) Map.empty script =
     Some (the (check_stmts (ocean_known False) Map.empty script)) \<and>
   consistent (ocean_known False) (\<lambda>c. c = NewHeatmaps) \<and>
   (\<exists>d. run_script (\<lambda>c. c = NewHeatmaps) = Inr d \<and>
        env_le (the (check_stmts (ocean_known False) Map.empty script)) d)"
proof -
  obtain G where G: "check_stmts (ocean_known False) Map.empty script = Some G"
    using script_check_ocean by blast
  have c: "consistent (ocean_known False) (\<lambda>c. c = NewHeatmaps)"
    by (simp add: consistent_def ocean_known_def)
  show ?thesis using check_script_sound [OF G c] G c by simp
qed

end
