(* ===== verification/Settings.thy ===== *)
theory Settings
  imports Pipeline
begin

text \<open>
  The settings block at the top of the script (\<open>src/MyggmodellTRANSAFE_Uppsala.py\<close>
  lines 66--91) as a record of the four settings the module body tests or uses, with the
  values the script ships with, and the three \<open>if\<close> conditions of theory \<open>Pipeline\<close>
  computed from them (lines 172, 218 and 823).  Whether \<open>wallheight.tif\<close> exists in the
  data folder is the file system's, an argument.  The property is the end-to-end one for
  the shipped configuration: the script runs to the end with its four artifacts, whether
  or not the wall heights were computed before, and the documented alternative
  \<open>oceanDist = ''\<close> stops it.
\<close>

section \<open>Settings\<close>

record settings =
  oceanDist :: string
  useoldheatmaps :: int
  demOffset :: real
  manmadeAdditions :: "string option"

definition datafolder :: string where
  "datafolder = ''D:/TRANSAFE/Uppsala/''"

text \<open>\<open>manmadeAdditions = None\<close> in Python is \<open>None\<close> here.\<close>

definition uppsala_settings :: settings where
  "uppsala_settings =
     \<lparr>oceanDist = ''G:/TRANSAFEDATA/distanceToOcean_v2.tif'', useoldheatmaps = 0, demOffset = 0.0,
      manmadeAdditions = Some (datafolder @ ''InData/TillaggUppsala.shp'')\<rparr>"

text \<open>The conditions: \<open>if oceanDist == ''\<close> (line 172), \<open>if not
  os.path.exists(datafolder + 'wallheight.tif')\<close> (line 218) and \<open>if useoldheatmaps == 0\<close>
  (line 823).\<close>

definition ocean_dist_empty :: "settings \<Rightarrow> bool" where
  "ocean_dist_empty s \<longleftrightarrow> oceanDist s = ''''"

definition wallheight_missing :: "bool \<Rightarrow> bool" where
  "wallheight_missing wallheight_exists \<longleftrightarrow> \<not> wallheight_exists"

definition new_heatmaps :: "settings \<Rightarrow> bool" where
  "new_heatmaps s \<longleftrightarrow> useoldheatmaps s = 0"

fun script_cond :: "settings \<Rightarrow> bool \<Rightarrow> cond \<Rightarrow> bool" where
  "script_cond s wallheight_exists OceanEmpty = ocean_dist_empty s"
| "script_cond s wallheight_exists WallheightMissing = wallheight_missing wallheight_exists"
| "script_cond s wallheight_exists NewHeatmaps = new_heatmaps s"

section \<open>Properties\<close>

text \<open>the shipped configuration: with the script's own settings, whether or not
  \<open>wallheight.tif\<close> exists, the module body runs to the end and stores the four final
  artifacts (the heatmaps computed anew); with \<open>oceanDist\<close> set to \<open>''\<close>, as its comment
  suggests when no distance raster exists, it stops with \<open>KeyError\<close>.\<close>

theorem configured_script_completes:
  "(\<exists>d. run_script (script_cond uppsala_settings w) = Inr d \<and>
        d ReclassifyValuesSimpleIUHD = Some [OUTPUT] \<and> d WMCAOviposition = Some [OUTPUT] \<and>
        d HeatmapWMCAOviposition = Some [OUTPUT] \<and> d AdultsMCA2 = Some [OUTPUT]) \<and>
   script_cond uppsala_settings w NewHeatmaps \<and>
   run_script (script_cond (uppsala_settings\<lparr>oceanDist := ''''\<rparr>) w) =
     Inl (KeyError ''ProximityRasterDistanceDistanceFromOcean'')"
proof -
  have "\<not> script_cond uppsala_settings w OceanEmpty" by (simp add: uppsala_settings_def ocean_dist_empty_def new_heatmaps_def)
  then have "\<exists>d. run_script (script_cond uppsala_settings w) = Inr d \<and>
        d ReclassifyValuesSimpleIUHD = Some [OUTPUT] \<and> d WMCAOviposition = Some [OUTPUT] \<and>
        d HeatmapWMCAOviposition = Some [OUTPUT] \<and> d AdultsMCA2 = Some [OUTPUT]"
    by (rule run_script_ok)
  moreover have "run_script (script_cond (uppsala_settings\<lparr>oceanDist := ''''\<rparr>) w) =
      Inl (KeyError ''ProximityRasterDistanceDistanceFromOcean'')"
    by (rule run_script_ocean) (simp add: ocean_dist_empty_def)
  ultimately show ?thesis by (simp add: uppsala_settings_def ocean_dist_empty_def new_heatmaps_def)
qed

end
