(* ===== verification/Spec2Isabelle.thy ===== *)
theory Spec2Isabelle
  imports Adult FieldCalc Settings
begin

text \<open>
  \<^bold>\<open>A verification library for the TRANSAFE mosquito-risk model
  (\<open>src/MyggmodellTRANSAFE_Uppsala.py\<close>, \<open>src/heatmappart.py\<close>).\<close>

  \<^bold>\<open>The program.\<close> One Python script drives QGIS, GDAL and GRASS processing
  algorithms through a shared dictionary \<open>outputs\<close> of named intermediate results.  It
  clips every input to the window of the clipped land cover (GridAligner), computes
  building and vegetation masks with numpy, and then builds four models in a fixed order:
  the IUHD urban-heat raster (vector field calculations on a 100 m grid, rasterised and
  reclassified into ten tiers), the oviposition composite (reclassified land cover and
  land use, combined with IUHD by a weighted raster-calculator formula), the oviposition
  hotspot heatmap (\<open>heatmappart\<close> run for the six value bands and averaged), and the adult
  habitat composite (two weighted overlays of reclassified layers).  The numeric core is
  four kinds of operation, applied dozens of times: reclassification by a table of
  ranges, cell-wise raster algebra, mosaicking by cell-wise maximum, and filling
  no-data.

  \<^bold>\<open>The library.\<close>
  \<^item> \<open>Prelude\<close>: the Python errors (\<open>py_error\<close>), grids as lists of rows
    (\<open>'a grid\<close>), the cell-wise \<open>gmap\<close> and \<open>gzip\<close>, rectangular shape
    (\<open>rect\<close>) and the cell-access lemmas (collection \<open>grid_simps\<close>).
  \<^item> \<open>Raster\<close>: a GDAL band as a record (\<open>raster\<close>: cells, no-data sentinel,
    geotransform); the GridAligner window \<open>projwin_of\<close> (script lines 116--123); the
    numpy masks \<open>build_height\<close>, \<open>build_bool\<close>, \<open>veg_bool\<close> (lines 202--213).
    Lemmas: the window spans exactly the reference grid, is non-empty for a non-empty
    north-up reference and reproduces its size at its resolution; a cell is a building
    exactly when it stands 0.5 m above ground.
  \<^item> \<open>Reclassify\<close>: QGIS \<open>native:reclassifybytable\<close> (\<open>reclassifybytable\<close>, first
    match over \<open>(min, max, value)\<close> rows under one of four boundary policies, unmatched
    cells kept or set to no-data) and GRASS \<open>r.reclass\<close> with one \<open>thru\<close> rule.
    These algorithms are not in the repository and are modelled from the spec;
    \<open>script_reclass\<close> is the parameter set every call of the script passes.  The output
    type UInt32 that three calls ask for (\<open>DATA_TYPE 3\<close>, lines 454, 736, 768) is
    \<open>reclassifybytable_uint32\<close>: each value goes through \<open>uint32_cast\<close>, QGIS's
    \<open>static_cast<quint32>\<close> as x86-64 code performs it (truncation toward zero, then the
    low 32 bits of a \<open>32 word\<close>); C++ leaves negative values undefined, and this is the
    behaviour of the compiled QGIS on that platform.  Lemmas:
    the flat table round-trips with its rows, earlier rows take precedence, contiguous
    tables cover their span and are decided by the one row that holds a value, and
    reclassification is idempotent under a table that fixes the class codes, and a
    contiguous table whose codes do not decrease is monotone.
  \<^item> \<open>Tables\<close>: the script's twelve tables as the flat lists it writes, what each does
    to the values it is meant for, and the IUHD reclassification into UInt32
    (\<open>reclass_iuhd\<close>, lines 447--458).  Lemma: of two IUHD values in \<open>(-3, 100]\<close> the
    warmer never gets the lower tier.
  \<^item> \<open>Mosaic\<close>: \<open>mosaicrasters\<close> (lines 51--65) over an explicit disk (text files and
    rasters by path), its loop as a recursion with the loop variables in a record
    (\<open>mstate\<close>), numpy broadcasting in \<open>np_maximum\<close>, and the file lists the script
    writes for it.  Lemmas: the file list round-trips, the loop invariant (\<open>raster\<close> and
    \<open>baseraster\<close> are bound exactly after the first line), the empty list raises; on
    readable paths to equal-shaped tiles the loop refines \<open>mosaic_max\<close>, the spec's cell-wise
    maximum of the zeroed tiles, so the cells do not depend on the order of the list (the
    geotransform is the last tile's) and disjoint footprints are kept.

  \<^item> \<open>RasterCalc\<close>: \<open>gdal:rastercalculator\<close> (\<open>gdal_calc\<close>: inputs of equal size, no-data
    propagated to the output's no-data value, the formula on the other cells; modelled
    from spec 4.3) and every formula and call of the script (lines 548--1564) and of
    \<open>heatmappart\<close> (band threshold, lines 14--40; scaling, lines 75--98).  Lemmas: the spec's
    WMCA scenario (5 and 3 give 4.8), the cell rule of the WMCA overlay, the vegetation
    indicator, the roof-slope cut, the adult overlays' bounds, and that the six
    band masks sum to 1 on \<open>[1, \<infinity>)\<close> and to 0 below 1.
  \<^item> \<open>Heatmap\<close>: \<open>heatmappart\<close> (\<open>src/heatmappart.py\<close>) as the composition of its seven
    steps (threshold, pixels to points, \<open>VALUE = 1\<close>, kernel density, scaling, fill, warp)
    and the synthesizer \<open>heat_synth\<close> (lines 823--869: the six calls and their average).
    Pixels to points, the raw triweight kernel density (radius 400, pixel 10), fill and
    the nearest-neighbour warp to \<open>projwin\<close> at 10 m are modelled from spec 4.5.  Lemmas:
    the spec's synthesizer scenario (all cells 2: only band 2 contributes and the average
    is its surface over 6), a band with no hotspot gives the all-zero surface, every
    surface is non-negative, \<open>heatmappart\<close> fails exactly on a ragged source raster, and
    the density lies between 0 and the number of points.

  \<^item> \<open>FieldCalc\<close>: the IUHD chain (lines 252--411): \<open>native:zonalstatistics\<close> written in
    place and ten \<open>native:fieldcalculator\<close> steps on the 100 m grid, the QGIS expressions
    as a datatype \<open>qexpr\<close> evaluated with QGIS's \<open>NULL\<close> rules, every stored field
    rounded to the three decimals of its shapefile column.  \<open>iuhd_layer\<close> is the chain on
    the layer, \<open>iuhd_feature\<close> on one grid cell and \<open>iuhd_of\<close> its closed form.  Lemmas:
    the layer chain refines the closed form, IUHD lies in \<open>[-3, 15.48]\<close>, the warming
    term in \<open>[0, 15.48]\<close>, IUHD is \<open>NULL\<close> exactly when the vegetation fraction is, and
    a vegetated cell without buildings gets exactly -3.  The same theory holds the adult
    model's other two field calculators: the FAI clamp (\<open>faibuild_layer\<close>, lines
    907--916: \<open>Morph_fai\<close> capped at 0.9, so a non-negative index lands in \<open>[0, 0.9]\<close>)
    and the wind speed by height (\<open>dem_mean_layer\<close>, \<open>wsheight_layer\<close>, lines
    990--1022: the power law \<open>2.6 * (mean / 2) ^ 0.2\<close>, with QGIS's \<open>^\<close>, \<open>q_pow\<close>,
    \<open>NULL\<close> for a negative base with a fractional exponent).
  \<^item> \<open>Pipeline\<close>: the shared dictionary \<open>outputs\<close>: every store into it and every read
    from it, in the script's order and with their lines (\<open>script\<close>, in seven sections
    following the script's model sections), the three \<open>if\<close> statements that touch it
    as branches on a configuration (\<open>cond\<close>), and Python's \<open>KeyError\<close>.  The keys are
    interned for evaluation (\<open>run_script\<close>) and proved to agree with the string keys
    (\<open>run_script_str\<close>).  Lemmas: with a precomputed ocean distance no read fails and the
    four final artifacts are stored; with \<open>oceanDist = ''\<close> the script stops with
    \<open>KeyError\<close> at line 189.  A static check in the style of definite initialisation
    (\<open>check_stmts\<close>: the fields each key is sure to hold, the two sides of an open branch
    joined by intersection) is proved sound, and the script passes it with the ocean
    distance given and the other two conditions open.
  \<^item> \<open>Settings\<close>: the settings block (lines 66--91) as a record with the values the
    script ships with (\<open>uppsala_settings\<close>) and the three \<open>if\<close> conditions computed
    from it (\<open>script_cond\<close>); the existence of \<open>wallheight.tif\<close> is an argument.
    Lemma: the shipped configuration runs to the end with the four artifacts, and
    \<open>oceanDist = ''\<close> stops it (an instance of the \<open>Pipeline\<close> lemmas).
  \<^item> \<open>Stages\<close>: raster stages of the script composed from the services above in the
    script's order, with the parameters of each call: the LAI layer (\<open>lai_stage\<close>:
    \<open>native:fillnodata\<close> with 0, then \<open>laitable\<close> and \<open>nozerotable\<close>; lines 919--926,
    1105--1115, 1298--1308) and the oviposition land cover and land use (\<open>lclu_stage\<close>,
    lines 546--795): the roof layer (\<open>roofs_stage\<close>: slope masked to buildings, warped
    to the 10 m window by \<open>gdal_warp\<close>, cut at 8 degrees, \<open>r.reclass\<close> to 129), the
    land-cover mosaic with the roofs and its reclassification (\<open>landcover_stage\<close>), the
    land-use mosaic, fill and reclassification (\<open>landuse_stage\<close>), both into UInt32, and
    their average.
    \<open>gdal_warp\<close> is GDAL's nearest-neighbour warp with the source's no-data value
    (modelled from the spec and GDAL's documented rule); on a source without no-data it is
    the heatmap's \<open>warp_nn\<close>.  Lemmas: every cell of the LAI layer, former no-data
    included, gets a class, and a roof sloping less than 8 degrees becomes land-cover
    class 4 while every other cell, a roof of exactly 8 degrees included, gets its land
    cover's class.
  \<^item> \<open>Adult\<close>: the adult-habitat branch (lines 1002--1564) as stages in the same style:
    the small-scale wind layer (\<open>laifai_stage\<close>: the LAI stage with the filled FAI layers
    of vegetation and buildings, \<open>laifaitable\<close>, zero to one), the vegetation heights
    (\<open>vegheight_stage\<close>: the two filled height layers mosaicked by \<open>mosaicrasters\<close>,
    masked to the NMD vegetation codes, \<open>vegheighttable\<close>, zero to one), the large-scale
    wind layer (\<open>wind_stage\<close>), the land-cover vector classes
    (\<open>reclass_lcvector\<close>, the field calculator of lines 874--884) and the two overlays
    (\<open>adult_stage\<close>).  Every
    \<open>native:fillnodata\<close> call of the script is a definition of \<open>Stages\<close> or \<open>Adult\<close>.
    Lemmas: the LAI-FAI layer has a class in every cell, a vegetation-height cell is the
    class of the taller height over vegetation and 1 elsewhere, the wind layer lies in
    \<open>[1.5, 10]\<close>, and on class layers in \<open>[1, 10]\<close> the adult composite stays in
    \<open>[1, 10]\<close> (the two overlays' weights together sum to 1).
  \<^item> This theory: the properties that follow a grid cell from the field calculators through
    the IUHD reclassification into the WMCA oviposition overlay (the coolest cells are left
    untiered, wrap to \<open>2^32 - 3\<close> in the UInt32 output and dominate the overlay; every
    other value gets a tier), and from its mean elevation through the wind-speed table
    (between 1 m and 10 km a class in \<open>[2, 10]\<close>; above 104 m the calm class 10).

  \<^bold>\<open>Modelling choices.\<close>  Cell values are \<open>real\<close>: the script's float64 arrays and
  Float32 outputs with exact arithmetic; Float32 rounding and the decimal printing of
  \<open>str\<close> are not modelled; the three UInt32 outputs are cast as described above.  The disk is an explicit pair of maps.  Every Python exception a
  modelled step can raise is an \<open>Inl\<close> of \<open>py_error\<close>.  No loop of the program can fail
  to terminate: every loop is over a finite list, and every recursion is structural.

  \<^bold>\<open>Not modelled (yet).\<close>  Vector operations (clip, buffer, extract by expression,
  zonal statistics, morphometric calculators), rasterisation, reprojection and
  slope and proximity are QGIS/GDAL/GRASS services with no code in the repository;
  file copying and printing are I/O.  The heatmap's kernel density estimate is modelled
  from the spec only as far as \<open>heatmappart\<close> uses it, and the nearest-neighbour warp
  as far as \<open>heatmappart\<close> and the roof layer of \<open>Stages\<close> use it.  The rasters the
  stages start from (clips, rasterised grids, slope, proximity) are their inputs.  The
  zonal statistics' sums, counts and means and the morphometric \<open>Morph_fai\<close> are
  inputs of the field calculators, and the rasterisation of their results is not
  modelled (every \<open>native:fieldcalculator\<close> call of the script is).  The
  dictionary
  \<open>outputs\<close> is modelled by the names it stores, not by the data behind them.
\<close>

section \<open>Properties across components\<close>

text \<open>The IUHD raster is the grid's \<open>IUHD\<close> field burnt into 10 m cells
  (\<open>gdal:rasterize\<close>, lines 415--430, no \<open>NODATA\<close>), then reclassified by
  \<open>iuhdtable\<close> into the UInt32 raster \<open>IUHD_final\<close> (\<open>reclass_iuhd\<close>, lines 433--458),
  which the WMCA oviposition overlay weighs by 0.1 (lines 799--821).  The properties below
  follow one grid cell through the field calculators (theory \<open>FieldCalc\<close>), the
  reclassification (theories \<open>Reclassify\<close> and \<open>Tables\<close>) and the overlay
  (\<open>RasterCalc\<close>).  The burnt raster is an input, related to the grid by the value of the
  cell in question.\<close>

subsection \<open>Helper lemmas\<close>

lemma iuhd_minus3_final: "uint32_cast (script_cell iuhdtable None (-3)) = 4294967293"
  by (simp add: script_cell_def reclass_cell_def iuhdtable_def uint32_cast_def trunc_real_def)

lemma wmca_ovi_cell:
  assumes "rect m n (cells a)" "rect m n (cells b)" "in_grid m n i j"
    and "\<not> is_nd (nodata a) (cells a ! i ! j)" "\<not> is_nd (nodata b) (cells b ! i ! j)"
  shows "\<exists>w. calc_wmca_ovi a b = Inr w \<and> cells w ! i ! j = f_wmca_ovi (cells a ! i ! j) (cells b ! i ! j)"
  using assms
  by (simp add: calc_wmca_ovi_def gdal_calc_rect calc_at_val)

lemma wsheight_above_top_band:
  assumes "104 \<le> m"
  shows "5.7218 < round3 (2.6 * (m / 2) powr 0.2)"
proof -
  have "(2.201 :: real) ^ 5 \<le> 52" by (simp add: power_divide)
  then have "(2.201 ^ 5) powr (1 / 5 :: real) \<le> (m / 2) powr (1 / 5)"
    using assms by (intro powr_mono2) simp_all
  then have "2.201 \<le> (m / 2) powr (1 / 5)" using fifth_root_pow5 [of "2.201"] by simp
  then have "5.7226 \<le> 2.6 * (m / 2) powr 0.2" unfolding fifth by simp
  with round3_ge [of "2.6 * (m / 2) powr 0.2"] show ?thesis by simp
qed

text \<open>C8: a grid cell without buildings and fully covered by vegetation reaches the
  reclassification with IUHD exactly -3, which the first row \<open>(-3, -2.33]\<close> does not hold,
  so the value is kept; written as UInt32 it wraps to \<open>2^32 - 3\<close>.  In \<open>IUHD_final\<close> the
  coolest cells thus hold 4294967293 instead of tier 1, and the WMCA oviposition overlay
  gives them \<open>0.9 * LCLU + 429496729.3\<close>, far outside the scale of the other cells.\<close>

theorem iuhd_vegetated_cell_untiered:
  assumes veg: "zpai ZSum = Some 0" "zpaiv ZSum = Some c" "zpaiv ZCount = Some c" "c \<noteq> 0"
    and burnt: "iuhd_feature cs zwa zpai zpaiv ft ''IUHD'' = Some (cells u ! i ! j)"
    and shape: "rect m n (cells u)" "nodata u = None" "rect m n (cells lclu)" "in_grid m n i j"
    and lclu: "\<not> is_nd (nodata lclu) (cells lclu ! i ! j)"
  shows "\<exists>r w. reclass_iuhd u = Inr r \<and> cells r ! i ! j = 4294967293 \<and>
               calc_wmca_ovi lclu r = Inr w \<and> cells w ! i ! j = cells lclu ! i ! j * 0.9 + 429496729.3"
proof -
  have "cells u ! i ! j = -3"
    using iuhd_full_vegetation [where zpai = zpai and zpaiv = zpaiv and c = c and cs = cs and zwa = zwa and ft = ft, OF veg] burnt by simp
  then have cell: "uint32_cast (script_cell iuhdtable None (cells u ! i ! j)) = 4294967293"
    by (simp only: iuhd_minus3_final)
  let ?r = "u\<lparr>cells := gmap (\<lambda>v. uint32_cast (script_cell iuhdtable None v)) (cells u), nodata := Some (-9999)\<rparr>"
  have r: "reclass_iuhd u = Inr ?r" by (rule reclass_iuhd_cells [OF shape(2)])
  have rij: "cells ?r ! i ! j = 4294967293"
    using rect_idx [OF shape(1,4)] cell by (simp add: gmap_nth)
  have "rect m n (cells ?r)" using shape(1) by (simp add: rect_gmap)
  from wmca_ovi_cell [OF shape(3) this shape(4) lclu] rij
  obtain w where "calc_wmca_ovi lclu ?r = Inr w"
    "cells w ! i ! j = f_wmca_ovi (cells lclu ! i ! j) 4294967293" by auto
  with r rij show ?thesis by (simp add: f_wmca_ovi_def)
qed

text \<open>C10: every other IUHD value the chain produces for a grid cell with a vegetation
  fraction is reclassified into one of the ten tiers.\<close>

theorem iuhd_tiers:
  assumes "zpaiv ZSum = Some s" "zpaiv ZCount = Some c" "0 \<le> s" "s \<le> c" "0 < c"
  shows "\<exists>x. iuhd_feature cs zwa zpai zpaiv ft ''IUHD'' = Some x \<and>
             (x = -3 \<or> script_cell iuhdtable None x \<in> {1, 2, 3, 4, 5, 6, 7, 8, 9, 10})"
proof -
  obtain x where x: "iuhd_feature cs zwa zpai zpaiv ft ''IUHD'' = Some x" "-3 \<le> x" "x \<le> 15.48"
    using iuhd_feature_range [OF assms] by blast
  have "script_cell iuhdtable None x \<in> {1, 2, 3, 4, 5, 6, 7, 8, 9, 10}" if "x \<noteq> -3"
  proof -
    from that x(2,3) have lo: "-3 < x" and hi: "x \<le> 100" by simp_all
    have "script_cell iuhdtable None x \<in> codes (triples iuhdtable)"
      by (rule script_cell_in_codes) (simp_all add: contiguous_tables lo hi, simp_all add: iuhdtable_def lo hi)
    moreover have "codes (triples iuhdtable) = {1, 2, 3, 4, 5, 6, 7, 8, 9, 10}"
      by (simp add: iuhdtable_def codes_def)
    ultimately show ?thesis by simp
  qed
  with x(1) show ?thesis by blast
qed

text \<open>The wind speed by height is the grid's \<open>WSHeight\<close> field burnt into 10 m cells
  with \<open>NODATA 0\<close> (lines 1208--1223), then reclassified by \<open>windheighttable\<close> (lines
  1258--1281).  The next two properties follow one grid cell's mean elevation there.\<close>

text \<open>C15: for a grid cell whose mean elevation lies between 1 m and 10 km, the power law
  gives a wind speed in \<open>[1.3, 15.6]\<close>, which is not the no-data value 0 of the
  rasterised layer, and \<open>windheighttable\<close> gives it a class in \<open>[2, 10]\<close>.\<close>

theorem wind_cell_class:
  assumes "i < length grid" "length zdem = length grid" "(zdem ! i) ZMean = Some m"
      and "1 \<le> m" "m \<le> 10000"
  shows "\<exists>w. (wsheight_layer zdem grid ! i) ''WSHeight'' = Some w \<and> 1.3 \<le> w \<and> w \<le> 15.6 \<and>
             2 \<le> script_cell windheighttable (Some 0) w \<and> script_cell windheighttable (Some 0) w \<le> 10"
proof -
  let ?w = "round3 (2.6 * (m / 2) powr 0.2)"
  have b: "1.3 \<le> ?w \<and> ?w \<le> 15.6" by (rule wsheight_bounds [OF assms(4,5)])
  then have "2 \<le> script_cell windheighttable (Some 0) ?w \<and> script_cell windheighttable (Some 0) ?w \<le> 10"
    by (intro windheight_class) simp_all
  moreover have "(wsheight_layer zdem grid ! i) ''WSHeight'' = Some ?w"
    using wsheight_layer_nth [OF assms(1,2)] assms(3,4) by simp
  ultimately show ?thesis using b by blast
qed

text \<open>C16: high ground reads as calm: for a grid cell whose mean elevation lies between
  104 m and 10 km, the power law gives a wind speed above 5.7218, in the table's last band
  \<open>(5.7218, 100]\<close>, whose class 10 is that of the calmest band \<open>(0, 1.6482]\<close>; below
  that elevation the classes fall from 8 towards 2 as the wind rises.\<close>

theorem wind_high_ground_calm:
  assumes "i < length grid" "length zdem = length grid" "(zdem ! i) ZMean = Some m"
      and "104 \<le> m" "m \<le> 10000"
  shows "\<exists>w. (wsheight_layer zdem grid ! i) ''WSHeight'' = Some w \<and> 5.7218 < w \<and>
             script_cell windheighttable (Some 0) w = 10 \<and> script_cell windheighttable (Some 0) 1 = 10"
proof -
  let ?w = "round3 (2.6 * (m / 2) powr 0.2)"
  have lo: "5.7218 < ?w" by (rule wsheight_above_top_band [OF assms(4)])
  have hi: "?w \<le> 15.6" using wsheight_bounds [of m] assms(4,5) by simp
  have "script_cell windheighttable (Some 0) ?w = 10"
    by (rule script_cell_row [of _ "5.7218" 100]) (use lo hi in \<open>simp_all add: contiguous_tables windheighttable_def\<close>)
  moreover have "script_cell windheighttable (Some 0) 1 = 10"
    by (simp add: script_cell_def reclass_cell_def windheighttable_def)
  moreover have "(wsheight_layer zdem grid ! i) ''WSHeight'' = Some ?w"
    using wsheight_layer_nth [OF assms(1,2)] assms(3,4) by simp
  ultimately show ?thesis using lo by blast
qed

subsection \<open>Witnesses\<close>

theorem iuhd_vegetated_cell_untiered_witness:
  "(\<exists>r w. reclass_iuhd \<lparr>cells = [[-3]], nodata = None, geo = geo ref_raster\<rparr> = Inr r \<and> cells r ! 0 ! 0 = 4294967293 \<and>
          calc_wmca_ovi \<lparr>cells = [[5]], nodata = None, geo = geo ref_raster\<rparr> r = Inr w \<and>
          cells w ! 0 ! 0 = 5 * 0.9 + 429496729.3)"
proof -
  have "iuhd_feature 0.5 (\<lambda>_. None) (\<lambda>_. Some 0) (\<lambda>_. Some 1) Map.empty ''IUHD'' =
        Some (cells \<lparr>cells = [[-3 :: real]], nodata = None, geo = geo ref_raster\<rparr> ! 0 ! 0)"
    using iuhd_full_vegetation [where zpai = "\<lambda>_. Some 0" and zpaiv = "\<lambda>_. Some 1" and c = 1
        and cs = "0.5" and zwa = "\<lambda>_. None" and ft = Map.empty] by simp
  then show ?thesis
    using iuhd_vegetated_cell_untiered [where zpai = "\<lambda>_. Some 0" and zpaiv = "\<lambda>_. Some 1" and c = 1
        and cs = "0.5" and zwa = "\<lambda>_. None" and ft = Map.empty and u = "\<lparr>cells = [[-3]], nodata = None, geo = geo ref_raster\<rparr>"
        and lclu = "\<lparr>cells = [[5]], nodata = None, geo = geo ref_raster\<rparr>" and m = 1 and n = 1 and i = 0 and j = 0]
    by (simp add: rect_def)
qed

theorem iuhd_tiers_witness:
  "\<exists>x. iuhd_feature 0.5 (\<lambda>_. None) (\<lambda>_. Some 1) (\<lambda>_. Some 1) Map.empty ''IUHD'' = Some x \<and>
       (x = -3 \<or> script_cell iuhdtable None x \<in> {1, 2, 3, 4, 5, 6, 7, 8, 9, 10})"
  using iuhd_tiers [where zpaiv = "\<lambda>_. Some 1" and s = 1 and c = 1 and cs = "0.5"
      and zwa = "\<lambda>_. None" and zpai = "\<lambda>_. Some 1" and ft = Map.empty]
  by simp

theorem wind_cell_class_witness:
  "0 < length [Map.empty :: feature] \<and> length [\<lambda>_ :: zstat. Some (64 :: real)] = length [Map.empty :: feature] \<and>
   1 \<le> (64 :: real) \<and> (64 :: real) \<le> 10000 \<and>
   (wsheight_layer [\<lambda>_. Some 64] [Map.empty] ! 0) ''WSHeight'' = Some 5.2 \<and>
   (\<exists>w. (wsheight_layer [\<lambda>_. Some 64] [Map.empty] ! 0) ''WSHeight'' = Some w \<and> 1.3 \<le> w \<and> w \<le> 15.6 \<and>
        2 \<le> script_cell windheighttable (Some 0) w \<and> script_cell windheighttable (Some 0) w \<le> 10)"
proof -
  have "(wsheight_layer [\<lambda>_. Some 64] [Map.empty] ! 0) ''WSHeight'' = Some 5.2"
    using wsheight_layer_nth [of 0 "[Map.empty]" "[\<lambda>_. Some 64]"]
    unfolding fifth by (simp add: fifth_roots round3_def)
  then show ?thesis
    using wind_cell_class [where i = 0 and grid = "[Map.empty]" and zdem = "[\<lambda>_. Some 64]" and m = 64]
    by simp
qed

theorem wind_high_ground_calm_witness:
  "0 < length [Map.empty :: feature] \<and> length [\<lambda>_ :: zstat. Some (150 :: real)] = length [Map.empty :: feature] \<and>
   104 \<le> (150 :: real) \<and> (150 :: real) \<le> 10000 \<and>
   (\<exists>w. (wsheight_layer [\<lambda>_. Some 150] [Map.empty] ! 0) ''WSHeight'' = Some w \<and> 5.7218 < w \<and>
        script_cell windheighttable (Some 0) w = 10 \<and> script_cell windheighttable (Some 0) 1 = 10)"
  using wind_high_ground_calm [where i = 0 and grid = "[Map.empty]" and zdem = "[\<lambda>_. Some 150]" and m = 150]
  by simp

end
